(* ===== verification/DRM_Prelude.thy ===== *)
theory DRM_Prelude
  imports Main "HOL-Library.Word" "HOL-Library.Product_Lexorder" "HOL-Library.Multiset"
begin

text \<open>
  Shared vocabulary of the model of \<^verbatim>\<open>src/linux-core/drm_crtc.c\<close>: the error
  values of the ioctl entry points, the outcome type of code that may fault, the
  list combinators that stand for the source's \<^verbatim>\<open>list_for_each_entry\<close> loops
  (update every entry that satisfies a test, find the first index that satisfies a
  test), and the generic lemmas about them that the component theories use.
\<close>

unbundle bit_operations_syntax

named_theorems drm_list_simps "rewriting of the list loops of the model"

section \<open>Errors and faults\<close>

text \<open>
  The source returns negative errno values; the model returns an \<open>Inl\<close> of this
  datatype and \<open>Inr\<close> on success. A call through a NULL function pointer or a
  dangling object pointer is not an error return but a kernel fault: such code
  returns \<open>None\<close> in the model, every other outcome is \<open>Some\<close>.
\<close>

datatype drm_errno = EINVAL | ENOMEM | EFAULT

type_synonym 'a drm_result = "drm_errno + 'a"

type_synonym 'a faulting = "'a option"

section \<open>Loops over lists\<close>

text \<open>
  \<open>map_at P f xs\<close> is the loop
  \<^verbatim>\<open>list_for_each_entry(e, xs, head) if (P(e)) f(e);\<close>
  that updates in place every entry that passes the test.
\<close>

definition map_at :: "('a \<Rightarrow> bool) \<Rightarrow> ('a \<Rightarrow> 'a) \<Rightarrow> 'a list \<Rightarrow> 'a list" where
  "map_at P f xs = map (\<lambda>x. if P x then f x else x) xs"

text \<open>
  \<open>find_idx P xs\<close> is the loop
  \<^verbatim>\<open>for (i = 0; i < N; i++) if (P(xs[i])) break; if (i == N) fail;\<close>
  with its fall-through as \<open>None\<close>.
\<close>

fun find_idx :: "('a \<Rightarrow> bool) \<Rightarrow> 'a list \<Rightarrow> nat option" where
  "find_idx P [] = None"
| "find_idx P (x # xs) = (if P x then Some 0 else map_option Suc (find_idx P xs))"

text \<open>
  \<open>del_key k a xs\<close> is \<^verbatim>\<open>list_del(&obj->head)\<close> for the object whose key is
  \<open>a\<close>: the first entry with that key leaves the list.
\<close>

fun del_key :: "('a \<Rightarrow> 'k) \<Rightarrow> 'k \<Rightarrow> 'a list \<Rightarrow> 'a list" where
  "del_key k a [] = []"
| "del_key k a (x # xs) = (if k x = a then xs else x # del_key k a xs)"

text \<open>
  \<open>nat_to_dec n\<close> is what \<^verbatim>\<open>snprintf(buf, size, "%d", n)\<close> prints for a non-negative
  \<open>n\<close>; \<open>dec_value\<close> reads a string of digits back.
\<close>

fun nat_to_dec :: "nat \<Rightarrow> string" where
  "nat_to_dec n = (if n < 10 then [char_of (48 + n)] else nat_to_dec (n div 10) @ [char_of (48 + n mod 10)])"

definition dec_value :: "string \<Rightarrow> nat" where
  "dec_value cs = foldl (\<lambda>acc c. 10 * acc + (of_char c - 48)) 0 cs"

subsection \<open>Lemmas on \<open>map_at\<close>\<close>

lemma map_at_Nil [simp, drm_list_simps]: "map_at P f [] = []"
  by (simp add: map_at_def)

lemma map_at_Cons [simp, drm_list_simps]:
  "map_at P f (x # xs) = (if P x then f x else x) # map_at P f xs"
  by (simp add: map_at_def)

lemma length_map_at [simp]: "length (map_at P f xs) = length xs"
  by (simp add: map_at_def)

lemma nth_map_at [simp]:
  "i < length xs \<Longrightarrow> map_at P f xs ! i = (if P (xs ! i) then f (xs ! i) else xs ! i)"
  by (simp add: map_at_def)

lemma map_map_at_frame:
  assumes "\<And>x. P x \<Longrightarrow> g (f x) = g x"
  shows "map g (map_at P f xs) = map g xs"
  using assms by (induction xs) auto

lemma map_at_map_at:
  assumes "\<And>x. P x \<Longrightarrow> P (f x)"
  shows "map_at P g (map_at P f xs) = map_at P (g \<circ> f) xs"
  using assms by (induction xs) auto

lemma map_at_map_at_other:
  assumes "\<And>x. P x \<Longrightarrow> Q (f x) = Q x" and "\<And>x. Q x \<Longrightarrow> P (g x) = P x"
    and "\<And>x. P x \<Longrightarrow> Q x \<Longrightarrow> False"
  shows "map_at Q g (map_at P f xs) = map_at P f (map_at Q g xs)"
  using assms by (induction xs) auto

lemma map_at_cong:
  assumes "\<And>x. x \<in> set xs \<Longrightarrow> P x \<Longrightarrow> f x = g x"
  shows "map_at P f xs = map_at P g xs"
  using assms by (induction xs) auto

lemma find_map_at_same_key:
  assumes "\<And>x. P x \<Longrightarrow> k (f x) = k x" and "\<And>x. P x \<longleftrightarrow> k x = a"
  shows "find (\<lambda>x. k x = a) (map_at P f xs) = map_option f (find (\<lambda>x. k x = a) xs)"
  using assms by (induction xs) auto

lemma map_at_ident:
  assumes "\<And>x. x \<in> set xs \<Longrightarrow> \<not> P x"
  shows "map_at P f xs = xs"
  using assms by (induction xs) auto

lemma set_map_at_subset:
  "set (map_at P f xs) \<subseteq> set xs \<union> f ` {x \<in> set xs. P x}"
  by (induction xs) auto

lemma find_map_at_other_key:
  assumes "\<And>x. P x \<Longrightarrow> k (f x) = k x" and "\<And>x. P x \<Longrightarrow> k x \<noteq> a"
  shows "find (\<lambda>x. k x = a) (map_at P f xs) = find (\<lambda>x. k x = a) xs"
  using assms by (induction xs) auto

subsection \<open>Lemmas on \<open>find_idx\<close>\<close>

lemma find_idx_SomeD:
  "find_idx P xs = Some i \<Longrightarrow> i < length xs \<and> P (xs ! i) \<and> (\<forall>j < i. \<not> P (xs ! j))"
proof (induction xs arbitrary: i)
  case Nil
  then show ?case by simp
next
  case (Cons x xs)
  then show ?case
    by (auto split: if_splits simp: less_Suc_eq_0_disj)
qed

lemma find_idx_None_iff: "find_idx P xs = None \<longleftrightarrow> (\<forall>x \<in> set xs. \<not> P x)"
  by (induction xs) auto

lemma find_idx_first:
  assumes "i < length xs" and "P (xs ! i)" and "\<forall>j < i. \<not> P (xs ! j)"
  shows "find_idx P xs = Some i"
  using assms
proof (induction xs arbitrary: i)
  case Nil
  then show ?case by simp
next
  case (Cons x xs)
  show ?case
  proof (cases i)
    case 0
    with Cons.prems show ?thesis by simp
  next
    case (Suc k)
    with Cons.prems have "\<not> P x" by auto
    moreover from Suc Cons.prems have "find_idx P xs = Some k"
      by (intro Cons.IH) auto
    ultimately show ?thesis using Suc by simp
  qed
qed

subsection \<open>Lemmas on \<open>del_key\<close>\<close>

lemma set_del_key_subset: "set (del_key k a xs) \<subseteq> set xs"
  by (induction xs) auto

lemma del_key_keys:
  "distinct (map k xs) \<Longrightarrow> k ` set (del_key k a xs) = k ` set xs - {a}"
proof (induction xs)
  case Nil
  then show ?case by simp
next
  case (Cons x xs)
  then show ?case by (cases "k x = a") auto
qed

lemma distinct_del_key:
  "distinct (map k xs) \<Longrightarrow> distinct (map k (del_key k a xs))"
proof (induction xs)
  case Nil
  then show ?case by simp
next
  case (Cons x xs)
  then show ?case using set_del_key_subset [of k a xs] by auto
qed

lemma length_del_key:
  "a \<in> k ` set xs \<Longrightarrow> Suc (length (del_key k a xs)) = length xs"
  by (induction xs) auto

subsection \<open>Ranges of naturals\<close>

lemma map_update_same_key:
  assumes "f x = f (xs ! k)"
  shows "map f (xs[k := x]) = map f xs"
proof (cases "k < length xs")
  case True
  then have "(map f xs)[k := f (xs ! k)] = (map f xs)[k := map f xs ! k]" by simp
  then show ?thesis using assms by (simp add: map_update)
qed (simp add: map_update list_update_beyond)

lemma list_ex_map_at_key:
  assumes "\<And>x. P x \<Longrightarrow> k (f x) = k x"
  shows "list_ex (\<lambda>x. k x = a) (map_at P f xs) = list_ex (\<lambda>x. k x = a) xs"
  using assms by (induction xs) auto

lemma replicate_numeral: "replicate (numeral k) x = x # replicate (pred_numeral k) x"
  by (simp add: numeral_eq_Suc)

lemma replicate_2: "replicate 2 x = [x, x]"
  by (simp add: numeral_2_eq_2)

lemma nat_range_split:
  "(\<forall>k. i \<le> k \<and> Q k \<longrightarrow> P k) \<longleftrightarrow> ((Q i \<longrightarrow> P i) \<and> (\<forall>k. Suc i \<le> k \<and> Q k \<longrightarrow> P k))"
  by (metis Suc_le_eq le_eq_less_or_eq order_refl)

subsection \<open>Lookup by key in a list with distinct keys\<close>

lemma find_key_Some_in_set:
  "find (\<lambda>x. k x = a) xs = Some y \<Longrightarrow> y \<in> set xs \<and> k y = a"
  by (auto simp: find_Some_iff)

lemma find_key_eqI:
  assumes "distinct (map k xs)" and "y \<in> set xs" and "k y = a"
  shows "find (\<lambda>x. k x = a) xs = Some y"
  using assms by (induction xs) (auto simp: image_iff)

lemma find_key_None_iff:
  "find (\<lambda>x. k x = a) xs = None \<longleftrightarrow> a \<notin> k ` set xs"
  by (auto simp: find_None_iff)

lemma distinct_map_map_at:
  assumes "\<And>x. P x \<Longrightarrow> k (f x) = k x"
  shows "distinct (map k (map_at P f xs)) = distinct (map k xs)"
  by (simp add: map_map_at_frame assms)


lemma find_map_at_const: "find P xs = Some p \<Longrightarrow> P p' \<Longrightarrow> find P (map_at P (\<lambda>_. p') xs) = Some p'"
  by (induction xs) (auto simp: map_at_def split: if_splits)

subsection \<open>Lookup by position\<close>

lemma set_del_key_distinct:
  "distinct (map k xs) \<Longrightarrow> x \<in> set (del_key k a xs) \<longleftrightarrow> x \<in> set xs \<and> k x \<noteq> a"
  by (induction xs) (auto simp: image_iff)

lemma find_idx_find:
  "find_idx P xs = Some i \<Longrightarrow> find P xs = Some (xs ! i)"
  by (induction xs arbitrary: i) (auto split: if_splits)

lemma find_idx_find_update:
  "find_idx P xs = Some i \<Longrightarrow> P x \<Longrightarrow> find P (xs[i := x]) = Some x"
  by (induction xs arbitrary: i) (auto split: if_splits nat.splits)

lemma find_Some_find_idx:
  "find P xs = Some x \<Longrightarrow> \<exists>i. find_idx P xs = Some i"
  by (induction xs) auto

lemma find_idx_append_last:
  "\<not> list_ex P xs \<Longrightarrow> P x \<Longrightarrow> find_idx P (xs @ [x]) = Some (length xs)"
  by (induction xs) auto

lemma map_at_inverse:
  assumes "\<And>x. x \<in> set xs \<Longrightarrow> P x \<Longrightarrow> P (f x) \<and> g (f x) = x"
  shows "map_at P g (map_at P f xs) = xs"
  using assms by (induction xs) auto

lemma find_map_option: "find P (map f xs) = map_option f (find (P \<circ> f) xs)"
  by (induction xs) auto

subsection \<open>Decimal printing\<close>

lemma of_char_digit [simp]: "d < 10 \<Longrightarrow> of_char (char_of (48 + d) :: char) = 48 + (d::nat)"
  by (simp add: of_char_of)

declare nat_to_dec.simps [simp del]

lemma dec_value_append [simp]:
  "dec_value (cs @ [c]) = 10 * dec_value cs + (of_char c - 48)"
  by (simp add: dec_value_def)

lemma dec_value_nat_to_dec [simp]: "dec_value (nat_to_dec n) = n"
proof (induction n rule: nat_to_dec.induct)
  case (1 n)
  show ?case
  proof (cases "n < 10")
    case True
    then show ?thesis by (simp add: nat_to_dec.simps dec_value_def)
  next
    case False
    then show ?thesis using 1 by (simp add: nat_to_dec.simps [of n])
  qed
qed

lemma nat_to_dec_length: "n < 10 ^ k \<Longrightarrow> 0 < k \<Longrightarrow> length (nat_to_dec n) \<le> k"
proof (induction n arbitrary: k rule: nat_to_dec.induct)
  case (1 n)
  show ?case
  proof (cases "n < 10")
    case True
    then show ?thesis using 1 by (simp add: nat_to_dec.simps)
  next
    case False
    then obtain j where k: "k = Suc j" using 1 by (cases k) auto
    have "n div 10 < 10 ^ j" using 1 k by (simp add: less_mult_imp_div_less mult.commute)
    moreover have "0 < j" using False 1 k by (cases j) auto
    ultimately show ?thesis using 1 False k by (simp add: nat_to_dec.simps [of n])
  qed
qed

end
