(* ===== verification/DRM_Mode.thy ===== *)
theory DRM_Mode
  imports DRM_Prelude
begin

text \<open>
  Display modes (\<^verbatim>\<open>struct drm_display_mode\<close>): the timing record, its status
  and type bits, the full-timing comparison \<open>drm_mode_equal\<close>, the built-in
  640x480 fallback \<open>std_mode\<close> of \<^verbatim>\<open>drm_crtc.c\<close>, and the refresh
  derivation and sort order used by the prober. \<open>drm_mode_equal\<close>, the refresh
  and the sort live in \<^verbatim>\<open>drm_modes.c\<close>, which is not part of the sources
  here; they are modelled from the specification (section 4.3).
\<close>

section \<open>The mode record\<close>

datatype drm_mode_status =
    MODE_OK | MODE_HSYNC | MODE_VSYNC | MODE_BAD_WIDTH | MODE_NOMODE
  | MODE_VIRTUAL_X | MODE_VIRTUAL_Y | MODE_NOCLOCK | MODE_CLOCK_HIGH | MODE_CLOCK_LOW
  | MODE_UNVERIFIED | MODE_BAD | MODE_ERROR

record drm_display_mode =
  mode_id :: nat
  mode_name :: string
  mode_status :: drm_mode_status
  mode_type :: "32 word"
  clock :: int
  hdisplay :: int
  hsync_start :: int
  hsync_end :: int
  htotal :: int
  hskew :: int
  vdisplay :: int
  vsync_start :: int
  vsync_end :: int
  vtotal :: int
  vscan :: int
  mode_flags :: "32 word"
  vrefresh :: int

text \<open>Type bits (\<^verbatim>\<open>DRM_MODE_TYPE_*\<close>) and sync flags (\<^verbatim>\<open>V_*\<close>).\<close>

definition DRM_MODE_TYPE_BUILTIN :: "32 word" where "DRM_MODE_TYPE_BUILTIN = 1"
definition DRM_MODE_TYPE_PREFERRED :: "32 word" where "DRM_MODE_TYPE_PREFERRED = 8"
definition DRM_MODE_TYPE_DEFAULT :: "32 word" where "DRM_MODE_TYPE_DEFAULT = 16"
definition DRM_MODE_TYPE_USERDEF :: "32 word" where "DRM_MODE_TYPE_USERDEF = 32"
definition DRM_MODE_TYPE_DRIVER :: "32 word" where "DRM_MODE_TYPE_DRIVER = 64"

definition V_NHSYNC :: "32 word" where "V_NHSYNC = 2"
definition V_NVSYNC :: "32 word" where "V_NVSYNC = 8"

lemmas drm_mode_bits = DRM_MODE_TYPE_BUILTIN_def DRM_MODE_TYPE_PREFERRED_def
  DRM_MODE_TYPE_DEFAULT_def DRM_MODE_TYPE_USERDEF_def DRM_MODE_TYPE_DRIVER_def
  V_NHSYNC_def V_NVSYNC_def

definition mode_preferred :: "drm_display_mode \<Rightarrow> bool" where
  "mode_preferred m \<longleftrightarrow> mode_type m AND DRM_MODE_TYPE_PREFERRED \<noteq> 0"

section \<open>Full-timing equality\<close>

text \<open>
  Two modes are equal when every timing field and the flags agree; the identifier,
  name, status, type and refresh are not compared.
\<close>

definition drm_mode_equal :: "drm_display_mode \<Rightarrow> drm_display_mode \<Rightarrow> bool" where
  "drm_mode_equal a b \<longleftrightarrow>
     clock a = clock b \<and> hdisplay a = hdisplay b \<and> hsync_start a = hsync_start b \<and>
     hsync_end a = hsync_end b \<and> htotal a = htotal b \<and> hskew a = hskew b \<and>
     vdisplay a = vdisplay b \<and> vsync_start a = vsync_start b \<and>
     vsync_end a = vsync_end b \<and> vtotal a = vtotal b \<and> vscan a = vscan b \<and>
     mode_flags a = mode_flags b"

section \<open>The built-in fallback mode\<close>

text \<open>\<^verbatim>\<open>std_mode[0]\<close>: \<^verbatim>\<open>DRM_MODE("640x480", DRM_MODE_TYPE_DEFAULT, 25200, ...)\<close>.\<close>

definition std_mode :: drm_display_mode where
  "std_mode = \<lparr>mode_id = 0, mode_name = ''640x480'', mode_status = MODE_OK,
     mode_type = DRM_MODE_TYPE_DEFAULT, clock = 25200,
     hdisplay = 640, hsync_start = 656, hsync_end = 752, htotal = 800, hskew = 0,
     vdisplay = 480, vsync_start = 490, vsync_end = 492, vtotal = 525, vscan = 0,
     mode_flags = V_NHSYNC OR V_NVSYNC, vrefresh = 0\<rparr>"

section \<open>Refresh and sort order (prober helpers)\<close>

text \<open>
  The refresh rate in Hz derived from the timing: the pixel clock (kHz) over the
  pixels of a frame; a stored positive refresh is kept.
\<close>

definition drm_mode_vrefresh :: "drm_display_mode \<Rightarrow> int" where
  "drm_mode_vrefresh m =
     (if 0 < vrefresh m then vrefresh m
      else if 0 < htotal m \<and> 0 < vtotal m then clock m * 1000 div (htotal m * vtotal m)
      else 0)"

text \<open>
  The prober's order: larger width first, then larger height, then higher refresh,
  then preferred before not preferred; equal keys keep their order (stable sort).
\<close>

definition drm_mode_sort_key :: "drm_display_mode \<Rightarrow> int \<times> int \<times> int \<times> nat" where
  "drm_mode_sort_key m =
     (- hdisplay m, - vdisplay m, - drm_mode_vrefresh m, if mode_preferred m then 0 else 1)"

definition drm_mode_sort :: "drm_display_mode list \<Rightarrow> drm_display_mode list" where
  "drm_mode_sort ms = sort_key drm_mode_sort_key ms"

section \<open>Lemmas\<close>

text \<open>Timing equality as equality of one tuple, so that it is an equivalence.\<close>

definition mode_timing :: "drm_display_mode \<Rightarrow> int list \<times> 32 word" where
  "mode_timing m = ([clock m, hdisplay m, hsync_start m, hsync_end m, htotal m, hskew m,
     vdisplay m, vsync_start m, vsync_end m, vtotal m, vscan m], mode_flags m)"

lemma drm_mode_equal_timing: "drm_mode_equal a b \<longleftrightarrow> mode_timing a = mode_timing b"
  by (auto simp: drm_mode_equal_def mode_timing_def)

lemma drm_mode_equal_refl [simp]: "drm_mode_equal m m"
  by (simp add: drm_mode_equal_timing)

lemma drm_mode_equal_sym: "drm_mode_equal a b \<Longrightarrow> drm_mode_equal b a"
  by (simp add: drm_mode_equal_timing)

lemma drm_mode_equal_trans:
  "drm_mode_equal a b \<Longrightarrow> drm_mode_equal b c \<Longrightarrow> drm_mode_equal a c"
  by (simp add: drm_mode_equal_timing)

lemma mode_timing_update_id_status [simp]:
  "mode_timing (m\<lparr>mode_id := i\<rparr>) = mode_timing m"
  "mode_timing (m\<lparr>mode_status := s\<rparr>) = mode_timing m"
  "mode_timing (m\<lparr>vrefresh := r\<rparr>) = mode_timing m"
  "mode_timing (m\<lparr>mode_type := t\<rparr>) = mode_timing m"
  by (simp_all add: mode_timing_def)

lemma mset_drm_mode_sort [simp]: "mset (drm_mode_sort ms) = mset ms"
  by (simp add: drm_mode_sort_def)

lemma drm_mode_sort_Nil_iff [simp]: "drm_mode_sort ms = [] \<longleftrightarrow> ms = []"
  by (metis mset_drm_mode_sort mset_zero_iff)

lemma set_drm_mode_sort [simp]: "set (drm_mode_sort ms) = set ms"
  by (metis mset_drm_mode_sort set_mset_mset)

lemma sorted_drm_mode_sort: "sorted (map drm_mode_sort_key (drm_mode_sort ms))"
  by (simp add: drm_mode_sort_def)

end
