(* ===== verification/DRM_Idr.thy ===== *)
theory DRM_Idr
  imports DRM_Prelude
begin

text \<open>
  The identifier registry: \<^verbatim>\<open>drm_idr_get\<close> and \<^verbatim>\<open>drm_idr_put\<close> of
  \<^verbatim>\<open>drm_crtc.c\<close> over the kernel's \<^verbatim>\<open>idr\<close> (\<^verbatim>\<open>dev->mode_config.crtc_idr\<close>).
  The idr is a map from identifiers to the object they name; the model records the
  kind of the object (the object itself lives in the device's lists).
  \<^verbatim>\<open>idr_get_new_above(idr, ptr, 1, &id)\<close> hands out the least free identifier
  from 1 up to \<^verbatim>\<open>MAX_ID_MASK\<close>; when none is free, or the preallocation fails,
  \<^verbatim>\<open>drm_idr_get\<close> returns the 0 it was initialised with.
\<close>

datatype drm_obj_kind =
    DRM_OBJ_MODE | DRM_OBJ_CRTC | DRM_OBJ_OUTPUT | DRM_OBJ_FB | DRM_OBJ_PROPERTY | DRM_OBJ_BLOB

type_synonym drm_idr = "nat \<Rightarrow> drm_obj_kind option"

text \<open>The largest identifier of the kernel idr (\<^verbatim>\<open>MAX_ID_MASK\<close>, a positive \<^verbatim>\<open>int\<close>).\<close>

definition MAX_ID_MASK :: nat where
  "MAX_ID_MASK = 2147483647"

text \<open>The search of \<^verbatim>\<open>idr_get_new_above\<close>: the first free slot at or above \<open>i\<close>.\<close>

function idr_search :: "nat \<Rightarrow> drm_idr \<Rightarrow> nat option" where
  "idr_search i r = (if MAX_ID_MASK < i then None
                     else if r i = None then Some i
                     else idr_search (Suc i) r)"
  by pat_completeness auto
termination
  by (relation "measure (\<lambda>(i, r). Suc MAX_ID_MASK - i)") auto

declare idr_search.simps [simp del]

definition idr_find :: "drm_idr \<Rightarrow> nat \<Rightarrow> drm_obj_kind option" where
  "idr_find r i = r i"

text \<open>\<^verbatim>\<open>drm_idr_get\<close>: the new identifier and the registry that maps it.\<close>

definition drm_idr_get :: "drm_obj_kind \<Rightarrow> drm_idr \<Rightarrow> nat \<times> drm_idr" where
  "drm_idr_get k r = (case idr_search 1 r of None \<Rightarrow> (0, r) | Some i \<Rightarrow> (i, r(i \<mapsto> k)))"

definition drm_idr_put :: "nat \<Rightarrow> drm_idr \<Rightarrow> drm_idr" where
  "drm_idr_put i r = r(i := None)"

definition idr_empty :: drm_idr where
  "idr_empty = Map.empty"

section \<open>The search loop\<close>

lemma idr_search_SomeD:
  "idr_search i r = Some j \<Longrightarrow> i \<le> j \<and> j \<le> MAX_ID_MASK \<and> r j = None \<and> (\<forall>k. i \<le> k \<and> k < j \<longrightarrow> r k \<noteq> None)"
proof (induction i r rule: idr_search.induct)
  case (1 i r)
  show ?case
  proof (cases "MAX_ID_MASK < i \<or> r i = None")
    case True
    with "1.prems" show ?thesis by (auto simp: idr_search.simps [of i r] split: if_splits)
  next
    case False
    with "1.prems" have "idr_search (Suc i) r = Some j"
      by (auto simp: idr_search.simps [of i r] split: if_splits)
    with False "1.IH" have "Suc i \<le> j \<and> j \<le> MAX_ID_MASK \<and> r j = None \<and>
        (\<forall>k. Suc i \<le> k \<and> k < j \<longrightarrow> r k \<noteq> None)" by simp
    with False show ?thesis by (subst nat_range_split) auto
  qed
qed

lemma idr_search_None_iff:
  "idr_search i r = None \<longleftrightarrow> (\<forall>k. i \<le> k \<and> k \<le> MAX_ID_MASK \<longrightarrow> r k \<noteq> None)"
proof (induction i r rule: idr_search.induct)
  case (1 i r)
  show ?case
  proof (cases "MAX_ID_MASK < i")
    case True
    then show ?thesis by (auto simp: idr_search.simps [of i r])
  next
    case False
    then show ?thesis
      using "1.IH" by (subst nat_range_split) (auto simp: idr_search.simps [of i r])
  qed
qed

section \<open>Allocation and release\<close>

lemma drm_idr_get_fresh:
  assumes "drm_idr_get k r = (i, r')" and "i \<noteq> 0"
  shows "r i = None \<and> r' = r(i \<mapsto> k) \<and> 1 \<le> i \<and> i \<le> MAX_ID_MASK"
  using assms idr_search_SomeD [of 1 r i]
  by (auto simp: drm_idr_get_def split: option.splits)

lemma drm_idr_get_zero:
  "drm_idr_get k r = (0, r') \<longleftrightarrow> r' = r \<and> (\<forall>j. 1 \<le> j \<and> j \<le> MAX_ID_MASK \<longrightarrow> r j \<noteq> None)"
proof (cases "idr_search 1 r")
  case None
  then show ?thesis
    using idr_search_None_iff [of 1 r] by (auto simp: drm_idr_get_def)
next
  case (Some i)
  then have "1 \<le> i" and "i \<le> MAX_ID_MASK" and "r i = None"
    using idr_search_SomeD [of 1 r i] by auto
  with Some show ?thesis by (auto simp: drm_idr_get_def)
qed

lemma drm_idr_get_least:
  assumes "drm_idr_get k r = (i, r')" and "i \<noteq> 0" and "1 \<le> j" and "j < i"
  shows "r j \<noteq> None"
  using assms idr_search_SomeD [of 1 r i]
  by (auto simp: drm_idr_get_def split: option.splits)

lemma idr_find_put [simp]: "idr_find (drm_idr_put i r) i = None"
  by (simp add: idr_find_def drm_idr_put_def)

lemma idr_find_put_other [simp]: "j \<noteq> i \<Longrightarrow> idr_find (drm_idr_put i r) j = idr_find r j"
  by (simp add: idr_find_def drm_idr_put_def)

end
