(* ===== verification/DRM_Store.thy ===== *)
theory DRM_Store
  imports DRM_Mode DRM_Idr
begin

text \<open>
  The entity store of one device, \<^verbatim>\<open>struct drm_mode_config\<close>: the lists of
  framebuffers, CRTCs, outputs, properties and property blobs, the identifier
  registry, the counters and limits, and the device lock. Object pointers of the
  source are identifiers here (an output's \<^verbatim>\<open>crtc\<close> pointer is the CRTC's
  identifier, a CRTC's \<^verbatim>\<open>fb\<close> the framebuffer's), resolved in the lists when
  used. The driver callbacks (\<^verbatim>\<open>struct drm_output_funcs\<close>,
  \<^verbatim>\<open>struct drm_crtc_funcs\<close>) are a record of functions giving the driver's answers;
  what the callbacks do to the hardware is recorded as a log of calls,
  \<open>hw_log\<close>, so that their order can be stated.
  This theory holds the create/destroy operations of \<^verbatim>\<open>drm_crtc.c\<close> and the
  store invariant they keep.
\<close>

section \<open>Entities\<close>

text \<open>
  \<^verbatim>\<open>enum drm_output_status\<close> numbers its values from 1; a \<^verbatim>\<open>kzalloc\<close>'d output
  that was never probed holds 0, which is none of them: \<open>output_status_none\<close>.
\<close>

datatype drm_output_status = output_status_connected | output_status_disconnected
  | output_status_unknown | output_status_none

datatype dpms_mode = DPMSModeOn | DPMSModeStandby | DPMSModeSuspend | DPMSModeOff

record drm_framebuffer =
  fb_id :: nat
  fb_width :: int
  fb_height :: int
  fb_pitch :: int
  fb_bits_per_pixel :: int
  fb_depth :: int
  fb_bo :: nat

record drm_crtc =
  crtc_id :: nat
  crtc_enabled :: bool
  crtc_mode :: drm_display_mode
  crtc_x :: int
  crtc_y :: int
  crtc_desired_mode :: "drm_display_mode option"
  crtc_desired_x :: int
  crtc_desired_y :: int
  crtc_fb :: "nat option"

text \<open>Capacity of an output's property arrays (\<^verbatim>\<open>DRM_OUTPUT_MAX_PROPERTY\<close>).\<close>

definition DRM_OUTPUT_MAX_PROPERTY :: nat where
  "DRM_OUTPUT_MAX_PROPERTY = 16"

record drm_output =
  output_id :: nat
  output_type :: nat
  output_type_id :: nat
  output_status :: drm_output_status
  probed_modes :: "drm_display_mode list"
  modes :: "drm_display_mode list"
  user_modes :: "drm_display_mode list"
  possible_crtcs :: "32 word"
  possible_clones :: "32 word"
  output_crtc :: "nat option"
  initial_x :: int
  initial_y :: int
  property_ids :: "nat list"
  property_values :: "64 word list"
  edid_blob :: "nat option"

record drm_property_enum =
  penum_value :: "64 word"
  penum_name :: string

record drm_property =
  prop_id :: nat
  prop_flags :: "32 word"
  prop_name :: string
  prop_values :: "64 word list"
  prop_enum_list :: "drm_property_enum list"

record drm_property_blob =
  blob_id :: nat
  blob_length :: nat
  blob_data :: "8 word list"

text \<open>Calls into the driver that act on the hardware, in the order they are made.\<close>

datatype hw_event =
    OutputModeFixup nat | CrtcModeFixup nat
  | OutputPrepare nat | CrtcPrepare nat
  | CrtcModeSet nat drm_display_mode int int | OutputModeSet nat drm_display_mode
  | CrtcCommit nat | OutputCommit nat
  | CrtcModeSetBase nat int int
  | OutputDpms nat dpms_mode | CrtcDpms nat dpms_mode
  | OutputSetProperty nat nat "64 word"
  | OutputCleanup nat | CrtcCleanup nat
  | CrtcCursorSet nat "nat option" "32 word" "32 word" | CrtcCursorMove nat int int

record drm_mode_config =
  fb_list :: "drm_framebuffer list"
  crtc_list :: "drm_crtc list"
  output_list :: "drm_output list"
  property_list :: "drm_property list"
  property_blob_list :: "drm_property_blob list"
  crtc_idr :: drm_idr
  num_fb :: nat
  num_crtc :: nat
  num_output :: nat
  min_width :: int
  min_height :: int
  max_width :: int
  max_height :: int
  hotplug_counter :: nat
  edid_property :: nat
  dpms_property :: nat
  connector_type_property :: nat
  connector_num_property :: nat
  mutex_held :: bool
  hw_log :: "hw_event list"

text \<open>
  The driver's answers to the callbacks that return something. Optional callbacks
  (\<^verbatim>\<open>mode_set_base\<close>, \<^verbatim>\<open>set_property\<close>, \<^verbatim>\<open>cleanup\<close>) come with a flag that
  says whether the function pointer is set.
\<close>

record drm_driver =
  drv_detect :: "nat \<Rightarrow> drm_output_status"
  drv_get_modes :: "nat \<Rightarrow> drm_display_mode list"
  drv_mode_valid :: "nat \<Rightarrow> drm_display_mode \<Rightarrow> drm_mode_status"
  drv_output_mode_fixup :: "nat \<Rightarrow> drm_display_mode \<Rightarrow> bool"
  drv_crtc_mode_fixup :: "nat \<Rightarrow> drm_display_mode \<Rightarrow> bool"
  drv_has_mode_set_base :: "nat \<Rightarrow> bool"
  drv_has_set_property :: "nat \<Rightarrow> bool"
  drv_set_property :: "nat \<Rightarrow> nat \<Rightarrow> 64 word \<Rightarrow> unit drm_result"
  drv_has_crtc_cleanup :: "nat \<Rightarrow> bool"
  drv_has_output_cleanup :: "nat \<Rightarrow> bool"

section \<open>Lookups and small helpers\<close>

definition lookup_crtc :: "drm_mode_config \<Rightarrow> nat \<Rightarrow> drm_crtc option" where
  "lookup_crtc s c = find (\<lambda>x. crtc_id x = c) (crtc_list s)"

definition lookup_output :: "drm_mode_config \<Rightarrow> nat \<Rightarrow> drm_output option" where
  "lookup_output s oid = find (\<lambda>x. output_id x = oid) (output_list s)"

definition lookup_fb :: "drm_mode_config \<Rightarrow> nat \<Rightarrow> drm_framebuffer option" where
  "lookup_fb s f = find (\<lambda>x. fb_id x = f) (fb_list s)"

definition lookup_property :: "drm_mode_config \<Rightarrow> nat \<Rightarrow> drm_property option" where
  "lookup_property s p = find (\<lambda>x. prop_id x = p) (property_list s)"

definition update_crtc :: "nat \<Rightarrow> (drm_crtc \<Rightarrow> drm_crtc) \<Rightarrow> drm_mode_config \<Rightarrow> drm_mode_config" where
  "update_crtc c f s = s\<lparr>crtc_list := map_at (\<lambda>x. crtc_id x = c) f (crtc_list s)\<rparr>"

definition update_output :: "nat \<Rightarrow> (drm_output \<Rightarrow> drm_output) \<Rightarrow> drm_mode_config \<Rightarrow> drm_mode_config" where
  "update_output oid f s = s\<lparr>output_list := map_at (\<lambda>x. output_id x = oid) f (output_list s)\<rparr>"

definition log_hw :: "hw_event list \<Rightarrow> drm_mode_config \<Rightarrow> drm_mode_config" where
  "log_hw es s = s\<lparr>hw_log := hw_log s @ es\<rparr>"

text \<open>\<^verbatim>\<open>drm_idr_get(dev, ptr)\<close> and \<^verbatim>\<open>drm_idr_put(dev, id)\<close> on the device's registry.\<close>

definition mc_idr_get :: "drm_obj_kind \<Rightarrow> drm_mode_config \<Rightarrow> nat \<times> drm_mode_config" where
  "mc_idr_get k s = (let (i, r) = drm_idr_get k (crtc_idr s) in (i, s\<lparr>crtc_idr := r\<rparr>))"

definition mc_idr_put :: "nat \<Rightarrow> drm_mode_config \<Rightarrow> drm_mode_config" where
  "mc_idr_put i s = s\<lparr>crtc_idr := drm_idr_put i (crtc_idr s)\<rparr>"

text \<open>The device lock: taking a held (non-recursive) mutex never returns.\<close>

definition mutex_lock :: "drm_mode_config \<Rightarrow> drm_mode_config faulting" where
  "mutex_lock s = (if mutex_held s then None else Some (s\<lparr>mutex_held := True\<rparr>))"

definition mutex_unlock :: "drm_mode_config \<Rightarrow> drm_mode_config" where
  "mutex_unlock s = s\<lparr>mutex_held := False\<rparr>"

text \<open>A zero-filled mode, as in a \<^verbatim>\<open>kzalloc\<close>'d CRTC or a fresh \<^verbatim>\<open>drm_mode_create\<close>.\<close>

definition zero_mode :: drm_display_mode where
  "zero_mode = \<lparr>mode_id = 0, mode_name = [], mode_status = MODE_OK, mode_type = 0, clock = 0,
     hdisplay = 0, hsync_start = 0, hsync_end = 0, htotal = 0, hskew = 0,
     vdisplay = 0, vsync_start = 0, vsync_end = 0, vtotal = 0, vscan = 0,
     mode_flags = 0, vrefresh = 0\<rparr>"

section \<open>Operations on the store\<close>

text \<open>\<^verbatim>\<open>drm_crtc_from_fb\<close>: the first CRTC that scans out the framebuffer.\<close>

definition drm_crtc_from_fb :: "drm_mode_config \<Rightarrow> nat \<Rightarrow> drm_crtc option" where
  "drm_crtc_from_fb s f = find (\<lambda>c. crtc_fb c = Some f) (crtc_list s)"

definition drm_framebuffer_create :: "drm_mode_config \<Rightarrow> nat \<times> drm_mode_config" where
  "drm_framebuffer_create s =
     (let (i, s1) = mc_idr_get DRM_OBJ_FB s;
          fb = \<lparr>fb_id = i, fb_width = 0, fb_height = 0, fb_pitch = 0, fb_bits_per_pixel = 0,
                fb_depth = 0, fb_bo = 0\<rparr>
      in (i, s1\<lparr>num_fb := Suc (num_fb s1), fb_list := fb # fb_list s1\<rparr>))"

definition drm_framebuffer_destroy :: "nat \<Rightarrow> drm_mode_config \<Rightarrow> drm_mode_config" where
  "drm_framebuffer_destroy f s =
     (let s1 = s\<lparr>crtc_list := map_at (\<lambda>c. crtc_fb c = Some f) (\<lambda>c. c\<lparr>crtc_fb := None\<rparr>) (crtc_list s)\<rparr>;
          s2 = mc_idr_put f s1
      in s2\<lparr>fb_list := del_key fb_id f (fb_list s2), num_fb := num_fb s2 - 1\<rparr>)"

definition drm_crtc_create :: "drm_mode_config \<Rightarrow> nat \<times> drm_mode_config" where
  "drm_crtc_create s =
     (let (i, s1) = mc_idr_get DRM_OBJ_CRTC s;
          c = \<lparr>crtc_id = i, crtc_enabled = False, crtc_mode = zero_mode, crtc_x = 0, crtc_y = 0,
               crtc_desired_mode = None, crtc_desired_x = 0, crtc_desired_y = 0, crtc_fb = None\<rparr>
      in (i, s1\<lparr>crtc_list := crtc_list s1 @ [c], num_crtc := Suc (num_crtc s1)\<rparr>))"

definition drm_crtc_destroy :: "drm_driver \<Rightarrow> nat \<Rightarrow> drm_mode_config \<Rightarrow> drm_mode_config" where
  "drm_crtc_destroy drv c s =
     (let s1 = (if drv_has_crtc_cleanup drv c then log_hw [CrtcCleanup c] s else s);
          s2 = mc_idr_put c s1
      in s2\<lparr>crtc_list := del_key crtc_id c (crtc_list s2), num_crtc := num_crtc s2 - 1\<rparr>)"

definition drm_crtc_in_use :: "drm_mode_config \<Rightarrow> nat \<Rightarrow> bool" where
  "drm_crtc_in_use s c \<longleftrightarrow> list_ex (\<lambda>out. output_crtc out = Some c) (output_list s)"

text \<open>\<^verbatim>\<open>drm_disable_unused_functions\<close>: DPMS off for every unbound output, then for every disabled CRTC.\<close>

definition drm_disable_unused_functions :: "drm_mode_config \<Rightarrow> drm_mode_config" where
  "drm_disable_unused_functions s =
     log_hw (map (\<lambda>out. OutputDpms (output_id out) DPMSModeOff)
                 (filter (\<lambda>out. output_crtc out = None) (output_list s)) @
             map (\<lambda>c. CrtcDpms (crtc_id c) DPMSModeOff) (filter (\<lambda>c. \<not> crtc_enabled c) (crtc_list s))) s"

definition drm_mode_probed_add :: "nat \<Rightarrow> drm_display_mode \<Rightarrow> drm_mode_config \<Rightarrow> drm_mode_config" where
  "drm_mode_probed_add oid m s = update_output oid (\<lambda>out. out\<lparr>probed_modes := m # probed_modes out\<rparr>) s"

definition drm_mode_create :: "drm_mode_config \<Rightarrow> drm_display_mode \<times> drm_mode_config" where
  "drm_mode_create s = (let (i, s1) = mc_idr_get DRM_OBJ_MODE s in (zero_mode\<lparr>mode_id := i\<rparr>, s1))"

definition drm_mode_destroy :: "drm_display_mode \<Rightarrow> drm_mode_config \<Rightarrow> drm_mode_config" where
  "drm_mode_destroy m s = mc_idr_put (mode_id m) s"

text \<open>\<^verbatim>\<open>drm_mode_duplicate\<close> (\<^verbatim>\<open>drm_modes.c\<close>): a copy under a new identifier.\<close>

definition drm_mode_duplicate :: "drm_display_mode \<Rightarrow> drm_mode_config \<Rightarrow> drm_display_mode \<times> drm_mode_config" where
  "drm_mode_duplicate m s = (let (n, s1) = drm_mode_create s in (m\<lparr>mode_id := mode_id n\<rparr>, s1))"

text \<open>
  \<^verbatim>\<open>drm_mode_remove\<close>: \<^verbatim>\<open>list_del\<close> of the mode from the list it is on, then
  \<^verbatim>\<open>kfree\<close>; the mode's identifier stays in the registry.
\<close>

definition drm_mode_remove :: "drm_display_mode \<Rightarrow> drm_display_mode list \<Rightarrow> drm_display_mode list" where
  "drm_mode_remove m ms = remove1 m ms"

text \<open>\<^verbatim>\<open>drm_output_attach_property\<close>: the first empty slot of the output's arrays.\<close>

definition drm_output_attach_property :: "nat \<Rightarrow> 64 word \<Rightarrow> drm_output \<Rightarrow> drm_output drm_result" where
  "drm_output_attach_property pid v out =
     (case find_idx (\<lambda>x. x = 0) (property_ids out) of
        None \<Rightarrow> Inl EINVAL
      | Some i \<Rightarrow> Inr (out\<lparr>property_ids := (property_ids out)[i := pid],
                         property_values := (property_values out)[i := v]\<rparr>))"

definition attach_or_keep :: "nat \<Rightarrow> 64 word \<Rightarrow> drm_output \<Rightarrow> drm_output" where
  "attach_or_keep pid v out = (case drm_output_attach_property pid v out of Inl _ \<Rightarrow> out | Inr out' \<Rightarrow> out')"

definition drm_output_create :: "nat \<Rightarrow> drm_mode_config \<Rightarrow> (nat \<times> drm_mode_config) faulting" where
  "drm_output_create otype s =
     (let (i, s1) = mc_idr_get DRM_OBJ_OUTPUT s;
          o0 = \<lparr>output_id = i, output_type = otype, output_type_id = 1,
                output_status = output_status_none, probed_modes = [], modes = [], user_modes = [],
                possible_crtcs = 0, possible_clones = 0, output_crtc = None,
                initial_x = 0, initial_y = 0,
                property_ids = replicate DRM_OUTPUT_MAX_PROPERTY 0,
                property_values = replicate DRM_OUTPUT_MAX_PROPERTY 0, edid_blob = None\<rparr>
      in case mutex_lock s1 of
           None \<Rightarrow> None
         | Some s2 \<Rightarrow>
             (let o1 = attach_or_keep (edid_property s2) 0 o0;
                  o2 = attach_or_keep (dpms_property s2) 0 o1
              in Some (i, mutex_unlock (s2\<lparr>output_list := output_list s2 @ [o2],
                                           num_output := Suc (num_output s2)\<rparr>))))"

definition drm_output_destroy :: "drm_driver \<Rightarrow> nat \<Rightarrow> drm_mode_config \<Rightarrow> drm_mode_config faulting" where
  "drm_output_destroy drv oid s =
     (let s1 = (if drv_has_output_cleanup drv oid then log_hw [OutputCleanup oid] s else s);
          s2 = update_output oid (\<lambda>out. out\<lparr>probed_modes := [], modes := [], user_modes := []\<rparr>) s1
      in case mutex_lock s2 of
           None \<Rightarrow> None
         | Some s3 \<Rightarrow> Some (mutex_unlock ((mc_idr_put oid s3)\<lparr>output_list := del_key output_id oid (output_list s3)\<rparr>)))"

section \<open>The store invariant\<close>

definition ids_registered :: "drm_mode_config \<Rightarrow> bool" where
  "ids_registered s \<longleftrightarrow>
     (\<forall>c \<in> set (crtc_list s). crtc_idr s (crtc_id c) = Some DRM_OBJ_CRTC) \<and>
     (\<forall>out \<in> set (output_list s). crtc_idr s (output_id out) = Some DRM_OBJ_OUTPUT) \<and>
     (\<forall>f \<in> set (fb_list s). crtc_idr s (fb_id f) = Some DRM_OBJ_FB) \<and>
     (\<forall>p \<in> set (property_list s). crtc_idr s (prop_id p) = Some DRM_OBJ_PROPERTY) \<and>
     (\<forall>b \<in> set (property_blob_list s). crtc_idr s (blob_id b) = Some DRM_OBJ_BLOB) \<and>
     crtc_idr s 0 = None"

definition ids_distinct :: "drm_mode_config \<Rightarrow> bool" where
  "ids_distinct s \<longleftrightarrow>
     distinct (map crtc_id (crtc_list s)) \<and> distinct (map output_id (output_list s)) \<and>
     distinct (map fb_id (fb_list s)) \<and> distinct (map prop_id (property_list s)) \<and>
     distinct (map blob_id (property_blob_list s))"

definition refs_live :: "drm_mode_config \<Rightarrow> bool" where
  "refs_live s \<longleftrightarrow>
     (\<forall>out \<in> set (output_list s). \<forall>c. output_crtc out = Some c \<longrightarrow> c \<in> crtc_id ` set (crtc_list s)) \<and>
     (\<forall>c \<in> set (crtc_list s). \<forall>f. crtc_fb c = Some f \<longrightarrow> f \<in> fb_id ` set (fb_list s))"

definition counts_match :: "drm_mode_config \<Rightarrow> bool" where
  "counts_match s \<longleftrightarrow>
     num_fb s = length (fb_list s) \<and> num_crtc s = length (crtc_list s) \<and>
     num_output s = length (output_list s)"

definition prop_arrays_wf :: "drm_mode_config \<Rightarrow> bool" where
  "prop_arrays_wf s \<longleftrightarrow>
     (\<forall>out \<in> set (output_list s). length (property_ids out) = DRM_OUTPUT_MAX_PROPERTY \<and>
                                 length (property_values out) = DRM_OUTPUT_MAX_PROPERTY)"

definition mc_inv :: "drm_mode_config \<Rightarrow> bool" where
  "mc_inv s \<longleftrightarrow> ids_registered s \<and> ids_distinct s \<and> refs_live s \<and> counts_match s \<and> prop_arrays_wf s"

lemmas mc_inv_defs = mc_inv_def ids_registered_def ids_distinct_def refs_live_def
  counts_match_def prop_arrays_wf_def

section \<open>Lemmas\<close>

subsection \<open>Allocation on the device\<close>

lemma mc_idr_get_fresh:
  assumes "mc_idr_get k s = (i, s')" and "i \<noteq> 0"
  shows "crtc_idr s i = None \<and> s' = s\<lparr>crtc_idr := (crtc_idr s)(i \<mapsto> k)\<rparr>"
  using assms drm_idr_get_fresh [of k "crtc_idr s" i]
  by (auto simp: mc_idr_get_def split: prod.splits)

lemma mc_idr_get_zero:
  assumes "mc_idr_get k s = (0, s')"
  shows "s' = s"
proof -
  obtain r where r: "drm_idr_get k (crtc_idr s) = (0, r)" and s': "s' = s\<lparr>crtc_idr := r\<rparr>"
    using assms by (auto simp: mc_idr_get_def split: prod.splits)
  from r have "r = crtc_idr s" using drm_idr_get_zero by blast
  with s' show ?thesis by simp
qed

lemma registered_not_fresh:
  assumes "ids_registered s" and "crtc_idr s i = None"
  shows "i \<notin> crtc_id ` set (crtc_list s)" and "i \<notin> output_id ` set (output_list s)"
    and "i \<notin> fb_id ` set (fb_list s)" and "i \<notin> prop_id ` set (property_list s)"
    and "i \<notin> blob_id ` set (property_blob_list s)"
  using assms by (auto simp: ids_registered_def)

lemma log_hw_fields [simp]:
  "crtc_list (log_hw es s) = crtc_list s" "output_list (log_hw es s) = output_list s"
  "fb_list (log_hw es s) = fb_list s" "property_list (log_hw es s) = property_list s"
  "property_blob_list (log_hw es s) = property_blob_list s" "crtc_idr (log_hw es s) = crtc_idr s"
  "hw_log (log_hw es s) = hw_log s @ es"
  by (simp_all add: log_hw_def)

lemma mc_inv_log_hw [simp]: "mc_inv (log_hw es s) = mc_inv s"
  by (simp add: mc_inv_defs log_hw_def)

subsection \<open>Framebuffers\<close>

lemma drm_framebuffer_create_ok:
  assumes "drm_framebuffer_create s = (i, s')" and "i \<noteq> 0"
  shows "crtc_idr s i = None \<and>
    s' = s\<lparr>crtc_idr := (crtc_idr s)(i \<mapsto> DRM_OBJ_FB), num_fb := Suc (num_fb s),
           fb_list := \<lparr>fb_id = i, fb_width = 0, fb_height = 0, fb_pitch = 0,
                       fb_bits_per_pixel = 0, fb_depth = 0, fb_bo = 0\<rparr> # fb_list s\<rparr>"
proof -
  obtain i' s1 where get: "mc_idr_get DRM_OBJ_FB s = (i', s1)" by fastforce
  with assms(1) have "i' = i" and s': "s' = s1\<lparr>num_fb := Suc (num_fb s1),
       fb_list := \<lparr>fb_id = i, fb_width = 0, fb_height = 0, fb_pitch = 0,
                   fb_bits_per_pixel = 0, fb_depth = 0, fb_bo = 0\<rparr> # fb_list s1\<rparr>"
    by (auto simp: drm_framebuffer_create_def)
  with get assms(2) mc_idr_get_fresh show ?thesis by fastforce
qed

lemma drm_framebuffer_destroy_fields:
  "crtc_list (drm_framebuffer_destroy f s) =
     map_at (\<lambda>c. crtc_fb c = Some f) (\<lambda>c. c\<lparr>crtc_fb := None\<rparr>) (crtc_list s)"
  "fb_list (drm_framebuffer_destroy f s) = del_key fb_id f (fb_list s)"
  "crtc_idr (drm_framebuffer_destroy f s) = drm_idr_put f (crtc_idr s)"
  "output_list (drm_framebuffer_destroy f s) = output_list s"
  by (simp_all add: drm_framebuffer_destroy_def mc_idr_put_def Let_def)

subsection \<open>CRTCs and outputs\<close>

lemma drm_crtc_create_ok:
  assumes "drm_crtc_create s = (i, s')" and "i \<noteq> 0"
  shows "crtc_idr s i = None \<and>
    s' = s\<lparr>crtc_idr := (crtc_idr s)(i \<mapsto> DRM_OBJ_CRTC),
           crtc_list := crtc_list s @ [\<lparr>crtc_id = i, crtc_enabled = False, crtc_mode = zero_mode,
               crtc_x = 0, crtc_y = 0, crtc_desired_mode = None, crtc_desired_x = 0,
               crtc_desired_y = 0, crtc_fb = None\<rparr>],
           num_crtc := Suc (num_crtc s)\<rparr>"
proof -
  obtain i' s1 where get: "mc_idr_get DRM_OBJ_CRTC s = (i', s1)" by fastforce
  with assms(1) have "i' = i" and s': "s' = s1\<lparr>crtc_list := crtc_list s1 @ [\<lparr>crtc_id = i,
       crtc_enabled = False, crtc_mode = zero_mode, crtc_x = 0, crtc_y = 0,
       crtc_desired_mode = None, crtc_desired_x = 0, crtc_desired_y = 0, crtc_fb = None\<rparr>],
       num_crtc := Suc (num_crtc s1)\<rparr>"
    by (auto simp: drm_crtc_create_def)
  with get assms(2) mc_idr_get_fresh show ?thesis by fastforce
qed

lemma drm_crtc_in_use_iff:
  "drm_crtc_in_use s c \<longleftrightarrow> (\<exists>out \<in> set (output_list s). output_crtc out = Some c)"
  by (simp add: drm_crtc_in_use_def list_ex_iff)

text \<open>
  The three loops of \<^verbatim>\<open>drm_output_destroy\<close>, each calling \<^verbatim>\<open>drm_mode_remove\<close> on
  every mode of a list, leave that list empty: the model of the function empties them.
\<close>

lemma drm_mode_remove_all: "fold drm_mode_remove ms ms = []"
proof (induction ms)
  case Nil
  then show ?case by simp
next
  case (Cons m ms)
  then show ?case by (simp add: drm_mode_remove_def)
qed

subsection \<open>Lookup and update by identifier\<close>

lemma lookup_crtc_update_same:
  assumes "\<And>r. crtc_id (f r) = crtc_id r"
  shows "lookup_crtc (update_crtc c f s) c = map_option f (lookup_crtc s c)"
  using assms by (simp add: lookup_crtc_def update_crtc_def find_map_at_same_key)

lemma lookup_crtc_update_other:
  assumes "\<And>r. crtc_id (f r) = crtc_id r" and "c' \<noteq> c"
  shows "lookup_crtc (update_crtc c f s) c' = lookup_crtc s c'"
  using find_map_at_other_key [of "\<lambda>x. crtc_id x = c" crtc_id f c' "crtc_list s"] assms
  by (simp add: lookup_crtc_def update_crtc_def)

lemma lookup_crtc_in_set:
  "lookup_crtc s c = Some r \<Longrightarrow> r \<in> set (crtc_list s) \<and> crtc_id r = c"
  unfolding lookup_crtc_def by (rule find_key_Some_in_set)

lemma lookup_crtc_unique:
  assumes "distinct (map crtc_id (crtc_list s))" and "lookup_crtc s c = Some r"
    and "x \<in> set (crtc_list s)" and "crtc_id x = c"
  shows "x = r"
  using assms find_key_eqI [of crtc_id "crtc_list s" x c] by (simp add: lookup_crtc_def)

lemma update_crtc_fields [simp]:
  "output_list (update_crtc c f s) = output_list s" "fb_list (update_crtc c f s) = fb_list s"
  "crtc_idr (update_crtc c f s) = crtc_idr s" "hw_log (update_crtc c f s) = hw_log s"
  "crtc_list (update_crtc c f s) = map_at (\<lambda>x. crtc_id x = c) f (crtc_list s)"
  by (simp_all add: update_crtc_def)

lemma update_crtc_update_crtc:
  assumes "\<And>r. crtc_id (f r) = crtc_id r"
  shows "update_crtc c g (update_crtc c f s) = update_crtc c (g \<circ> f) s"
  using assms by (simp add: update_crtc_def map_at_map_at)

lemma update_crtc_log_hw: "update_crtc c f (log_hw es s) = log_hw es (update_crtc c f s)"
  by (simp add: update_crtc_def log_hw_def)

lemma drm_mode_duplicate_state:
  "snd (drm_mode_duplicate m s) = snd (mc_idr_get DRM_OBJ_MODE s)"
  by (simp add: drm_mode_duplicate_def drm_mode_create_def split: prod.splits)

lemma drm_mode_duplicate_snd:
  assumes "drm_mode_duplicate m s = (adj, s1)"
  shows "s1 = snd (mc_idr_get DRM_OBJ_MODE s)"
  using assms drm_mode_duplicate_state [of m s] by simp

lemma mutex_lock_free [simp]: "\<not> mutex_held s \<Longrightarrow> mutex_lock s = Some (s\<lparr>mutex_held := True\<rparr>)"
  by (simp add: mutex_lock_def)

lemma mutex_unlock_lock [simp]: "\<not> mutex_held s \<Longrightarrow> mutex_unlock (s\<lparr>mutex_held := True\<rparr>) = s"
  by (simp add: mutex_unlock_def)

lemma lookup_output_update_same:
  assumes "lookup_output s oid = Some out" and "output_id (f out) = oid"
  shows "lookup_output (update_output oid (\<lambda>_. f out) s) oid = Some (f out)"
  using find_map_at_same_key [of "\<lambda>x. output_id x = oid" output_id "\<lambda>_. f out" oid "output_list s"] assms
  by (simp add: lookup_output_def update_output_def)

text \<open>While the registry has a free identifier, an allocation takes one that was free.\<close>

lemma mc_idr_get_allocates:
  assumes "1 \<le> j" "j \<le> MAX_ID_MASK" "crtc_idr s j = None"
  shows "\<exists>i. crtc_idr s i = None \<and> crtc_idr (snd (mc_idr_get k s)) i = Some k"
proof (cases "fst (mc_idr_get k s) = 0")
  case True
  then obtain r where "drm_idr_get k (crtc_idr s) = (0, r)"
    by (auto simp: mc_idr_get_def split: prod.splits)
  with assms show ?thesis using drm_idr_get_zero by blast
next
  case False
  then show ?thesis using mc_idr_get_fresh [of k s "fst (mc_idr_get k s)" "snd (mc_idr_get k s)"] by auto
qed

lemma mc_idr_get_fields [simp]:
  "output_list (snd (mc_idr_get k s)) = output_list s" "crtc_list (snd (mc_idr_get k s)) = crtc_list s"
  "fb_list (snd (mc_idr_get k s)) = fb_list s" "hw_log (snd (mc_idr_get k s)) = hw_log s"
  "property_list (snd (mc_idr_get k s)) = property_list s"
  by (simp_all add: mc_idr_get_def split: prod.splits)


subsection \<open>The lock and the registry\<close>

lemma mc_idr_get_mutex [simp]: "mutex_held (snd (mc_idr_get k s)) = mutex_held s"
  by (simp add: mc_idr_get_def split: prod.splits)

lemma mc_idr_get_lock:
  "mc_idr_get k (s\<lparr>mutex_held := b\<rparr>) = (fst (mc_idr_get k s), (snd (mc_idr_get k s))\<lparr>mutex_held := b\<rparr>)"
  by (simp add: mc_idr_get_def split: prod.splits)

lemma mc_idr_get_snd: "snd (mc_idr_get k s) = s\<lparr>crtc_idr := snd (drm_idr_get k (crtc_idr s))\<rparr>"
  by (simp add: mc_idr_get_def split: prod.splits)

lemma lookup_crtc_lock [simp]: "lookup_crtc (s\<lparr>mutex_held := b\<rparr>) = lookup_crtc s"
  by (simp add: lookup_crtc_def fun_eq_iff)

lemma lookup_output_lock [simp]: "lookup_output (s\<lparr>mutex_held := b\<rparr>) = lookup_output s"
  by (simp add: lookup_output_def fun_eq_iff)

lemma lookup_fb_lock [simp]: "lookup_fb (s\<lparr>mutex_held := b\<rparr>) = lookup_fb s"
  by (simp add: lookup_fb_def fun_eq_iff)

lemma mc_inv_mutex [simp]: "mc_inv (s\<lparr>mutex_held := b\<rparr>) = mc_inv s"
  by (simp add: mc_inv_defs)

lemma mc_idr_get_nonzero:
  assumes "1 \<le> j" "j \<le> MAX_ID_MASK" "crtc_idr s j = None"
  shows "fst (mc_idr_get k s) \<noteq> 0"
proof
  assume "fst (mc_idr_get k s) = 0"
  then obtain r where "drm_idr_get k (crtc_idr s) = (0, r)"
    by (auto simp: mc_idr_get_def split: prod.splits)
  with assms show False using drm_idr_get_zero by blast
qed

lemma mc_idr_get_full:
  assumes "\<forall>j. 1 \<le> j \<and> j \<le> MAX_ID_MASK \<longrightarrow> crtc_idr s j \<noteq> None"
  shows "mc_idr_get k s = (0, s)"
proof -
  have "drm_idr_get k (crtc_idr s) = (0, crtc_idr s)" using assms drm_idr_get_zero by blast
  then show ?thesis by (simp add: mc_idr_get_def)
qed

text \<open>An allocation keeps every registered identifier; freeing what it took gives the old registry back.\<close>

lemma mc_idr_get_keeps:
  assumes "crtc_idr s j = Some k'"
  shows "crtc_idr (snd (mc_idr_get k s)) j = Some k'"
proof (cases "fst (mc_idr_get k s) = 0")
  case True
  then obtain r where g: "drm_idr_get k (crtc_idr s) = (0, r)"
    by (auto simp: mc_idr_get_def split: prod.splits)
  then show ?thesis using drm_idr_get_zero [of k "crtc_idr s" r] assms by (simp add: mc_idr_get_def)
next
  case False
  then show ?thesis using assms
    mc_idr_get_fresh [of k s "fst (mc_idr_get k s)" "snd (mc_idr_get k s)"] by auto
qed

lemma mc_idr_get_put:
  assumes "crtc_idr s 0 = None"
  shows "drm_idr_put (fst (mc_idr_get k s)) (crtc_idr (snd (mc_idr_get k s))) = crtc_idr s"
proof (cases "fst (mc_idr_get k s) = 0")
  case True
  then obtain r where g: "drm_idr_get k (crtc_idr s) = (0, r)"
    by (auto simp: mc_idr_get_def split: prod.splits)
  then have "r = crtc_idr s" using drm_idr_get_zero by blast
  with g assms show ?thesis by (auto simp: mc_idr_get_def drm_idr_put_def)
next
  case False
  then show ?thesis
    using mc_idr_get_fresh [of k s "fst (mc_idr_get k s)" "snd (mc_idr_get k s)"]
    by (auto simp: drm_idr_put_def)
qed

lemma drm_framebuffer_destroy_lock:
  "drm_framebuffer_destroy f (s\<lparr>mutex_held := b\<rparr>) = (drm_framebuffer_destroy f s)\<lparr>mutex_held := b\<rparr>"
  by (simp add: drm_framebuffer_destroy_def Let_def mc_idr_put_def)

lemma lookup_fb_exists:
  assumes "f \<in> fb_id ` set (fb_list s)"
  shows "\<exists>fb. lookup_fb s f = Some fb \<and> fb_id fb = f"
proof -
  obtain fb where "lookup_fb s f = Some fb"
    using assms find_key_None_iff [of fb_id f "fb_list s"] unfolding lookup_fb_def by fastforce
  then show ?thesis unfolding lookup_fb_def by (auto dest: find_key_Some_in_set)
qed

lemma lookup_output_exists:
  assumes "oid \<in> output_id ` set (output_list s)"
  shows "\<exists>out. lookup_output s oid = Some out \<and> output_id out = oid"
proof -
  obtain out where "lookup_output s oid = Some out"
    using assms find_key_None_iff [of output_id oid "output_list s"] unfolding lookup_output_def by fastforce
  then show ?thesis unfolding lookup_output_def by (auto dest: find_key_Some_in_set)
qed

lemma lookup_crtc_exists:
  assumes "c \<in> crtc_id ` set (crtc_list s)"
  shows "\<exists>crtc. lookup_crtc s c = Some crtc \<and> crtc_id crtc = c"
proof -
  obtain crtc where "lookup_crtc s c = Some crtc"
    using assms find_key_None_iff [of crtc_id c "crtc_list s"] unfolding lookup_crtc_def by fastforce
  then show ?thesis unfolding lookup_crtc_def by (auto dest: find_key_Some_in_set)
qed

lemma lookup_output_unique:
  assumes "distinct (map output_id (output_list s))" and "lookup_output s oid = Some out"
    and "x \<in> set (output_list s)" and "output_id x = oid"
  shows "x = out"
  using assms find_key_eqI [of output_id "output_list s" x oid] by (simp add: lookup_output_def)

subsection \<open>Framebuffers and the invariant\<close>

lemma mc_inv_fb_fields:
  assumes "\<And>x. fb_id (g x) = fb_id x"
  shows "mc_inv (s\<lparr>fb_list := map_at P g (fb_list s)\<rparr>) = mc_inv s"
proof -
  have m: "map fb_id (map_at P g (fb_list s)) = map fb_id (fb_list s)"
    using assms by (simp add: map_map_at_frame)
  have "fb_id ` set (map_at P g (fb_list s)) = fb_id ` set (fb_list s)"
    using arg_cong [OF m, of set] by simp
  moreover have "(\<forall>f \<in> set (map_at P g (fb_list s)). crtc_idr s (fb_id f) = Some DRM_OBJ_FB) =
      (\<forall>f \<in> set (fb_list s). crtc_idr s (fb_id f) = Some DRM_OBJ_FB)"
    using calculation by (metis (mono_tags, lifting) image_iff)
  ultimately show ?thesis using m
    by (simp add: mc_inv_defs del: set_map)
qed

lemma drm_framebuffer_create_id: "fst (drm_framebuffer_create s) = fst (mc_idr_get DRM_OBJ_FB s)"
  by (simp add: drm_framebuffer_create_def split: prod.splits)

lemma drm_framebuffer_create_inv:
  assumes inv: "mc_inv s" and cr: "drm_framebuffer_create s = (i, s')" and i: "i \<noteq> 0"
  shows "mc_inv s'"
proof -
  have fresh: "crtc_idr s i = None" and s': "s' = s\<lparr>crtc_idr := (crtc_idr s)(i \<mapsto> DRM_OBJ_FB), num_fb := Suc (num_fb s),
           fb_list := \<lparr>fb_id = i, fb_width = 0, fb_height = 0, fb_pitch = 0,
                       fb_bits_per_pixel = 0, fb_depth = 0, fb_bo = 0\<rparr> # fb_list s\<rparr>"
    using drm_framebuffer_create_ok [OF cr i] by auto
  have "i \<notin> fb_id ` set (fb_list s)" using inv fresh by (auto simp: mc_inv_defs)
  then show ?thesis using inv fresh i unfolding s' by (auto simp: mc_inv_defs)
qed

lemma drm_framebuffer_destroy_inv:
  assumes inv: "mc_inv s" and f: "f \<in> fb_id ` set (fb_list s)"
  shows "mc_inv (drm_framebuffer_destroy f s)"
proof -
  let ?s' = "drm_framebuffer_destroy f s"
  have reg: "crtc_idr s f = Some DRM_OBJ_FB" using inv f by (auto simp: mc_inv_defs)
  have ids: "map crtc_id (crtc_list ?s') = map crtc_id (crtc_list s)"
    by (simp add: drm_framebuffer_destroy_fields map_map_at_frame)
  have dfb: "distinct (map fb_id (fb_list s))" using inv by (simp add: mc_inv_defs)
  have crtc_in: "c \<in> set (crtc_list ?s') \<Longrightarrow> crtc_fb c = Some g \<Longrightarrow>
      \<exists>c0 \<in> set (crtc_list s). crtc_fb c0 = Some g \<and> g \<noteq> f" for c g
    using set_map_at_subset [of "\<lambda>c. crtc_fb c = Some f" "\<lambda>c. c\<lparr>crtc_fb := None\<rparr>" "crtc_list s"]
    by (auto simp: drm_framebuffer_destroy_fields map_at_def)
  have cid: "c \<in> set (crtc_list ?s') \<Longrightarrow> crtc_idr s (crtc_id c) = Some DRM_OBJ_CRTC" for c
  proof -
    assume "c \<in> set (crtc_list ?s')"
    then have "crtc_id c \<in> set (map crtc_id (crtc_list s))" unfolding ids [symmetric] by simp
    then show ?thesis using inv by (auto simp: mc_inv_defs)
  qed
  have ireg: "ids_registered ?s'"
    unfolding ids_registered_def drm_framebuffer_destroy_fields
    using inv reg cid set_del_key_distinct [OF dfb]
    by (auto simp: mc_inv_defs drm_idr_put_def drm_framebuffer_destroy_def mc_idr_put_def Let_def)
  have idis: "ids_distinct ?s'"
    using inv ids distinct_del_key [OF dfb, of f]
    by (auto simp: mc_inv_defs drm_framebuffer_destroy_def mc_idr_put_def Let_def)
  have rl: "refs_live ?s'"
  proof -
    have "crtc_id ` set (crtc_list ?s') = crtc_id ` set (crtc_list s)"
      using arg_cong [OF ids, of set] by simp
    moreover have "g \<in> fb_id ` set (fb_list ?s')" if "c \<in> set (crtc_list ?s')" "crtc_fb c = Some g" for c g
      using crtc_in [OF that] inv del_key_keys [OF dfb, of f]
      by (auto simp: mc_inv_defs drm_framebuffer_destroy_fields)
    ultimately show ?thesis using inv by (auto simp: mc_inv_defs drm_framebuffer_destroy_fields)
  qed
  have cm: "counts_match ?s'"
    using inv length_del_key [OF f] by (auto simp: mc_inv_defs drm_framebuffer_destroy_def mc_idr_put_def Let_def)
  have "prop_arrays_wf ?s'"
    using inv by (simp add: mc_inv_defs drm_framebuffer_destroy_fields)
  with ireg idis rl cm show ?thesis by (simp add: mc_inv_def)
qed

end
