(* ===== verification/DRM_SetMode.thy ===== *)
theory DRM_SetMode
  imports DRM_Store
begin

text \<open>
  The mode-apply protocol, \<^verbatim>\<open>drm_crtc_set_mode\<close> of \<^verbatim>\<open>drm_crtc.c\<close>: the CRTC
  is enabled exactly when an output is bound to it, an unused CRTC returns at once,
  an unchanged mode with a new position takes the \<^verbatim>\<open>mode_set_base\<close> fast path,
  and otherwise every bound output and then the CRTC may reject the mode
  (\<^verbatim>\<open>mode_fixup\<close>) before the prepare, mode-set and commit calls. On a rejection
  the CRTC's mode and position are put back. The adjusted mode is a duplicate with
  its own identifier, released only on the full success path.
\<close>

section \<open>Definitions\<close>

text \<open>The calls through which a driver may reject a mode.\<close>

fun is_fixup :: "hw_event \<Rightarrow> bool" where
  "is_fixup (OutputModeFixup _) = True"
| "is_fixup (CrtcModeFixup _) = True"
| "is_fixup _ = False"


text \<open>The outputs bound to a CRTC, in the order of the output list.\<close>

definition outputs_on :: "drm_mode_config \<Rightarrow> nat \<Rightarrow> nat list" where
  "outputs_on s c = map output_id (filter (\<lambda>out. output_crtc out = Some c) (output_list s))"

text \<open>
  The loop over the bound outputs' \<^verbatim>\<open>mode_fixup\<close>: the calls made and whether all
  accepted; the first rejection stops the loop.
\<close>

fun output_fixup_loop :: "drm_driver \<Rightarrow> drm_display_mode \<Rightarrow> nat list \<Rightarrow> hw_event list \<times> bool" where
  "output_fixup_loop drv m [] = ([], True)"
| "output_fixup_loop drv m (oid # os) =
     (if drv_output_mode_fixup drv oid m
      then (let (es, ok) = output_fixup_loop drv m os in (OutputModeFixup oid # es, ok))
      else ([OutputModeFixup oid], False))"

text \<open>The output fixups, then the CRTC's fixup if all outputs accepted.\<close>

definition mode_fixups :: "drm_driver \<Rightarrow> nat \<Rightarrow> drm_display_mode \<Rightarrow> nat list \<Rightarrow> hw_event list \<times> bool" where
  "mode_fixups drv c m os =
     (let (es, ok) = output_fixup_loop drv m os
      in if ok then (es @ [CrtcModeFixup c], drv_crtc_mode_fixup drv c m) else (es, False))"

text \<open>Prepare, mode-set and commit, outputs around the CRTC.\<close>

definition mode_set_sequence :: "nat \<Rightarrow> drm_display_mode \<Rightarrow> int \<Rightarrow> int \<Rightarrow> nat list \<Rightarrow> hw_event list" where
  "mode_set_sequence c m x y os =
     map OutputPrepare os @ [CrtcPrepare c, CrtcModeSet c m x y] @
     map (\<lambda>oid. OutputModeSet oid m) os @ [CrtcCommit c] @ map OutputCommit os"

definition restore_crtc :: "drm_crtc \<Rightarrow> drm_mode_config \<Rightarrow> drm_mode_config" where
  "restore_crtc saved s =
     update_crtc (crtc_id saved)
       (\<lambda>r. r\<lparr>crtc_mode := crtc_mode saved, crtc_x := crtc_x saved, crtc_y := crtc_y saved\<rparr>) s"

text \<open>
  The part of \<^verbatim>\<open>drm_crtc_set_mode\<close> after the in-use test; \<open>saved\<close> is the CRTC
  as it was on entry.
\<close>

definition set_mode_apply :: "drm_driver \<Rightarrow> nat \<Rightarrow> drm_display_mode \<Rightarrow> int \<Rightarrow> int \<Rightarrow>
    drm_display_mode \<Rightarrow> drm_crtc \<Rightarrow> drm_mode_config \<Rightarrow> (bool \<times> drm_mode_config) faulting" where
  "set_mode_apply drv c m x y adj saved s =
     (let s1 = update_crtc c (\<lambda>r. r\<lparr>crtc_mode := m, crtc_x := x, crtc_y := y\<rparr>) s
      in if drm_mode_equal (crtc_mode saved) m \<and> (crtc_x saved \<noteq> x \<or> crtc_y saved \<noteq> y)
         then (if drv_has_mode_set_base drv c then Some (True, log_hw [CrtcModeSetBase c x y] s1)
               else None)
         else (let os = outputs_on s1 c
               in case mode_fixups drv c m os of
                    (es, False) \<Rightarrow> Some (False, restore_crtc saved (log_hw es s1))
                  | (es, True) \<Rightarrow>
                      Some (True, drm_mode_destroy adj (log_hw (es @ mode_set_sequence c m x y os) s1))))"

definition drm_crtc_set_mode :: "drm_driver \<Rightarrow> nat \<Rightarrow> drm_display_mode \<Rightarrow> int \<Rightarrow> int \<Rightarrow>
    drm_mode_config \<Rightarrow> (bool \<times> drm_mode_config) faulting" where
  "drm_crtc_set_mode drv c m x y s =
     (case lookup_crtc s c of
        None \<Rightarrow> None
      | Some saved \<Rightarrow>
          (let (adj, s1) = drm_mode_duplicate m s;
               en = drm_crtc_in_use s1 c;
               s2 = update_crtc c (\<lambda>r. r\<lparr>crtc_enabled := en\<rparr>) s1
           in if \<not> en then Some (True, s2) else set_mode_apply drv c m x y adj saved s2))"

section \<open>Lemmas\<close>

lemma output_fixup_loop_ok:
  "output_fixup_loop drv m os = (es, ok) \<Longrightarrow>
     (ok \<longleftrightarrow> list_all (\<lambda>oid. drv_output_mode_fixup drv oid m) os) \<and> list_all is_fixup es \<and>
     (ok \<longrightarrow> es = map OutputModeFixup os)"
proof (induction os arbitrary: es ok)
  case Nil
  then show ?case by simp
next
  case (Cons oid os)
  then show ?case by (auto split: if_splits prod.splits)
qed

lemma mode_fixups_ok:
  assumes "mode_fixups drv c m os = (es, ok)"
  shows "(ok \<longleftrightarrow> list_all (\<lambda>oid. drv_output_mode_fixup drv oid m) os \<and> drv_crtc_mode_fixup drv c m) \<and>
    list_all is_fixup es \<and> (ok \<longrightarrow> es = map OutputModeFixup os @ [CrtcModeFixup c])"
proof -
  obtain es0 ok0 where l: "output_fixup_loop drv m os = (es0, ok0)" by fastforce
  from output_fixup_loop_ok [OF l] assms l show ?thesis
    by (auto simp: mode_fixups_def split: if_splits)
qed

lemma drm_crtc_set_mode_unfold:
  assumes "lookup_crtc s c = Some r" and "drm_mode_duplicate m s = (adj, s1)"
  shows "drm_crtc_set_mode drv c m x y s =
    (if drm_crtc_in_use s c
     then set_mode_apply drv c m x y adj r (update_crtc c (\<lambda>r. r\<lparr>crtc_enabled := True\<rparr>) s1)
     else Some (True, update_crtc c (\<lambda>r. r\<lparr>crtc_enabled := False\<rparr>) s1))"
proof -
  have "drm_crtc_in_use s1 c = drm_crtc_in_use s c"
    using drm_mode_duplicate_snd [OF assms(2)] by (simp add: drm_crtc_in_use_def)
  then show ?thesis using assms by (simp add: drm_crtc_set_mode_def)
qed


lemma set_mode_apply_fast:
  assumes "drm_mode_equal (crtc_mode r) m" and "crtc_x r \<noteq> x \<or> crtc_y r \<noteq> y"
  shows "set_mode_apply drv c m x y adj r s =
    (if drv_has_mode_set_base drv c
     then Some (True, log_hw [CrtcModeSetBase c x y]
                        (update_crtc c (\<lambda>q. q\<lparr>crtc_mode := m, crtc_x := x, crtc_y := y\<rparr>) s))
     else None)"
  using assms by (simp add: set_mode_apply_def)

lemma set_mode_apply_full:
  assumes "\<not> (drm_mode_equal (crtc_mode r) m \<and> (crtc_x r \<noteq> x \<or> crtc_y r \<noteq> y))"
    and "mode_fixups drv c m (outputs_on s c) = (es, ok)"
  shows "set_mode_apply drv c m x y adj r s =
    (let s1 = update_crtc c (\<lambda>q. q\<lparr>crtc_mode := m, crtc_x := x, crtc_y := y\<rparr>) s
     in if ok then Some (True, drm_mode_destroy adj (log_hw (es @ mode_set_sequence c m x y (outputs_on s c)) s1))
        else Some (False, restore_crtc r (log_hw es s1)))"
proof -
  have "outputs_on (update_crtc c (\<lambda>q. q\<lparr>crtc_mode := m, crtc_x := x, crtc_y := y\<rparr>) s) c = outputs_on s c"
    by (simp add: outputs_on_def)
  with assms(2) show ?thesis
    unfolding set_mode_apply_def Let_def if_not_P [OF assms(1)] by (cases ok) simp_all
qed

lemma restore_crtc_fields [simp]:
  "output_list (restore_crtc r s) = output_list s" "hw_log (restore_crtc r s) = hw_log s"
  "crtc_idr (restore_crtc r s) = crtc_idr s"
  by (simp_all add: restore_crtc_def)

text \<open>What a rejection leaves: the state before the call with the CRTC enabled, fixup calls in the log, and the adjusted mode registered.\<close>

lemma set_mode_reject_effect:
  assumes dist: "distinct (map crtc_id (crtc_list s))"
    and res: "drm_crtc_set_mode drv c m x y s = Some (False, s')"
  shows "output_list s' = output_list s \<and>
    crtc_list s' = map_at (\<lambda>q. crtc_id q = c) (\<lambda>q. q\<lparr>crtc_enabled := True\<rparr>) (crtc_list s) \<and>
    (\<exists>es. hw_log s' = hw_log s @ es \<and> list_all is_fixup es) \<and>
    crtc_idr s' = crtc_idr (snd (mc_idr_get DRM_OBJ_MODE s))"
proof -
  obtain r where r: "lookup_crtc s c = Some r"
    using res by (cases "lookup_crtc s c") (auto simp: drm_crtc_set_mode_def)
  obtain adj s1 where dup: "drm_mode_duplicate m s = (adj, s1)" by fastforce
  have s1: "s1 = snd (mc_idr_get DRM_OBJ_MODE s)" by (rule drm_mode_duplicate_snd [OF dup])
  let ?s2 = "update_crtc c (\<lambda>q. q\<lparr>crtc_enabled := True\<rparr>) s1"
  have use: "drm_crtc_in_use s c" and app: "set_mode_apply drv c m x y adj r ?s2 = Some (False, s')"
    using res drm_crtc_set_mode_unfold [OF r dup] by (auto split: if_splits)
  have nf: "\<not> (drm_mode_equal (crtc_mode r) m \<and> (crtc_x r \<noteq> x \<or> crtc_y r \<noteq> y))"
  proof
    assume "drm_mode_equal (crtc_mode r) m \<and> (crtc_x r \<noteq> x \<or> crtc_y r \<noteq> y)"
    then have "set_mode_apply drv c m x y adj r ?s2 \<noteq> Some (False, s')"
      using set_mode_apply_fast [of r m x y drv c adj ?s2] by simp
    with app show False by simp
  qed
  obtain es ok where fx: "mode_fixups drv c m (outputs_on ?s2 c) = (es, ok)" by fastforce
  let ?s3 = "update_crtc c (\<lambda>q. q\<lparr>crtc_mode := m, crtc_x := x, crtc_y := y\<rparr>) ?s2"
  have ok: "\<not> ok" and s': "s' = restore_crtc r (log_hw es ?s3)"
    using app set_mode_apply_full [OF nf fx] by (auto simp: Let_def split: if_splits)
  have cr: "crtc_id r = c" and rin: "r \<in> set (crtc_list s)" using lookup_crtc_in_set [OF r] by auto
  have "crtc_list s' = map_at (\<lambda>q. crtc_id q = c)
      ((\<lambda>q. q\<lparr>crtc_mode := crtc_mode r, crtc_x := crtc_x r, crtc_y := crtc_y r\<rparr>) \<circ>
       ((\<lambda>q. q\<lparr>crtc_mode := m, crtc_x := x, crtc_y := y\<rparr>) \<circ> (\<lambda>q. q\<lparr>crtc_enabled := True\<rparr>)))
      (crtc_list s)"
    using s' s1 cr by (simp add: restore_crtc_def update_crtc_def log_hw_def map_at_map_at)
  also have "\<dots> = map_at (\<lambda>q. crtc_id q = c) (\<lambda>q. q\<lparr>crtc_enabled := True\<rparr>) (crtc_list s)"
    using lookup_crtc_unique [OF dist r] by (intro map_at_cong) auto
  finally have crtcs: "crtc_list s' = map_at (\<lambda>q. crtc_id q = c) (\<lambda>q. q\<lparr>crtc_enabled := True\<rparr>) (crtc_list s)" .
  have "list_all is_fixup es" using mode_fixups_ok [OF fx] by simp
  then show ?thesis using crtcs s' s1 by (simp add: log_hw_def)
qed

text \<open>C3: when drm_crtc_set_mode reports a rejection, the bindings are unchanged, the CRTC keeps its mode and position (only its enabled flag is set, from drm_crtc_in_use), only fixup calls reached the driver, and, while the registry has a free identifier, the adjusted mode keeps an identifier that was free before the call (it is never released).\<close>

theorem drm_crtc_set_mode_reject:
  assumes dist: "distinct (map crtc_id (crtc_list s))"
    and res: "drm_crtc_set_mode drv c m x y s = Some (False, s')"
    and free: "1 \<le> j" "j \<le> MAX_ID_MASK" "crtc_idr s j = None"
  shows "output_list s' = output_list s \<and>
    crtc_list s' = map_at (\<lambda>q. crtc_id q = c) (\<lambda>q. q\<lparr>crtc_enabled := True\<rparr>) (crtc_list s) \<and>
    (\<exists>es. hw_log s' = hw_log s @ es \<and> list_all is_fixup es) \<and>
    (\<exists>i. crtc_idr s i = None \<and> crtc_idr s' i = Some DRM_OBJ_MODE)"
  using set_mode_reject_effect [OF dist res] mc_idr_get_allocates [OF free, of DRM_OBJ_MODE] by simp

lemma drm_crtc_set_mode_unused:
  assumes r: "lookup_crtc s c = Some r" and nu: "\<not> drm_crtc_in_use s c"
  shows "drm_crtc_set_mode drv c m x y s =
    Some (True, update_crtc c (\<lambda>q. q\<lparr>crtc_enabled := False\<rparr>) (snd (mc_idr_get DRM_OBJ_MODE s)))"
proof -
  obtain adj s1 where dup: "drm_mode_duplicate m s = (adj, s1)" by fastforce
  show ?thesis
    using drm_crtc_set_mode_unfold [OF r dup] drm_mode_duplicate_snd [OF dup] nu by simp
qed

lemma idr_get_put_restores:
  assumes "crtc_idr s 0 = None"
  shows "drm_idr_put (fst (mc_idr_get k s)) (crtc_idr (snd (mc_idr_get k s))) = crtc_idr s"
proof (cases "fst (mc_idr_get k s) = 0")
  case True
  then have "snd (mc_idr_get k s) = s"
    using mc_idr_get_zero [of k s] by (metis prod.collapse)
  with True assms show ?thesis by (auto simp: drm_idr_put_def)
next
  case False
  then have "crtc_idr s (fst (mc_idr_get k s)) = None \<and>
      snd (mc_idr_get k s) = s\<lparr>crtc_idr := (crtc_idr s)(fst (mc_idr_get k s) \<mapsto> k)\<rparr>"
    using mc_idr_get_fresh [of k s] by (metis prod.collapse)
  then show ?thesis by (auto simp: drm_idr_put_def)
qed

text \<open>C2: when the CRTC is in use, the mode is not a pure reposition and every fixup accepts, drm_crtc_set_mode succeeds, calls the driver exactly in the order output fixups, CRTC fixup, output prepares, CRTC prepare, CRTC mode_set, output mode_sets, CRTC commit, output commits, leaves the CRTC enabled with the new mode and position, and releases the adjusted mode identifier.\<close>

theorem drm_crtc_set_mode_commit:
  assumes r: "lookup_crtc s c = Some r" and use: "drm_crtc_in_use s c"
    and nf: "\<not> (drm_mode_equal (crtc_mode r) m \<and> (crtc_x r \<noteq> x \<or> crtc_y r \<noteq> y))"
    and acc: "list_all (\<lambda>oid. drv_output_mode_fixup drv oid m) (outputs_on s c)"
    and cacc: "drv_crtc_mode_fixup drv c m"
    and z: "crtc_idr s 0 = None"
  shows "\<exists>s'. drm_crtc_set_mode drv c m x y s = Some (True, s') \<and>
    hw_log s' = hw_log s @ map OutputModeFixup (outputs_on s c) @ [CrtcModeFixup c] @
                mode_set_sequence c m x y (outputs_on s c) \<and>
    crtc_list s' = map_at (\<lambda>q. crtc_id q = c)
       (\<lambda>q. q\<lparr>crtc_enabled := True, crtc_mode := m, crtc_x := x, crtc_y := y\<rparr>) (crtc_list s) \<and>
    output_list s' = output_list s \<and> crtc_idr s' = crtc_idr s"
proof -
  obtain adj s1 where dup: "drm_mode_duplicate m s = (adj, s1)" by fastforce
  have s1: "s1 = snd (mc_idr_get DRM_OBJ_MODE s)" by (rule drm_mode_duplicate_snd [OF dup])
  have adj: "mode_id adj = fst (mc_idr_get DRM_OBJ_MODE s)"
    using dup by (auto simp: drm_mode_duplicate_def drm_mode_create_def split: prod.splits)
  let ?s2 = "update_crtc c (\<lambda>q. q\<lparr>crtc_enabled := True\<rparr>) s1"
  have os: "outputs_on ?s2 c = outputs_on s c" using s1 by (simp add: outputs_on_def)
  obtain es ok where fx: "mode_fixups drv c m (outputs_on ?s2 c) = (es, ok)" by fastforce
  with mode_fixups_ok [OF fx] acc cacc os
  have ok: "ok" and es: "es = map OutputModeFixup (outputs_on s c) @ [CrtcModeFixup c]" by auto
  let ?s' = "drm_mode_destroy adj (log_hw (es @ mode_set_sequence c m x y (outputs_on s c))
               (update_crtc c (\<lambda>q. q\<lparr>crtc_mode := m, crtc_x := x, crtc_y := y\<rparr>) ?s2))"
  have res: "drm_crtc_set_mode drv c m x y s = Some (True, ?s')"
    using drm_crtc_set_mode_unfold [OF r dup] use set_mode_apply_full [OF nf fx] ok os
    by (simp add: Let_def)
  have "crtc_idr ?s' = crtc_idr s"
    using idr_get_put_restores [OF z, of DRM_OBJ_MODE] s1 adj
    by (simp add: drm_mode_destroy_def mc_idr_put_def log_hw_def)
  moreover have "crtc_list ?s' = map_at (\<lambda>q. crtc_id q = c)
       (\<lambda>q. q\<lparr>crtc_enabled := True, crtc_mode := m, crtc_x := x, crtc_y := y\<rparr>) (crtc_list s)"
    using s1 by (simp add: drm_mode_destroy_def mc_idr_put_def log_hw_def update_crtc_def
        map_at_map_at comp_def)
  ultimately show ?thesis using res es s1
    by (simp add: drm_mode_destroy_def mc_idr_put_def log_hw_def)
qed

text \<open>The reposition fast path calls \<^verbatim>\<open>mode_set_base\<close> without a test: with none, the call faults.\<close>

lemma set_mode_fast_fault:
  assumes r: "lookup_crtc s c = Some r" and use: "drm_crtc_in_use s c"
    and eq: "drm_mode_equal (crtc_mode r) m" and mv: "crtc_x r \<noteq> x \<or> crtc_y r \<noteq> y"
    and nb: "\<not> drv_has_mode_set_base drv c"
  shows "drm_crtc_set_mode drv c m x y s = None"
proof -
  obtain adj s1 where dup: "drm_mode_duplicate m s = (adj, s1)" by fastforce
  show ?thesis using drm_crtc_set_mode_unfold [OF r dup] set_mode_apply_fast [OF eq mv] use nb by simp
qed

text \<open>C6: drm_crtc_set_mode faults exactly when the CRTC is not in the device, or when it is in use, the mode is unchanged, the position changes and the driver has no mode_set_base.\<close>

theorem drm_crtc_set_mode_fault:
  "drm_crtc_set_mode drv c m x y s = None \<longleftrightarrow>
     lookup_crtc s c = None \<or>
     (\<exists>r. lookup_crtc s c = Some r \<and> drm_crtc_in_use s c \<and> drm_mode_equal (crtc_mode r) m \<and>
          (crtc_x r \<noteq> x \<or> crtc_y r \<noteq> y) \<and> \<not> drv_has_mode_set_base drv c)"
proof (cases "lookup_crtc s c")
  case None
  then show ?thesis by (simp add: drm_crtc_set_mode_def)
next
  case (Some r)
  obtain adj s1 where dup: "drm_mode_duplicate m s = (adj, s1)" by fastforce
  show ?thesis
  proof (cases "drm_mode_equal (crtc_mode r) m \<and> (crtc_x r \<noteq> x \<or> crtc_y r \<noteq> y)")
    case True
    then show ?thesis
      using Some drm_crtc_set_mode_unfold [OF Some dup] set_mode_apply_fast set_mode_fast_fault by auto
  next
    case False
    obtain es ok where fx: "mode_fixups drv c m (outputs_on (update_crtc c (\<lambda>q. q\<lparr>crtc_enabled := True\<rparr>) s1) c) = (es, ok)"
      by fastforce
    show ?thesis
      using Some False drm_crtc_set_mode_unfold [OF Some dup] set_mode_apply_full [OF False fx]
      by (auto simp: Let_def)
  qed
qed

end
