(* ===== verification/DRM_SetConfig.thy ===== *)
theory DRM_SetConfig
  imports DRM_SetMode
begin

text \<open>
  The configuration transaction, \<^verbatim>\<open>drm_crtc_set_config\<close> of \<^verbatim>\<open>drm_crtc.c\<close>,
  and the ioctl that calls it, \<^verbatim>\<open>drm_mode_setcrtc\<close>. The transaction saves every
  output's binding and the CRTC's enabled flag, rebinds the outputs at once, decides
  whether the change needs a full mode set (\<open>changed\<close>) or only a new scan-out base
  (\<open>flip_or_move\<close>), runs \<open>drm_crtc_set_mode\<close> when a mode is given, and on its
  rejection puts the enabled flag and the bindings back before returning
  \<^verbatim>\<open>-EINVAL\<close>.
\<close>

section \<open>Definitions\<close>

record drm_mode_set =
  set_crtc :: "nat option"
  set_fb :: "nat option"
  set_x :: int
  set_y :: int
  set_mode :: "drm_display_mode option"
  set_outputs :: "nat list"

text \<open>The binding an output gets: the CRTC if it is in the set, none if it was on the CRTC, else its old one.\<close>

definition new_binding :: "nat \<Rightarrow> nat list \<Rightarrow> drm_output \<Rightarrow> nat option" where
  "new_binding c os out =
     (if output_id out \<in> set os then Some c
      else if output_crtc out = Some c then None else output_crtc out)"

definition rebind_outputs :: "nat \<Rightarrow> nat list \<Rightarrow> drm_output list \<Rightarrow> drm_output list" where
  "rebind_outputs c os outs = map (\<lambda>out. out\<lparr>output_crtc := new_binding c os out\<rparr>) outs"

definition restore_bindings :: "nat option list \<Rightarrow> drm_mode_config \<Rightarrow> drm_mode_config" where
  "restore_bindings saved s =
     s\<lparr>output_list := map2 (\<lambda>out b. out\<lparr>output_crtc := b\<rparr>) (output_list s) saved\<rparr>"

definition config_flip_or_move :: "drm_mode_set \<Rightarrow> drm_crtc \<Rightarrow> bool" where
  "config_flip_or_move req crtc \<longleftrightarrow>
     crtc_fb crtc \<noteq> set_fb req \<or> set_x req \<noteq> crtc_x crtc \<or> set_y req \<noteq> crtc_y crtc"

definition config_mode_changed :: "drm_mode_set \<Rightarrow> drm_crtc \<Rightarrow> bool" where
  "config_mode_changed req crtc \<longleftrightarrow>
     (case set_mode req of None \<Rightarrow> False | Some m \<Rightarrow> \<not> drm_mode_equal m (crtc_mode crtc))"

text \<open>The \<open>if (changed)\<close> branch, after the CRTC's framebuffer and enabled flag are set.\<close>

definition set_config_apply :: "drm_driver \<Rightarrow> nat \<Rightarrow> drm_mode_set \<Rightarrow> bool \<Rightarrow> nat option list \<Rightarrow>
    drm_mode_config \<Rightarrow> (unit drm_result \<times> drm_mode_config) faulting" where
  "set_config_apply drv c req save_enabled save_crtcs s =
     (case set_mode req of
        None \<Rightarrow> Some (Inr (), drm_disable_unused_functions s)
      | Some m \<Rightarrow>
          (case drm_crtc_set_mode drv c m (set_x req) (set_y req) s of
             None \<Rightarrow> None
           | Some (False, s') \<Rightarrow>
               Some (Inl EINVAL,
                     restore_bindings save_crtcs (update_crtc c (\<lambda>r. r\<lparr>crtc_enabled := save_enabled\<rparr>) s'))
           | Some (True, s') \<Rightarrow>
               Some (Inr (), drm_disable_unused_functions
                 (update_crtc c (\<lambda>r. r\<lparr>crtc_desired_x := set_x req, crtc_desired_y := set_y req,
                                      crtc_desired_mode := Some m\<rparr>) s'))))"

definition drm_crtc_set_config :: "drm_driver \<Rightarrow> drm_mode_set \<Rightarrow> drm_mode_config \<Rightarrow>
    (unit drm_result \<times> drm_mode_config) faulting" where
  "drm_crtc_set_config drv req s =
     (case set_crtc req of
        None \<Rightarrow> Some (Inl EINVAL, s)
      | Some c \<Rightarrow>
          (case lookup_crtc s c of
             None \<Rightarrow> None
           | Some crtc \<Rightarrow>
               (let save_crtcs = map output_crtc (output_list s);
                    outs = rebind_outputs c (set_outputs req) (output_list s);
                    s1 = s\<lparr>output_list := outs\<rparr>;
                    fm = config_flip_or_move req crtc;
                    changed = (config_mode_changed req crtc \<or> map output_crtc outs \<noteq> save_crtcs \<or>
                               (fm \<and> \<not> drv_has_mode_set_base drv c))
                in if changed
                   then set_config_apply drv c req (crtc_enabled crtc) save_crtcs
                          (update_crtc c (\<lambda>r. r\<lparr>crtc_fb := set_fb req,
                                                 crtc_enabled := (set_mode req \<noteq> None)\<rparr>) s1)
                   else if fm
                   then Some (Inr (), log_hw [CrtcModeSetBase c (set_x req) (set_y req)]
                                        (update_crtc c (\<lambda>r. r\<lparr>crtc_fb := set_fb req\<rparr>) s1))
                   else Some (Inr (), s1))))"

section \<open>Lemmas\<close>

lemma restore_rebind:
  "map2 (\<lambda>out b. out\<lparr>output_crtc := b\<rparr>) (rebind_outputs c os xs) (map output_crtc xs) = xs"
  by (induction xs) (simp_all add: rebind_outputs_def)

lemma restore_bindings_fields [simp]:
  "crtc_list (restore_bindings saved s) = crtc_list s" "hw_log (restore_bindings saved s) = hw_log s"
  "crtc_idr (restore_bindings saved s) = crtc_idr s" "fb_list (restore_bindings saved s) = fb_list s"
  "output_list (restore_bindings saved s) = map2 (\<lambda>out b. out\<lparr>output_crtc := b\<rparr>) (output_list s) saved"
  by (simp_all add: restore_bindings_def)

lemma set_config_unfold:
  assumes "set_crtc req = Some c" and "lookup_crtc s c = Some r"
  shows "drm_crtc_set_config drv req s =
    (let outs = rebind_outputs c (set_outputs req) (output_list s);
         s1 = s\<lparr>output_list := outs\<rparr>
     in if config_mode_changed req r \<or> map output_crtc outs \<noteq> map output_crtc (output_list s) \<or>
           (config_flip_or_move req r \<and> \<not> drv_has_mode_set_base drv c)
        then set_config_apply drv c req (crtc_enabled r) (map output_crtc (output_list s))
               (update_crtc c (\<lambda>q. q\<lparr>crtc_fb := set_fb req, crtc_enabled := (set_mode req \<noteq> None)\<rparr>) s1)
        else if config_flip_or_move req r
        then Some (Inr (), log_hw [CrtcModeSetBase c (set_x req) (set_y req)]
                             (update_crtc c (\<lambda>q. q\<lparr>crtc_fb := set_fb req\<rparr>) s1))
        else Some (Inr (), s1))"
  using assms by (simp add: drm_crtc_set_config_def Let_def)

text \<open>C1: when the mode set inside the transaction is rejected, drm_crtc_set_config returns EINVAL, every output keeps its binding, every CRTC is as before except that the target CRTC keeps the requested framebuffer, and the only driver calls made were mode_fixup calls.\<close>

theorem drm_crtc_set_config_reject:
  assumes dist: "distinct (map crtc_id (crtc_list s))"
    and c: "set_crtc req = Some c"
    and res: "drm_crtc_set_config drv req s = Some (Inl e, s')"
  shows "e = EINVAL \<and> output_list s' = output_list s \<and>
    crtc_list s' = map_at (\<lambda>q. crtc_id q = c) (\<lambda>q. q\<lparr>crtc_fb := set_fb req\<rparr>) (crtc_list s) \<and>
    (\<exists>es. hw_log s' = hw_log s @ es \<and> list_all is_fixup es)"
proof -
  obtain r where r: "lookup_crtc s c = Some r"
    using res c by (cases "lookup_crtc s c") (auto simp: drm_crtc_set_config_def)
  let ?outs = "rebind_outputs c (set_outputs req) (output_list s)"
  let ?save = "map output_crtc (output_list s)"
  let ?s2 = "update_crtc c (\<lambda>q. q\<lparr>crtc_fb := set_fb req, crtc_enabled := (set_mode req \<noteq> None)\<rparr>)
               (s\<lparr>output_list := ?outs\<rparr>)"
  have app: "set_config_apply drv c req (crtc_enabled r) ?save ?s2 = Some (Inl e, s')"
    using res set_config_unfold [OF c r, of drv] by (auto simp: Let_def split: if_splits)
  then obtain m where m: "set_mode req = Some m"
    by (cases "set_mode req") (auto simp: set_config_apply_def)
  obtain s3 where sm: "drm_crtc_set_mode drv c m (set_x req) (set_y req) ?s2 = Some (False, s3)"
    and s': "s' = restore_bindings ?save (update_crtc c (\<lambda>q. q\<lparr>crtc_enabled := crtc_enabled r\<rparr>) s3)"
    and e: "e = EINVAL"
    using app m by (auto simp: set_config_apply_def split: option.splits bool.splits)
  have dist2: "distinct (map crtc_id (crtc_list ?s2))"
    using dist by (simp add: update_crtc_def map_map_at_frame)
  note rej = set_mode_reject_effect [OF dist2 sm]
  have "output_list s' = output_list s"
    using rej s' by (simp add: restore_rebind)
  moreover have "crtc_list s' = map_at (\<lambda>q. crtc_id q = c)
      ((\<lambda>q. q\<lparr>crtc_enabled := crtc_enabled r\<rparr>) \<circ> ((\<lambda>q. q\<lparr>crtc_enabled := True\<rparr>) \<circ>
       (\<lambda>q. q\<lparr>crtc_fb := set_fb req, crtc_enabled := True\<rparr>))) (crtc_list s)"
    using rej s' m by (simp add: update_crtc_def map_at_map_at)
  moreover have "\<dots> = map_at (\<lambda>q. crtc_id q = c) (\<lambda>q. q\<lparr>crtc_fb := set_fb req\<rparr>) (crtc_list s)"
    using lookup_crtc_unique [OF dist r] by (intro map_at_cong) auto
  moreover have "\<exists>es. hw_log s' = hw_log s @ es \<and> list_all is_fixup es"
    using rej s' by simp
  ultimately show ?thesis using e by simp
qed

text \<open>C4: a drm_crtc_set_config request without a mode that changes a binding rebinds the outputs, sets the framebuffer, disables the CRTC and runs the disable-unused sweep, without any mode set.\<close>

theorem drm_crtc_set_config_no_mode:
  assumes c: "set_crtc req = Some c" and r: "lookup_crtc s c = Some r" and m: "set_mode req = None"
    and ch: "map output_crtc (rebind_outputs c (set_outputs req) (output_list s)) \<noteq>
             map output_crtc (output_list s)"
  shows "drm_crtc_set_config drv req s =
    Some (Inr (), drm_disable_unused_functions
      (update_crtc c (\<lambda>q. q\<lparr>crtc_fb := set_fb req, crtc_enabled := False\<rparr>)
        (s\<lparr>output_list := rebind_outputs c (set_outputs req) (output_list s)\<rparr>)))"
  using set_config_unfold [OF c r, of drv] m ch by (simp add: set_config_apply_def Let_def)

lemma disable_unused_logs_crtc:
  assumes "x \<in> set (crtc_list s)" and "\<not> crtc_enabled x"
  shows "CrtcDpms (crtc_id x) DPMSModeOff \<in> set (hw_log (drm_disable_unused_functions s))"
  using assms by (auto simp: drm_disable_unused_functions_def)

lemma disable_unused_logs_output:
  assumes "out \<in> set (output_list s)" and "output_crtc out = None"
  shows "OutputDpms (output_id out) DPMSModeOff \<in> set (hw_log (drm_disable_unused_functions s))"
  using assms by (auto simp: drm_disable_unused_functions_def)

text \<open>C5: a request that keeps the CRTC mode but moves the scan-out origin, on a CRTC whose driver has no mode_set_base, makes drm_crtc_set_config fault: the changed path runs drm_crtc_set_mode, whose reposition fast path calls the missing mode_set_base.\<close>

theorem drm_crtc_set_config_fault:
  assumes c: "set_crtc req = Some c" and r: "lookup_crtc s c = Some r" and m: "set_mode req = Some m"
    and eq: "drm_mode_equal m (crtc_mode r)" and mv: "set_x req \<noteq> crtc_x r \<or> set_y req \<noteq> crtc_y r"
    and nb: "\<not> drv_has_mode_set_base drv c"
    and out: "out \<in> set (output_list s)" and ins: "output_id out \<in> set (set_outputs req)"
  shows "drm_crtc_set_config drv req s = None"
proof -
  let ?outs = "rebind_outputs c (set_outputs req) (output_list s)"
  let ?s2 = "update_crtc c (\<lambda>q. q\<lparr>crtc_fb := set_fb req, crtc_enabled := True\<rparr>)
               (s\<lparr>output_list := ?outs\<rparr>)"
  have fm: "config_flip_or_move req r" using mv by (auto simp: config_flip_or_move_def)
  have l2: "lookup_crtc ?s2 c = Some (r\<lparr>crtc_fb := set_fb req, crtc_enabled := True\<rparr>)"
    using lookup_crtc_update_same [of "\<lambda>q. q\<lparr>crtc_fb := set_fb req, crtc_enabled := True\<rparr>" c
        "s\<lparr>output_list := ?outs\<rparr>"] r
    by (simp add: lookup_crtc_def)
  have use: "drm_crtc_in_use ?s2 c"
    using out ins by (force simp: drm_crtc_in_use_def list_ex_iff rebind_outputs_def new_binding_def)
  have "drm_crtc_set_mode drv c m (set_x req) (set_y req) ?s2 = None"
    using set_mode_fast_fault [OF l2 use, of m "set_x req" "set_y req" drv] eq mv nb
    by (auto simp: drm_mode_equal_sym)
  then show ?thesis
    using set_config_unfold [OF c r, of drv] m fm nb by (simp add: set_config_apply_def Let_def)
qed

end
