(* ===== verification/DRM_PickCrtcs.thy ===== *)
theory DRM_PickCrtcs
  imports DRM_Store
begin

text \<open>
  The assignment engine, \<^verbatim>\<open>drm_pick_crtcs\<close> of \<^verbatim>\<open>drm_crtc.c\<close>: for every output
  in list order, drop its binding, skip it unless it is connected with modes, choose
  the first preferred mode (else the first mode), and bind it to the first CRTC, in
  list order, that its \<^verbatim>\<open>possible_crtcs\<close> mask allows and no other output holds.
  The clone scan that follows the ownership test is kept as the source has it; the
  lemmas show that it can never match, so that the engine never shares a CRTC.
\<close>

section \<open>Definitions\<close>

text \<open>\<^verbatim>\<open>(output->possible_crtcs & (1 << c)) != 0\<close>, on the 32-bit mask.\<close>

definition crtc_eligible :: "32 word \<Rightarrow> nat \<Rightarrow> bool" where
  "crtc_eligible pc c \<longleftrightarrow> pc AND push_bit c 1 \<noteq> 0"

text \<open>The desired mode: the first preferred mode, else the first mode.\<close>

definition pick_desired_mode :: "drm_display_mode list \<Rightarrow> drm_display_mode" where
  "pick_desired_mode ms = (case find mode_preferred ms of Some m \<Rightarrow> m | None \<Rightarrow> hd ms)"

text \<open>Does an output other than \<open>out\<close> hold the CRTC?\<close>

definition crtc_assigned :: "drm_output list \<Rightarrow> drm_output \<Rightarrow> nat \<Rightarrow> bool" where
  "crtc_assigned outs out c \<longleftrightarrow>
     list_ex (\<lambda>oe. output_id oe \<noteq> output_id out \<and> output_crtc oe = Some c) outs"

text \<open>
  The clone scan: the first other output, in list order, and the first of \<open>out\<close>'s
  modes equal to one of its modes, such that the two outputs share a clone bit and the
  other output holds the CRTC; the result replaces the desired mode.
\<close>

fun clone_scan :: "drm_output \<Rightarrow> nat \<Rightarrow> drm_output list \<Rightarrow> drm_display_mode option" where
  "clone_scan out c [] = None"
| "clone_scan out c (oe # oes) =
     (if output_id out = output_id oe then clone_scan out c oes
      else (case find (\<lambda>m. list_ex (\<lambda>me. drm_mode_equal m me \<and>
                              possible_clones out AND possible_clones oe \<noteq> 0 \<and>
                              output_crtc oe = Some c) (modes oe)) (modes out) of
              Some m \<Rightarrow> Some m
            | None \<Rightarrow> clone_scan out c oes))"

text \<open>
  The scan over the CRTCs, \<open>c\<close> the index of the first one in the list given: the
  CRTC chosen and the desired mode it gets, or none.
\<close>

fun crtc_scan :: "drm_output list \<Rightarrow> drm_output \<Rightarrow> drm_display_mode \<Rightarrow> nat \<Rightarrow> drm_crtc list \<Rightarrow>
    (nat \<times> drm_display_mode) option" where
  "crtc_scan outs out des c [] = None"
| "crtc_scan outs out des c (cr # crs) =
     (if \<not> crtc_eligible (possible_crtcs out) c then crtc_scan outs out des (Suc c) crs
      else if crtc_assigned outs out (crtc_id cr) then crtc_scan outs out des (Suc c) crs
      else (case clone_scan out (crtc_id cr) outs of
              Some m \<Rightarrow> Some (crtc_id cr, m)
            | None \<Rightarrow> Some (crtc_id cr, des)))"

text \<open>One iteration of the outer loop, for the output at position \<open>i\<close>.\<close>

definition pick_crtc_for :: "drm_mode_config \<Rightarrow> nat \<Rightarrow> drm_mode_config" where
  "pick_crtc_for s i =
     (let out = (output_list s ! i)\<lparr>output_crtc := None\<rparr>;
          s1 = s\<lparr>output_list := (output_list s)[i := out]\<rparr>
      in if output_status out \<noteq> output_status_connected \<or> modes out = [] then s1
         else (case crtc_scan (output_list s1) out (pick_desired_mode (modes out)) 0 (crtc_list s1) of
                 None \<Rightarrow> s1
               | Some (c, m) \<Rightarrow>
                   s1\<lparr>output_list := (output_list s1)[i := out\<lparr>output_crtc := Some c, initial_x := 0,
                                                                initial_y := 0\<rparr>],
                      crtc_list := map_at (\<lambda>r. crtc_id r = c)
                                     (\<lambda>r. r\<lparr>crtc_desired_mode := Some m\<rparr>) (crtc_list s1)\<rparr>))"

definition drm_pick_crtcs :: "drm_mode_config \<Rightarrow> drm_mode_config" where
  "drm_pick_crtcs s = fold (\<lambda>i s. pick_crtc_for s i) [0..<length (output_list s)] s"

section \<open>The contract: first fit, with no clone scan\<close>

text \<open>
  The reference scan: the first CRTC, in list order, that the mask allows and no other
  output holds. The reference engine is the loop of \<^verbatim>\<open>drm_pick_crtcs\<close> with this scan
  in place of the CRTC loop and the desired mode always the one chosen up front.
\<close>


fun first_fit :: "drm_output list \<Rightarrow> drm_output \<Rightarrow> nat \<Rightarrow> drm_crtc list \<Rightarrow> nat option" where
  "first_fit outs out c [] = None"
| "first_fit outs out c (cr # crs) =
     (if crtc_eligible (possible_crtcs out) c \<and> \<not> crtc_assigned outs out (crtc_id cr)
      then Some (crtc_id cr) else first_fit outs out (Suc c) crs)"

definition pick_first_fit_for :: "drm_mode_config \<Rightarrow> nat \<Rightarrow> drm_mode_config" where
  "pick_first_fit_for s i =
     (let out = (output_list s ! i)\<lparr>output_crtc := None\<rparr>;
          s1 = s\<lparr>output_list := (output_list s)[i := out]\<rparr>
      in if output_status out \<noteq> output_status_connected \<or> modes out = [] then s1
         else (case first_fit (output_list s1) out 0 (crtc_list s1) of
                 None \<Rightarrow> s1
               | Some c \<Rightarrow>
                   s1\<lparr>output_list := (output_list s1)[i := out\<lparr>output_crtc := Some c, initial_x := 0,
                                                                initial_y := 0\<rparr>],
                      crtc_list := map_at (\<lambda>r. crtc_id r = c)
                        (\<lambda>r. r\<lparr>crtc_desired_mode := Some (pick_desired_mode (modes out))\<rparr>) (crtc_list s1)\<rparr>))"

definition pick_crtcs_first_fit :: "drm_mode_config \<Rightarrow> drm_mode_config" where
  "pick_crtcs_first_fit s = fold (\<lambda>i s. pick_first_fit_for s i) [0..<length (output_list s)] s"

text \<open>
  The invariants of the loop after \<open>k\<close> iterations: among the first \<open>k\<close> outputs, a bound
  output holds its CRTC alone, and it is connected, has modes, and its CRTC is one its mask
  allows and carries the mode chosen for it.
\<close>

definition bindings_valid_upto :: "nat \<Rightarrow> drm_output list \<Rightarrow> drm_crtc list \<Rightarrow> bool" where
  "bindings_valid_upto k outs crs \<longleftrightarrow>
     (\<forall>i < k. \<forall>c. output_crtc (outs ! i) = Some c \<longrightarrow>
        output_status (outs ! i) = output_status_connected \<and> modes (outs ! i) \<noteq> [] \<and>
        (\<exists>n < length crs. crtc_id (crs ! n) = c \<and> crtc_eligible (possible_crtcs (outs ! i)) n \<and>
           crtc_desired_mode (crs ! n) = Some (pick_desired_mode (modes (outs ! i)))))"

definition bindings_exclusive_upto :: "nat \<Rightarrow> drm_output list \<Rightarrow> bool" where
  "bindings_exclusive_upto k outs \<longleftrightarrow>
     (\<forall>i < k. \<forall>j < length outs. i \<noteq> j \<longrightarrow> output_crtc (outs ! i) \<noteq> None \<longrightarrow>
        output_crtc (outs ! j) \<noteq> output_crtc (outs ! i))"


section \<open>Lemmas\<close>

lemma clone_scan_unassigned:
  "\<not> crtc_assigned outs out c \<Longrightarrow> clone_scan out c outs = None"
proof (induction outs)
  case Nil
  then show ?case by simp
next
  case (Cons oe oes)
  have "\<not> crtc_assigned oes out c" using Cons.prems by (simp add: crtc_assigned_def)
  moreover have "output_id out \<noteq> output_id oe \<Longrightarrow> output_crtc oe \<noteq> Some c"
    using Cons.prems by (auto simp: crtc_assigned_def)
  moreover have "find (\<lambda>m. False) ms = None" for ms :: "drm_display_mode list"
    by (induction ms) simp_all
  ultimately show ?case using Cons.IH by (auto simp: list_ex_iff split: option.splits)
qed

lemma crtc_scan_first_fit:
  "crtc_scan outs out des c crs = map_option (\<lambda>cid. (cid, des)) (first_fit outs out c crs)"
  by (induction crs arbitrary: c) (auto simp: clone_scan_unassigned)

lemma first_fit_SomeD:
  "first_fit outs out c crs = Some cid \<Longrightarrow>
     \<exists>k < length crs. crtc_id (crs ! k) = cid \<and> crtc_eligible (possible_crtcs out) (c + k) \<and>
       \<not> crtc_assigned outs out cid"
proof (induction crs arbitrary: c)
  case Nil
  then show ?case by simp
next
  case (Cons cr crs)
  show ?case
  proof (cases "crtc_eligible (possible_crtcs out) c \<and> \<not> crtc_assigned outs out (crtc_id cr)")
    case True
    with Cons.prems show ?thesis by (intro exI [of _ 0]) auto
  next
    case False
    with Cons.prems have "first_fit outs out (Suc c) crs = Some cid" by simp
    from Cons.IH [OF this] obtain k where "k < length crs" "crtc_id (crs ! k) = cid"
      "crtc_eligible (possible_crtcs out) (Suc c + k)" "\<not> crtc_assigned outs out cid" by blast
    then show ?thesis by (intro exI [of _ "Suc k"]) auto
  qed
qed

lemma pick_crtc_for_cases:
  assumes "k < length (output_list s)"
  shows "(output_list (pick_crtc_for s k) = (output_list s)[k := (output_list s ! k)\<lparr>output_crtc := None\<rparr>] \<and>
          crtc_list (pick_crtc_for s k) = crtc_list s) \<or>
         (\<exists>c. first_fit ((output_list s)[k := (output_list s ! k)\<lparr>output_crtc := None\<rparr>])
                 ((output_list s ! k)\<lparr>output_crtc := None\<rparr>) 0 (crtc_list s) = Some c \<and>
            output_status (output_list s ! k) = output_status_connected \<and> modes (output_list s ! k) \<noteq> [] \<and>
            output_list (pick_crtc_for s k) = (output_list s)[k := (output_list s ! k)\<lparr>output_crtc := Some c,
                 initial_x := 0, initial_y := 0\<rparr>] \<and>
            crtc_list (pick_crtc_for s k) = map_at (\<lambda>r. crtc_id r = c)
              (\<lambda>r. r\<lparr>crtc_desired_mode := Some (pick_desired_mode (modes (output_list s ! k)))\<rparr>) (crtc_list s))"
  using assms
  by (auto simp: pick_crtc_for_def Let_def crtc_scan_first_fit split: option.splits)

lemma not_assigned_nth:
  assumes "\<not> crtc_assigned outs out c" "j < length outs" "output_id (outs ! j) \<noteq> output_id out"
  shows "output_crtc (outs ! j) \<noteq> Some c"
  using assms nth_mem [OF assms(2)] unfolding crtc_assigned_def list_ex_iff by blast

lemma distinct_ids_nth:
  "\<lbrakk>distinct (map output_id outs); i < length outs; j < length outs; i \<noteq> j\<rbrakk>
     \<Longrightarrow> output_id (outs ! i) \<noteq> output_id (outs ! j)"
  by (simp add: distinct_conv_nth)

lemma pick_crtc_for_length [simp]:
  "length (output_list (pick_crtc_for s k)) = length (output_list s)"
  by (auto simp: pick_crtc_for_def Let_def split: option.splits)

lemma pick_crtc_for_crtcs_length [simp]:
  "length (crtc_list (pick_crtc_for s k)) = length (crtc_list s)"
  by (auto simp: pick_crtc_for_def Let_def split: option.splits)

lemma pick_crtc_for_other:
  "j \<noteq> k \<Longrightarrow> output_list (pick_crtc_for s k) ! j = output_list s ! j"
  by (auto simp: pick_crtc_for_def Let_def split: option.splits)

lemma pick_crtc_for_ids:
  "map output_id (output_list (pick_crtc_for s k)) = map output_id (output_list s)"
  by (auto simp: pick_crtc_for_def Let_def map_update_same_key split: option.splits)

text \<open>What the CRTC chosen for the output at position \<open>k\<close> satisfies: no other output holds it.\<close>

lemma first_fit_free:
  assumes "first_fit ((output_list s)[k := (output_list s ! k)\<lparr>output_crtc := None\<rparr>])
             ((output_list s ! k)\<lparr>output_crtc := None\<rparr>) 0 (crtc_list s) = Some c"
    and "distinct (map output_id (output_list s))" "k < length (output_list s)"
    and "j < length (output_list s)" "j \<noteq> k"
  shows "output_crtc (output_list s ! j) \<noteq> Some c"
proof -
  let ?outs = "(output_list s)[k := (output_list s ! k)\<lparr>output_crtc := None\<rparr>]"
  have "\<not> crtc_assigned ?outs ((output_list s ! k)\<lparr>output_crtc := None\<rparr>) c"
    using first_fit_SomeD [OF assms(1)] by blast
  moreover have "output_id (?outs ! j) \<noteq> output_id ((output_list s ! k)\<lparr>output_crtc := None\<rparr>)"
    using distinct_ids_nth [OF assms(2) assms(4) assms(3) assms(5)] assms(5) by simp
  ultimately have "output_crtc (?outs ! j) \<noteq> Some c"
    using not_assigned_nth assms(4) by simp
  then show ?thesis using assms(5) by simp
qed

lemma pick_crtc_for_exclusive:
  assumes "k < length (output_list s)" "distinct (map output_id (output_list s))"
    and "bindings_exclusive_upto k (output_list s)"
  shows "bindings_exclusive_upto (Suc k) (output_list (pick_crtc_for s k))"
  using pick_crtc_for_cases [OF assms(1)]
proof
  assume "output_list (pick_crtc_for s k) = (output_list s)[k := (output_list s ! k)\<lparr>output_crtc := None\<rparr>] \<and>
          crtc_list (pick_crtc_for s k) = crtc_list s"
  then show ?thesis using assms(1,3) unfolding bindings_exclusive_upto_def
    by (auto simp: nth_list_update less_Suc_eq)
next
  assume "\<exists>c. first_fit ((output_list s)[k := (output_list s ! k)\<lparr>output_crtc := None\<rparr>])
                 ((output_list s ! k)\<lparr>output_crtc := None\<rparr>) 0 (crtc_list s) = Some c \<and>
            output_status (output_list s ! k) = output_status_connected \<and> modes (output_list s ! k) \<noteq> [] \<and>
            output_list (pick_crtc_for s k) = (output_list s)[k := (output_list s ! k)\<lparr>output_crtc := Some c,
                 initial_x := 0, initial_y := 0\<rparr>] \<and>
            crtc_list (pick_crtc_for s k) = map_at (\<lambda>r. crtc_id r = c)
              (\<lambda>r. r\<lparr>crtc_desired_mode := Some (pick_desired_mode (modes (output_list s ! k)))\<rparr>) (crtc_list s)"
  then obtain c where ff: "first_fit ((output_list s)[k := (output_list s ! k)\<lparr>output_crtc := None\<rparr>])
                 ((output_list s ! k)\<lparr>output_crtc := None\<rparr>) 0 (crtc_list s) = Some c"
    and outs: "output_list (pick_crtc_for s k) = (output_list s)[k := (output_list s ! k)\<lparr>output_crtc := Some c,
                 initial_x := 0, initial_y := 0\<rparr>]" by blast
  have free: "\<And>j. j < length (output_list s) \<Longrightarrow> j \<noteq> k \<Longrightarrow> output_crtc (output_list s ! j) \<noteq> Some c"
    using first_fit_free [OF ff assms(2) assms(1)] by blast
  show ?thesis using assms(1,3) free unfolding bindings_exclusive_upto_def outs
    by (auto simp: nth_list_update less_Suc_eq)
qed

lemma pick_crtc_for_valid:
  assumes "k < length (output_list s)" "distinct (map output_id (output_list s))"
    and "bindings_valid_upto k (output_list s) (crtc_list s)"
  shows "bindings_valid_upto (Suc k) (output_list (pick_crtc_for s k)) (crtc_list (pick_crtc_for s k))"
  using pick_crtc_for_cases [OF assms(1)]
proof
  assume "output_list (pick_crtc_for s k) = (output_list s)[k := (output_list s ! k)\<lparr>output_crtc := None\<rparr>] \<and>
          crtc_list (pick_crtc_for s k) = crtc_list s"
  then show ?thesis using assms(1,3) unfolding bindings_valid_upto_def
    by (auto simp: nth_list_update less_Suc_eq)
next
  assume "\<exists>c. first_fit ((output_list s)[k := (output_list s ! k)\<lparr>output_crtc := None\<rparr>])
                 ((output_list s ! k)\<lparr>output_crtc := None\<rparr>) 0 (crtc_list s) = Some c \<and>
            output_status (output_list s ! k) = output_status_connected \<and> modes (output_list s ! k) \<noteq> [] \<and>
            output_list (pick_crtc_for s k) = (output_list s)[k := (output_list s ! k)\<lparr>output_crtc := Some c,
                 initial_x := 0, initial_y := 0\<rparr>] \<and>
            crtc_list (pick_crtc_for s k) = map_at (\<lambda>r. crtc_id r = c)
              (\<lambda>r. r\<lparr>crtc_desired_mode := Some (pick_desired_mode (modes (output_list s ! k)))\<rparr>) (crtc_list s)"
  then obtain c where ff: "first_fit ((output_list s)[k := (output_list s ! k)\<lparr>output_crtc := None\<rparr>])
                 ((output_list s ! k)\<lparr>output_crtc := None\<rparr>) 0 (crtc_list s) = Some c"
    and st: "output_status (output_list s ! k) = output_status_connected" "modes (output_list s ! k) \<noteq> []"
    and outs: "output_list (pick_crtc_for s k) = (output_list s)[k := (output_list s ! k)\<lparr>output_crtc := Some c,
                 initial_x := 0, initial_y := 0\<rparr>]"
    and crs: "crtc_list (pick_crtc_for s k) = map_at (\<lambda>r. crtc_id r = c)
              (\<lambda>r. r\<lparr>crtc_desired_mode := Some (pick_desired_mode (modes (output_list s ! k)))\<rparr>) (crtc_list s)"
    by blast
  have free: "\<And>j. j < length (output_list s) \<Longrightarrow> j \<noteq> k \<Longrightarrow> output_crtc (output_list s ! j) \<noteq> Some c"
    using first_fit_free [OF ff assms(2) assms(1)] by blast
  obtain n where "n < length (crtc_list s)" "crtc_id (crtc_list s ! n) = c"
      "crtc_eligible (possible_crtcs (output_list s ! k)) n"
    using first_fit_SomeD [OF ff] by auto
  then have new: "\<exists>n < length (crtc_list (pick_crtc_for s k)). crtc_id (crtc_list (pick_crtc_for s k) ! n) = c \<and>
      crtc_eligible (possible_crtcs (output_list s ! k)) n \<and>
      crtc_desired_mode (crtc_list (pick_crtc_for s k) ! n) = Some (pick_desired_mode (modes (output_list s ! k)))"
    unfolding crs by (intro exI [of _ n]) simp
  have old: "\<exists>n < length (crtc_list (pick_crtc_for s k)). crtc_id (crtc_list (pick_crtc_for s k) ! n) = c' \<and>
      crtc_eligible (possible_crtcs (output_list s ! i)) n \<and>
      crtc_desired_mode (crtc_list (pick_crtc_for s k) ! n) = Some (pick_desired_mode (modes (output_list s ! i)))"
    if ik: "i < k" and ic: "output_crtc (output_list s ! i) = Some c'" for i c'
  proof -
    obtain n where n: "n < length (crtc_list s)" "crtc_id (crtc_list s ! n) = c'"
        "crtc_eligible (possible_crtcs (output_list s ! i)) n"
        "crtc_desired_mode (crtc_list s ! n) = Some (pick_desired_mode (modes (output_list s ! i)))"
      using assms(3) ik ic unfolding bindings_valid_upto_def by blast
    have "c' \<noteq> c" using free [of i] ik ic assms(1) by auto
    with n show ?thesis unfolding crs by (intro exI [of _ n]) simp
  qed
  show ?thesis using assms(1,3) st new old unfolding bindings_valid_upto_def outs
    by (auto simp: nth_list_update less_Suc_eq)
qed

lemma fold_upt_Suc_pick:
  "fold (\<lambda>i s. pick_crtc_for s i) [0..<Suc k] s = pick_crtc_for (fold (\<lambda>i s. pick_crtc_for s i) [0..<k] s) k"
  by simp

lemma fold_pick_crtcs_inv:
  assumes "k \<le> length (output_list s)" "distinct (map output_id (output_list s))"
  shows "bindings_exclusive_upto k (output_list (fold (\<lambda>i s. pick_crtc_for s i) [0..<k] s)) \<and>
         bindings_valid_upto k (output_list (fold (\<lambda>i s. pick_crtc_for s i) [0..<k] s))
           (crtc_list (fold (\<lambda>i s. pick_crtc_for s i) [0..<k] s)) \<and>
         map output_id (output_list (fold (\<lambda>i s. pick_crtc_for s i) [0..<k] s)) = map output_id (output_list s)"
  using assms(1)
proof (induction k)
  case 0
  then show ?case by (simp add: bindings_exclusive_upto_def bindings_valid_upto_def)
next
  case (Suc k)
  let ?t = "fold (\<lambda>i s. pick_crtc_for s i) [0..<k] s"
  from Suc have ih: "bindings_exclusive_upto k (output_list ?t)"
      "bindings_valid_upto k (output_list ?t) (crtc_list ?t)"
      "map output_id (output_list ?t) = map output_id (output_list s)" by simp_all
  then have "k < length (output_list ?t)" "distinct (map output_id (output_list ?t))"
    using Suc.prems assms(2) by (simp_all add: map_eq_imp_length_eq [OF ih(3)])
  then show ?case unfolding fold_upt_Suc_pick
    using pick_crtc_for_exclusive pick_crtc_for_valid ih pick_crtc_for_ids by simp
qed

lemma fold_pick_untouched:
  "k \<le> j \<Longrightarrow> output_list (fold (\<lambda>i s. pick_crtc_for s i) [0..<k] s) ! j = output_list s ! j"
  by (induction k) (simp_all add: pick_crtc_for_other)

lemma fold_pick_done:
  "i < n \<Longrightarrow> output_list (fold (\<lambda>i s. pick_crtc_for s i) [0..<n] s) ! i =
     output_list (fold (\<lambda>i s. pick_crtc_for s i) [0..<Suc i] s) ! i"
proof (induction n)
  case (Suc n)
  show ?case
  proof (cases "i = n")
    case False
    with Suc have "i < n" by simp
    with False Suc.IH show ?thesis by (simp add: pick_crtc_for_other)
  qed simp
qed simp

lemma drm_pick_crtcs_bindings_live:
  assumes "distinct (map output_id (output_list s))" and "out \<in> set (output_list (drm_pick_crtcs s))"
    and "output_crtc out = Some c"
  shows "c \<in> crtc_id ` set (crtc_list (drm_pick_crtcs s))"
proof -
  have v: "bindings_valid_upto (length (output_list s)) (output_list (drm_pick_crtcs s)) (crtc_list (drm_pick_crtcs s))"
    and l: "map output_id (output_list (drm_pick_crtcs s)) = map output_id (output_list s)"
    using fold_pick_crtcs_inv [OF order_refl assms(1)] unfolding drm_pick_crtcs_def by blast+
  obtain i where i: "i < length (output_list (drm_pick_crtcs s))" "output_list (drm_pick_crtcs s) ! i = out"
    using assms(2) by (metis in_set_conv_nth)
  have "i < length (output_list s)" using i(1) map_eq_imp_length_eq [OF l] by simp
  then obtain n where "n < length (crtc_list (drm_pick_crtcs s))" "crtc_id (crtc_list (drm_pick_crtcs s) ! n) = c"
    using v i(2) assms(3) unfolding bindings_valid_upto_def by blast
  then show ?thesis by (metis image_eqI nth_mem)
qed

lemma drm_pick_crtcs_ids:
  "map output_id (output_list (drm_pick_crtcs s)) = map output_id (output_list s)"
proof -
  have "map output_id (output_list (fold (\<lambda>i s. pick_crtc_for s i) is t)) = map output_id (output_list t)" for "is" t
    by (induction "is" arbitrary: t) (simp_all add: pick_crtc_for_ids)
  then show ?thesis unfolding drm_pick_crtcs_def by blast
qed

lemma drm_pick_crtcs_counter [simp]: "hotplug_counter (drm_pick_crtcs s) = hotplug_counter s"
proof -
  have "hotplug_counter (fold (\<lambda>i s. pick_crtc_for s i) is t) = hotplug_counter t" for "is" t
    by (induction "is" arbitrary: t) (simp_all add: pick_crtc_for_def Let_def split: option.splits)
  then show ?thesis unfolding drm_pick_crtcs_def by blast
qed

text \<open>
  C9: the clone scan is dead code. Whenever the CRTC loop reaches the clone scan, no other
  output holds the CRTC, so no clone matches, and \<^verbatim>\<open>drm_pick_crtcs\<close> is exactly the
  first-fit engine in which no two outputs ever share a CRTC.
\<close>

theorem drm_pick_crtcs_clone_free: "drm_pick_crtcs s = pick_crtcs_first_fit s"
proof -
  have "pick_crtc_for t i = pick_first_fit_for t i" for t i
    by (auto simp: pick_crtc_for_def pick_first_fit_for_def Let_def crtc_scan_first_fit
        split: option.splits)
  then show ?thesis unfolding drm_pick_crtcs_def pick_crtcs_first_fit_def by simp
qed

text \<open>
  C7: after \<^verbatim>\<open>drm_pick_crtcs\<close>, on a device whose outputs have distinct identifiers, no
  CRTC is bound to two outputs.
\<close>

theorem drm_pick_crtcs_exclusive:
  assumes "distinct (map output_id (output_list s))"
    and "i < length (output_list (drm_pick_crtcs s))" "j < length (output_list (drm_pick_crtcs s))" "i \<noteq> j"
    and "output_crtc (output_list (drm_pick_crtcs s) ! i) = Some c"
  shows "output_crtc (output_list (drm_pick_crtcs s) ! j) \<noteq> Some c"
proof -
  have "bindings_exclusive_upto (length (output_list s)) (output_list (drm_pick_crtcs s))"
    using fold_pick_crtcs_inv [OF order_refl assms(1)] unfolding drm_pick_crtcs_def by blast
  moreover have "length (output_list (drm_pick_crtcs s)) = length (output_list s)"
    using fold_pick_crtcs_inv [OF order_refl assms(1)] map_eq_imp_length_eq
    unfolding drm_pick_crtcs_def by metis
  ultimately show ?thesis using assms(2-5) unfolding bindings_exclusive_upto_def by force
qed

text \<open>
  C8: after \<^verbatim>\<open>drm_pick_crtcs\<close>, every bound output is connected and has modes, its CRTC
  is at a position its \<^verbatim>\<open>possible_crtcs\<close> mask allows, and that CRTC's desired mode is the
  output's first preferred mode (else its first mode).
\<close>

theorem drm_pick_crtcs_valid:
  assumes "distinct (map output_id (output_list s))"
    and "i < length (output_list (drm_pick_crtcs s))"
    and "output_crtc (output_list (drm_pick_crtcs s) ! i) = Some c"
  shows "output_status (output_list (drm_pick_crtcs s) ! i) = output_status_connected \<and>
         modes (output_list (drm_pick_crtcs s) ! i) \<noteq> [] \<and>
         (\<exists>n < length (crtc_list (drm_pick_crtcs s)). crtc_id (crtc_list (drm_pick_crtcs s) ! n) = c \<and>
            crtc_eligible (possible_crtcs (output_list (drm_pick_crtcs s) ! i)) n \<and>
            crtc_desired_mode (crtc_list (drm_pick_crtcs s) ! n) =
              Some (pick_desired_mode (modes (output_list (drm_pick_crtcs s) ! i))))"
proof -
  have "bindings_valid_upto (length (output_list s)) (output_list (drm_pick_crtcs s)) (crtc_list (drm_pick_crtcs s))"
    using fold_pick_crtcs_inv [OF order_refl assms(1)] unfolding drm_pick_crtcs_def by blast
  moreover have "length (output_list (drm_pick_crtcs s)) = length (output_list s)"
    using fold_pick_crtcs_inv [OF order_refl assms(1)] map_eq_imp_length_eq
    unfolding drm_pick_crtcs_def by metis
  ultimately show ?thesis using assms(2,3) unfolding bindings_valid_upto_def by simp
qed

text \<open>
  C10: a binding left over from before the call blocks earlier outputs. If output \<open>j\<close> is
  bound to CRTC \<open>c\<close> when \<^verbatim>\<open>drm_pick_crtcs\<close> starts, no output before \<open>j\<close> in the list gets
  \<open>c\<close>, even when output \<open>j\<close> is disconnected and loses the binding when its turn comes.
\<close>

theorem drm_pick_crtcs_stale_binding:
  assumes "distinct (map output_id (output_list s))" "i < j" "j < length (output_list s)"
    and "output_crtc (output_list s ! j) = Some c"
  shows "output_crtc (output_list (drm_pick_crtcs s) ! i) \<noteq> Some c"
proof -
  let ?t = "fold (\<lambda>i s. pick_crtc_for s i) [0..<i] s"
  have inv: "map output_id (output_list ?t) = map output_id (output_list s)"
    using fold_pick_crtcs_inv [of i s] assms(1-3) by simp
  then have len: "length (output_list ?t) = length (output_list s)" by (rule map_eq_imp_length_eq)
  have dist: "distinct (map output_id (output_list ?t))" using inv assms(1) by simp
  have tj: "output_crtc (output_list ?t ! j) = Some c"
    using fold_pick_untouched [of i j s] assms(2,4) by simp
  have ti: "i < length (output_list ?t)" using len assms(2,3) by simp
  have "output_crtc (output_list (pick_crtc_for ?t i) ! i) \<noteq> Some c"
    using pick_crtc_for_cases [OF ti]
  proof
    assume "output_list (pick_crtc_for ?t i) = (output_list ?t)[i := (output_list ?t ! i)\<lparr>output_crtc := None\<rparr>] \<and>
          crtc_list (pick_crtc_for ?t i) = crtc_list ?t"
    then show ?thesis using ti by simp
  next
    assume "\<exists>c'. first_fit ((output_list ?t)[i := (output_list ?t ! i)\<lparr>output_crtc := None\<rparr>])
                 ((output_list ?t ! i)\<lparr>output_crtc := None\<rparr>) 0 (crtc_list ?t) = Some c' \<and>
            output_status (output_list ?t ! i) = output_status_connected \<and> modes (output_list ?t ! i) \<noteq> [] \<and>
            output_list (pick_crtc_for ?t i) = (output_list ?t)[i := (output_list ?t ! i)\<lparr>output_crtc := Some c',
                 initial_x := 0, initial_y := 0\<rparr>] \<and>
            crtc_list (pick_crtc_for ?t i) = map_at (\<lambda>r. crtc_id r = c')
              (\<lambda>r. r\<lparr>crtc_desired_mode := Some (pick_desired_mode (modes (output_list ?t ! i)))\<rparr>) (crtc_list ?t)"
    then obtain c' where ff: "first_fit ((output_list ?t)[i := (output_list ?t ! i)\<lparr>output_crtc := None\<rparr>])
                 ((output_list ?t ! i)\<lparr>output_crtc := None\<rparr>) 0 (crtc_list ?t) = Some c'"
      and outs: "output_list (pick_crtc_for ?t i) = (output_list ?t)[i := (output_list ?t ! i)\<lparr>output_crtc := Some c',
                 initial_x := 0, initial_y := 0\<rparr>]" by blast
    have "c' \<noteq> c" using first_fit_free [OF ff dist ti, of j] tj len assms(2,3) by auto
    then show ?thesis using ti unfolding outs by simp
  qed
  then show ?thesis
    using fold_pick_done [of i "length (output_list s)" s] assms(2,3) unfolding drm_pick_crtcs_def by simp
qed


end
