(* ===== verification/DRM_Property.thy ===== *)
theory DRM_Property
  imports DRM_Store
begin

text \<open>
  The property system of \<^verbatim>\<open>drm_crtc.c\<close>: property creation and destruction, enum
  entries, the per-output value slots, property blobs and the EDID blob of an output,
  the standard output properties created at \<^verbatim>\<open>drm_mode_config_init\<close>, and the two
  ioctls that read a property and set an output's property. The kernel registry
  stores object pointers and \<^verbatim>\<open>idr_find\<close> returns whatever object holds the
  identifier; the ioctls cast it to the type they expect. Here the registry records the
  kind of each object, and an identifier of another kind is undefined behaviour: a
  fault, \<open>None\<close>.
\<close>

section \<open>Definitions\<close>

text \<open>The property flags of \<^verbatim>\<open>drm_mode.h\<close> and the name length \<^verbatim>\<open>DRM_PROP_NAME_LEN\<close>.\<close>

definition DRM_MODE_PROP_PENDING :: "32 word" where "DRM_MODE_PROP_PENDING = 1"
definition DRM_MODE_PROP_RANGE :: "32 word" where "DRM_MODE_PROP_RANGE = 2"
definition DRM_MODE_PROP_IMMUTABLE :: "32 word" where "DRM_MODE_PROP_IMMUTABLE = 4"
definition DRM_MODE_PROP_ENUM :: "32 word" where "DRM_MODE_PROP_ENUM = 8"
definition DRM_MODE_PROP_BLOB :: "32 word" where "DRM_MODE_PROP_BLOB = 16"
definition DRM_PROP_NAME_LEN :: nat where "DRM_PROP_NAME_LEN = 32"

lemmas drm_prop_bits = DRM_MODE_PROP_PENDING_def DRM_MODE_PROP_RANGE_def DRM_MODE_PROP_IMMUTABLE_def
  DRM_MODE_PROP_ENUM_def DRM_MODE_PROP_BLOB_def DRM_PROP_NAME_LEN_def

definition prop_has :: "32 word \<Rightarrow> drm_property \<Rightarrow> bool" where
  "prop_has flag p \<longleftrightarrow> prop_flags p AND flag \<noteq> 0"

text \<open>
  \<^verbatim>\<open>idr_find\<close> followed by the cast: no object (\<open>Some None\<close>), the object when it has the
  expected kind, undefined (\<open>None\<close>) when the identifier names an object of another kind.
\<close>

definition idr_find_output :: "drm_mode_config \<Rightarrow> nat \<Rightarrow> drm_output option faulting" where
  "idr_find_output s oid =
     (case crtc_idr s oid of
        None \<Rightarrow> Some None
      | Some k \<Rightarrow> if k = DRM_OBJ_OUTPUT then Some (lookup_output s oid) else None)"

definition idr_find_property :: "drm_mode_config \<Rightarrow> nat \<Rightarrow> drm_property option faulting" where
  "idr_find_property s p =
     (case crtc_idr s p of
        None \<Rightarrow> Some None
      | Some k \<Rightarrow> if k = DRM_OBJ_PROPERTY then Some (lookup_property s p) else None)"

text \<open>\<^verbatim>\<open>drm_property_create\<close>: zeroed values, a fresh identifier, appended to the list.\<close>

definition drm_property_create :: "32 word \<Rightarrow> string \<Rightarrow> nat \<Rightarrow> drm_mode_config \<Rightarrow> nat \<times> drm_mode_config" where
  "drm_property_create flags name n s =
     (let (i, s1) = mc_idr_get DRM_OBJ_PROPERTY s;
          p = \<lparr>prop_id = i, prop_flags = flags, prop_name = take DRM_PROP_NAME_LEN name,
               prop_values = replicate n 0, prop_enum_list = []\<rparr>
      in (i, s1\<lparr>property_list := property_list s1 @ [p]\<rparr>))"

text \<open>
  \<^verbatim>\<open>drm_property_add_enum\<close>: only for enum properties; an entry with the value gets the
  new name; otherwise a new entry is appended and the value stored at \<open>values[index]\<close>,
  which the source does not bound-check: an index past the array is a fault.
\<close>

definition drm_property_add_enum :: "nat \<Rightarrow> 64 word \<Rightarrow> string \<Rightarrow> drm_property \<Rightarrow>
    drm_property drm_result faulting" where
  "drm_property_add_enum idx v name p =
     (if \<not> prop_has DRM_MODE_PROP_ENUM p then Some (Inl EINVAL)
      else if list_ex (\<lambda>e. penum_value e = v) (prop_enum_list p)
      then Some (Inr (p\<lparr>prop_enum_list := map_at (\<lambda>e. penum_value e = v)
                 (\<lambda>e. e\<lparr>penum_name := take (DRM_PROP_NAME_LEN - 1) name\<rparr>) (prop_enum_list p)\<rparr>))
      else if idx < length (prop_values p)
      then Some (Inr (p\<lparr>prop_values := (prop_values p)[idx := v],
                        prop_enum_list := prop_enum_list p @
                          [\<lparr>penum_value = v, penum_name = take (DRM_PROP_NAME_LEN - 1) name\<rparr>]\<rparr>))
      else None)"

text \<open>The same on the device's copy of the property.\<close>

definition mc_property_add_enum :: "nat \<Rightarrow> nat \<Rightarrow> 64 word \<Rightarrow> string \<Rightarrow> drm_mode_config \<Rightarrow>
    (unit drm_result \<times> drm_mode_config) faulting" where
  "mc_property_add_enum pid idx v name s =
     (case lookup_property s pid of
        None \<Rightarrow> None
      | Some p \<Rightarrow> (case drm_property_add_enum idx v name p of
                    None \<Rightarrow> None
                  | Some (Inl e) \<Rightarrow> Some (Inl e, s)
                  | Some (Inr p') \<Rightarrow> Some (Inr (), s\<lparr>property_list :=
                        map_at (\<lambda>q. prop_id q = pid) (\<lambda>_. p') (property_list s)\<rparr>)))"

definition drm_property_destroy :: "nat \<Rightarrow> drm_mode_config \<Rightarrow> drm_mode_config" where
  "drm_property_destroy pid s =
     (let s1 = mc_idr_put pid s in s1\<lparr>property_list := del_key prop_id pid (property_list s1)\<rparr>)"

text \<open>\<^verbatim>\<open>drm_output_property_set_value\<close> and \<^verbatim>\<open>drm_output_property_get_value\<close>: the first slot holding the property.\<close>

definition drm_output_property_set_value :: "nat \<Rightarrow> 64 word \<Rightarrow> drm_output \<Rightarrow> drm_output drm_result" where
  "drm_output_property_set_value pid v out =
     (case find_idx (\<lambda>x. x = pid) (property_ids out) of
        None \<Rightarrow> Inl EINVAL
      | Some i \<Rightarrow> Inr (out\<lparr>property_values := (property_values out)[i := v]\<rparr>))"

definition drm_output_property_get_value :: "nat \<Rightarrow> drm_output \<Rightarrow> 64 word drm_result" where
  "drm_output_property_get_value pid out =
     (case find_idx (\<lambda>x. x = pid) (property_ids out) of
        None \<Rightarrow> Inl EINVAL
      | Some i \<Rightarrow> Inr (property_values out ! i))"

text \<open>
  \<^verbatim>\<open>drm_property_create_blob\<close>: no blob for a zero length or a NULL payload; otherwise
  \<open>length\<close> bytes of the payload under a fresh identifier.
\<close>

definition drm_property_create_blob :: "nat \<Rightarrow> 8 word list option \<Rightarrow> drm_mode_config \<Rightarrow>
    nat option \<times> drm_mode_config" where
  "drm_property_create_blob len data s =
     (case data of
        None \<Rightarrow> (None, s)
      | Some d \<Rightarrow> if len = 0 then (None, s)
                  else (let (i, s1) = mc_idr_get DRM_OBJ_BLOB s
                        in (Some i, s1\<lparr>property_blob_list := property_blob_list s1 @
                              [\<lparr>blob_id = i, blob_length = len, blob_data = take len d\<rparr>]\<rparr>)))"

definition drm_property_destroy_blob :: "nat \<Rightarrow> drm_mode_config \<Rightarrow> drm_mode_config" where
  "drm_property_destroy_blob b s =
     (let s1 = mc_idr_put b s in s1\<lparr>property_blob_list := del_key blob_id b (property_blob_list s1)\<rparr>)"

text \<open>
  \<^verbatim>\<open>drm_mode_output_update_edid_property\<close>: drop the old blob, make a 128-byte blob of
  the EDID and store its identifier in the output's EDID slot. A NULL EDID gives no
  blob, and the source then reads \<^verbatim>\<open>output->edid_blob_ptr->id\<close>: a fault.
\<close>

definition drm_mode_output_update_edid_property :: "nat \<Rightarrow> 8 word list option \<Rightarrow> drm_mode_config \<Rightarrow>
    (unit drm_result \<times> drm_mode_config) faulting" where
  "drm_mode_output_update_edid_property oid edid s =
     (case lookup_output s oid of
        None \<Rightarrow> None
      | Some out \<Rightarrow>
          (let s1 = (case edid_blob out of None \<Rightarrow> s | Some b \<Rightarrow> drm_property_destroy_blob b s);
               (bo, s2) = drm_property_create_blob 128 edid s1
           in case bo of
                None \<Rightarrow> None
              | Some b \<Rightarrow>
                  (let out2 = out\<lparr>edid_blob := Some b\<rparr>
                   in case drm_output_property_set_value (edid_property s2) (word_of_nat b) out2 of
                        Inl e \<Rightarrow> Some (Inl e, update_output oid (\<lambda>_. out2) s2)
                      | Inr out3 \<Rightarrow> Some (Inr (), update_output oid (\<lambda>_. out3) s2))))"

text \<open>
  \<^verbatim>\<open>drm_mode_output_property_set_ioctl\<close>, under the lock: the output must exist and
  carry the property in one of its slots, the property must exist and not be immutable,
  the value must lie in \<open>[values[0], values[1]]\<close> (unsigned) for a range property and be
  one of the values otherwise; then the driver's \<^verbatim>\<open>set_property\<close> decides, and without
  one the result stays \<^verbatim>\<open>-EINVAL\<close>. A range property with fewer than two values is
  read out of bounds: a fault.
\<close>

definition set_property_checked :: "drm_driver \<Rightarrow> nat \<Rightarrow> nat \<Rightarrow> 64 word \<Rightarrow> drm_mode_config \<Rightarrow>
    (unit drm_result \<times> drm_mode_config) faulting" where
  "set_property_checked drv oid pid v s =
     (if drv_has_set_property drv oid
      then Some (drv_set_property drv oid pid v, log_hw [OutputSetProperty oid pid v] s)
      else Some (Inl EINVAL, s))"

definition property_value_ok :: "drm_property \<Rightarrow> 64 word \<Rightarrow> bool faulting" where
  "property_value_ok p v =
     (if prop_has DRM_MODE_PROP_RANGE p
      then (if length (prop_values p) < 2 then None
            else Some (\<not> (v < prop_values p ! 0) \<and> \<not> (prop_values p ! 1 < v)))
      else Some (v \<in> set (prop_values p)))"

definition output_property_set_locked :: "drm_driver \<Rightarrow> nat \<Rightarrow> nat \<Rightarrow> 64 word \<Rightarrow> drm_mode_config \<Rightarrow>
    (unit drm_result \<times> drm_mode_config) faulting" where
  "output_property_set_locked drv oid pid v s =
     (case idr_find_output s oid of
        None \<Rightarrow> None
      | Some None \<Rightarrow> Some (Inl EINVAL, s)
      | Some (Some out) \<Rightarrow>
          (if pid \<notin> set (take DRM_OUTPUT_MAX_PROPERTY (property_ids out)) then Some (Inl EINVAL, s)
           else (case idr_find_property s pid of
                   None \<Rightarrow> None
                 | Some None \<Rightarrow> Some (Inl EINVAL, s)
                 | Some (Some p) \<Rightarrow>
                     (if prop_has DRM_MODE_PROP_IMMUTABLE p then Some (Inl EINVAL, s)
                      else (case property_value_ok p v of
                              None \<Rightarrow> None
                            | Some False \<Rightarrow> Some (Inl EINVAL, s)
                            | Some True \<Rightarrow> set_property_checked drv oid pid v s)))))"

definition drm_mode_output_property_set_ioctl :: "drm_driver \<Rightarrow> nat \<Rightarrow> nat \<Rightarrow> 64 word \<Rightarrow>
    drm_mode_config \<Rightarrow> (unit drm_result \<times> drm_mode_config) faulting" where
  "drm_mode_output_property_set_ioctl drv oid pid v s =
     (case mutex_lock s of
        None \<Rightarrow> None
      | Some s1 \<Rightarrow> map_option (\<lambda>(r, s2). (r, mutex_unlock s2)) (output_property_set_locked drv oid pid v s1))"

text \<open>
  \<^verbatim>\<open>drm_mode_getproperty_ioctl\<close>. The request gives the property and the capacities of
  the caller's arrays; \<open>uok\<close> says whether the caller's pointers can be written
  (\<^verbatim>\<open>copy_to_user\<close> and \<^verbatim>\<open>put_user\<close> fail otherwise, giving \<^verbatim>\<open>-EFAULT\<close>). The reply
  holds the name, the flags, the counts written back, and what was copied out.
\<close>

record prop_reply =
  reply_name :: string
  reply_flags :: "32 word"
  reply_count_values :: nat
  reply_values :: "64 word list"
  reply_count_enum_blobs :: nat
  reply_enums :: "(64 word \<times> string) list"

definition getproperty_reply :: "nat \<Rightarrow> nat \<Rightarrow> bool \<Rightarrow> drm_property \<Rightarrow> prop_reply drm_result" where
  "getproperty_reply count_values count_enum_blobs uok p =
     (let enum_count = (if prop_has DRM_MODE_PROP_ENUM p then length (prop_enum_list p) else 0);
          blob_count = (if \<not> prop_has DRM_MODE_PROP_ENUM p \<and> prop_has DRM_MODE_PROP_BLOB p
                        then length (prop_enum_list p) else 0);
          value_count = length (prop_values p);
          copy_values = (value_count \<le> count_values \<and> value_count \<noteq> 0);
          copy_enums = (prop_has DRM_MODE_PROP_ENUM p \<and> enum_count \<le> count_enum_blobs \<and> enum_count \<noteq> 0);
          copy_blobs = (prop_has DRM_MODE_PROP_BLOB p \<and> blob_count \<le> count_enum_blobs \<and> blob_count \<noteq> 0)
      in if (copy_values \<or> copy_enums \<or> copy_blobs) \<and> \<not> uok then Inl EFAULT
         else Inr \<lparr>reply_name = take (DRM_PROP_NAME_LEN - 1) (prop_name p), reply_flags = prop_flags p,
                   reply_count_values = value_count,
                   reply_values = (if copy_values then prop_values p else []),
                   reply_count_enum_blobs =
                     (if prop_has DRM_MODE_PROP_ENUM p \<or> prop_has DRM_MODE_PROP_BLOB p
                      then enum_count else count_enum_blobs),
                   reply_enums = (if copy_enums
                                  then map (\<lambda>e. (penum_value e, penum_name e)) (prop_enum_list p) else [])\<rparr>)"

definition drm_mode_getproperty_ioctl :: "nat \<Rightarrow> nat \<Rightarrow> nat \<Rightarrow> bool \<Rightarrow> drm_mode_config \<Rightarrow>
    (prop_reply drm_result \<times> drm_mode_config) faulting" where
  "drm_mode_getproperty_ioctl pid count_values count_enum_blobs uok s =
     (case mutex_lock s of
        None \<Rightarrow> None
      | Some s1 \<Rightarrow>
          (case idr_find_property s1 pid of
             None \<Rightarrow> None
           | Some None \<Rightarrow> Some (Inl EINVAL, mutex_unlock s1)
           | Some (Some p) \<Rightarrow> Some (getproperty_reply count_values count_enum_blobs uok p, mutex_unlock s1)))"

text \<open>The enum tables \<^verbatim>\<open>drm_dpms_enum_list\<close> and \<^verbatim>\<open>drm_conn_enum_list\<close>, with the values of \<^verbatim>\<open>drm_crtc.h\<close>.\<close>

definition drm_dpms_enum_list :: "(64 word \<times> string) list" where
  "drm_dpms_enum_list = [(0, ''On''), (1, ''Standby''), (2, ''Suspend''), (3, ''Off'')]"

definition drm_conn_enum_list :: "(64 word \<times> string) list" where
  "drm_conn_enum_list = [(0, ''Unknown''), (1, ''VGA''), (2, ''DVI-I''), (3, ''DVI-D''), (4, ''DVI-A''),
     (5, ''Composite''), (6, ''SVIDEO''), (7, ''LVDS''), (8, ''Component''), (9, ''9-pin DIN''),
     (10, ''DisplayPort''), (11, ''HDMI Type A''), (12, ''HDMI Type B'')]"

text \<open>
  The name lookups of the debug output. \<^verbatim>\<open>drm_get_dpms_name\<close> scans the DPMS table
  for the value; \<^verbatim>\<open>drm_get_output_name\<close> prints the name of the output's type,
  indexed in \<^verbatim>\<open>drm_output_enum_list\<close> without a bound check (an index past the table is
  a fault), a dash and the type identifier into a static 32-byte buffer;
  \<^verbatim>\<open>drm_get_output_status_name\<close> names a status; the unknown status and the 0 of a
  never-probed output both get "unknown".
\<close>

definition drm_get_dpms_name :: "int \<Rightarrow> string" where
  "drm_get_dpms_name val =
     (case find (\<lambda>e. uint (fst e) = val) drm_dpms_enum_list of
        Some e \<Rightarrow> snd e
      | None \<Rightarrow> ''unknown'')"

definition drm_output_enum_list :: "(nat \<times> string) list" where
  "drm_output_enum_list = [(0, ''None''), (1, ''DAC''), (2, ''TMDS''), (3, ''LVDS''), (4, ''TV'')]"

definition drm_get_output_name :: "drm_output \<Rightarrow> string faulting" where
  "drm_get_output_name out =
     (if output_type out < length drm_output_enum_list
      then Some (take 31 (snd (drm_output_enum_list ! output_type out) @ ''-'' @ nat_to_dec (output_type_id out)))
      else None)"

definition drm_get_output_status_name :: "drm_output_status \<Rightarrow> string" where
  "drm_get_output_status_name st =
     (if st = output_status_connected then ''connected''
      else if st = output_status_disconnected then ''disconnected''
      else ''unknown'')"

text \<open>The loop \<^verbatim>\<open>for (i = 0; ...) drm_property_add_enum(prop, i, list[i].type, list[i].name)\<close>, results ignored.\<close>

fun add_enum_list :: "nat \<Rightarrow> nat \<Rightarrow> (64 word \<times> string) list \<Rightarrow> drm_mode_config \<Rightarrow> drm_mode_config faulting" where
  "add_enum_list pid i [] s = Some s"
| "add_enum_list pid i ((v, n) # es) s =
     (case mc_property_add_enum pid i v n s of
        None \<Rightarrow> None
      | Some (_, s') \<Rightarrow> add_enum_list pid (Suc i) es s')"

definition drm_mode_create_standard_output_properties :: "drm_mode_config \<Rightarrow> drm_mode_config faulting" where
  "drm_mode_create_standard_output_properties s =
     (let (e, s1) = drm_property_create (DRM_MODE_PROP_BLOB OR DRM_MODE_PROP_IMMUTABLE) ''EDID'' 0 s;
          (d, s2) = drm_property_create DRM_MODE_PROP_ENUM ''DPMS'' (length drm_dpms_enum_list)
                      (s1\<lparr>edid_property := e\<rparr>)
      in case add_enum_list d 0 drm_dpms_enum_list (s2\<lparr>dpms_property := d\<rparr>) of
           None \<Rightarrow> None
         | Some s3 \<Rightarrow>
             (let (c, s4) = drm_property_create (DRM_MODE_PROP_ENUM OR DRM_MODE_PROP_IMMUTABLE)
                              ''Connector Type'' (length drm_conn_enum_list) s3
              in case add_enum_list c 0 drm_conn_enum_list (s4\<lparr>connector_type_property := c\<rparr>) of
                   None \<Rightarrow> None
                 | Some s5 \<Rightarrow>
                     (let (n, s6) = drm_property_create (DRM_MODE_PROP_RANGE OR DRM_MODE_PROP_IMMUTABLE)
                                      ''Connector ID'' 2 s5
                      in Some (s6\<lparr>connector_num_property := n,
                                  property_list := map_at (\<lambda>p. prop_id p = n)
                                    (\<lambda>p. p\<lparr>prop_values := (prop_values p)[0 := 0, 1 := 20]\<rparr>)
                                    (property_list s6)\<rparr>))))"

text \<open>
  \<^verbatim>\<open>drm_create_tv_properties\<close>, called by a TV driver: four margin ranges [0, 100]
  (the left one immutable) and an enum \<^verbatim>\<open>mode\<close> with one entry per format name, of
  value and index \<open>i\<close>. The five property pointers the source stores in
  \<^verbatim>\<open>struct drm_mode_config\<close> are returned as \<open>tv_props\<close>. Reading a name past the
  caller's array is a fault. The function is declared \<open>bool\<close> and returns 0, false, on
  every path.
\<close>

record tv_props =
  tv_left_margin_property :: nat
  tv_right_margin_property :: nat
  tv_top_margin_property :: nat
  tv_bottom_margin_property :: nat
  tv_mode_property :: nat

definition drm_property_set_range :: "nat \<Rightarrow> 64 word \<Rightarrow> 64 word \<Rightarrow> drm_mode_config \<Rightarrow> drm_mode_config" where
  "drm_property_set_range pid lo hi s =
     s\<lparr>property_list := map_at (\<lambda>p. prop_id p = pid)
        (\<lambda>p. p\<lparr>prop_values := (prop_values p)[0 := lo, 1 := hi]\<rparr>) (property_list s)\<rparr>"

definition tv_mode_enums :: "nat \<Rightarrow> nat \<Rightarrow> string list \<Rightarrow> drm_mode_config \<Rightarrow> drm_mode_config faulting" where
  "tv_mode_enums m num_modes names s =
     (if num_modes \<le> length names
      then add_enum_list m 0 (map (\<lambda>i. (of_nat i, names ! i)) [0..<num_modes]) s
      else None)"

definition drm_create_tv_properties :: "nat \<Rightarrow> string list \<Rightarrow> drm_mode_config \<Rightarrow>
    (bool \<times> tv_props \<times> drm_mode_config) faulting" where
  "drm_create_tv_properties num_modes names s =
     (let (l, s1) = drm_property_create (DRM_MODE_PROP_RANGE OR DRM_MODE_PROP_IMMUTABLE) ''left margin'' 2 s;
          (r, s2) = drm_property_create DRM_MODE_PROP_RANGE ''right margin'' 2 (drm_property_set_range l 0 100 s1);
          (t, s3) = drm_property_create DRM_MODE_PROP_RANGE ''top margin'' 2 (drm_property_set_range r 0 100 s2);
          (b, s4) = drm_property_create DRM_MODE_PROP_RANGE ''bottom margin'' 2 (drm_property_set_range t 0 100 s3);
          (m, s5) = drm_property_create DRM_MODE_PROP_ENUM ''mode'' num_modes (drm_property_set_range b 0 100 s4)
      in map_option (\<lambda>s6. (False, \<lparr>tv_left_margin_property = l, tv_right_margin_property = r,
                                   tv_top_margin_property = t, tv_bottom_margin_property = b,
                                   tv_mode_property = m\<rparr>, s6))
           (tv_mode_enums m num_modes names s5))"

text \<open>
  \<^verbatim>\<open>drm_mode_config_init\<close>: empty lists, an empty registry, an unlocked mutex, the
  standard properties, and zero counters. The limits and the log keep the values the
  device structure had.
\<close>

definition drm_mode_config_init :: "drm_mode_config \<Rightarrow> drm_mode_config faulting" where
  "drm_mode_config_init s =
     map_option (\<lambda>s1. s1\<lparr>num_fb := 0, num_output := 0, num_crtc := 0, hotplug_counter := 0\<rparr>)
       (drm_mode_create_standard_output_properties
          (s\<lparr>mutex_held := False, fb_list := [], crtc_list := [], output_list := [],
             property_list := [], property_blob_list := [], crtc_idr := idr_empty\<rparr>))"

section \<open>Lemmas\<close>

lemma set_value_attached:
  assumes "pid \<in> set (property_ids out)"
  shows "\<exists>out'. drm_output_property_set_value pid v out = Inr out' \<and> output_id out' = output_id out \<and>
     edid_blob out' = edid_blob out \<and> property_ids out' = property_ids out"
proof -
  obtain i where "find_idx (\<lambda>x. x = pid) (property_ids out) = Some i"
    using assms find_idx_None_iff [of "\<lambda>x. x = pid" "property_ids out"] by (cases "find_idx (\<lambda>x. x = pid) (property_ids out)") auto
  then show ?thesis by (simp add: drm_output_property_set_value_def)
qed

lemma drm_output_property_set_get:
  assumes "drm_output_property_set_value pid v out = Inr out'"
    and "length (property_ids out) \<le> length (property_values out)"
  shows "drm_output_property_get_value pid out' = Inr v"
proof -
  obtain i where i: "find_idx (\<lambda>x. x = pid) (property_ids out) = Some i"
    and out': "out' = out\<lparr>property_values := (property_values out)[i := v]\<rparr>"
    using assms(1) by (auto simp: drm_output_property_set_value_def split: option.splits)
  have "i < length (property_ids out)" using find_idx_SomeD [OF i] by simp
  then show ?thesis using i out' assms(2) by (simp add: drm_output_property_get_value_def)
qed

lemma set_locked_cases:
  assumes "output_property_set_locked drv oid pid v s = Some (r, s')"
  shows "(r = Inl EINVAL \<and> s' = s) \<or>
    (\<exists>out p. crtc_idr s oid = Some DRM_OBJ_OUTPUT \<and> lookup_output s oid = Some out \<and>
       pid \<in> set (take DRM_OUTPUT_MAX_PROPERTY (property_ids out)) \<and>
       crtc_idr s pid = Some DRM_OBJ_PROPERTY \<and> lookup_property s pid = Some p \<and>
       \<not> prop_has DRM_MODE_PROP_IMMUTABLE p \<and> property_value_ok p v = Some True \<and>
       drv_has_set_property drv oid \<and>
       r = drv_set_property drv oid pid v \<and> s' = log_hw [OutputSetProperty oid pid v] s)"
  using assms
  by (auto simp: output_property_set_locked_def idr_find_output_def idr_find_property_def
      set_property_checked_def split: option.splits if_splits bool.splits)

text \<open>
  C11: a call of \<^verbatim>\<open>drm_mode_output_property_set_ioctl\<close> (on an unlocked device) either leaves the device as it was and returns \<^verbatim>\<open>-EINVAL\<close>, or it found the output and the property in the registry, the property in one of the output's slots, not immutable, with the value in its range or among its values, and a driver \<^verbatim>\<open>set_property\<close>: then exactly that one driver call was made and its answer is returned.
\<close>

theorem drm_mode_output_property_set_ioctl_spec:
  assumes "\<not> mutex_held s"
    and "drm_mode_output_property_set_ioctl drv oid pid v s = Some (r, s')"
  shows "(r = Inl EINVAL \<and> s' = s) \<or>
    (\<exists>out p. crtc_idr s oid = Some DRM_OBJ_OUTPUT \<and> lookup_output s oid = Some out \<and>
       pid \<in> set (take DRM_OUTPUT_MAX_PROPERTY (property_ids out)) \<and>
       crtc_idr s pid = Some DRM_OBJ_PROPERTY \<and> lookup_property s pid = Some p \<and>
       \<not> prop_has DRM_MODE_PROP_IMMUTABLE p \<and> property_value_ok p v = Some True \<and>
       drv_has_set_property drv oid \<and>
       r = drv_set_property drv oid pid v \<and> s' = log_hw [OutputSetProperty oid pid v] s)"
proof -
  let ?s1 = "s\<lparr>mutex_held := True\<rparr>"
  obtain r1 s1' where l: "output_property_set_locked drv oid pid v ?s1 = Some (r1, s1')"
    and r: "r = r1" and s': "s' = mutex_unlock s1'"
    using assms by (auto simp: drm_mode_output_property_set_ioctl_def)
  have lk: "lookup_output ?s1 = lookup_output s" "lookup_property ?s1 = lookup_property s"
    by (simp_all add: lookup_output_def lookup_property_def fun_eq_iff)
  have "mutex_unlock (log_hw es ?s1) = log_hw es s" for es
    using assms(1) by (simp add: log_hw_def mutex_unlock_def)
  with set_locked_cases [OF l] r s' assms(1) lk show ?thesis by auto
qed

text \<open>
  C12: an immutable property, or a value outside the range (or not among the enum values), is rejected with \<^verbatim>\<open>-EINVAL\<close> and no driver call.
\<close>

theorem drm_mode_output_property_set_ioctl_reject:
  assumes "\<not> mutex_held s" and "crtc_idr s oid = Some DRM_OBJ_OUTPUT" and "lookup_output s oid = Some out"
    and "pid \<in> set (take DRM_OUTPUT_MAX_PROPERTY (property_ids out))"
    and "crtc_idr s pid = Some DRM_OBJ_PROPERTY" and "lookup_property s pid = Some p"
    and "prop_has DRM_MODE_PROP_IMMUTABLE p \<or> property_value_ok p v = Some False"
  shows "drm_mode_output_property_set_ioctl drv oid pid v s = Some (Inl EINVAL, s)"
proof -
  have lk: "lookup_output (s\<lparr>mutex_held := True\<rparr>) = lookup_output s"
      "lookup_property (s\<lparr>mutex_held := True\<rparr>) = lookup_property s"
    by (simp_all add: lookup_output_def lookup_property_def fun_eq_iff)
  show ?thesis using assms lk
    by (auto simp: drm_mode_output_property_set_ioctl_def output_property_set_locked_def
        idr_find_output_def idr_find_property_def)
qed

text \<open>
  C13: the ioctl does not check the kind of the object \<^verbatim>\<open>idr_find\<close> returns: an output identifier that names another kind of object (a CRTC, a mode, a framebuffer) makes the ioctl read that object as an output, undefined behaviour.
\<close>

theorem drm_mode_output_property_set_ioctl_type_confusion:
  assumes "\<not> mutex_held s" and "crtc_idr s oid = Some k" and "k \<noteq> DRM_OBJ_OUTPUT"
  shows "drm_mode_output_property_set_ioctl drv oid pid v s = None"
  using assms by (simp add: drm_mode_output_property_set_ioctl_def output_property_set_locked_def
      idr_find_output_def)

text \<open>
  C14: \<^verbatim>\<open>drm_property_add_enum\<close> twice with the same value: the second call only renames the entry, and neither the entry list nor the value array grows.
\<close>

theorem drm_property_add_enum_idempotent:
  assumes "drm_property_add_enum i v n p = Some (Inr p1)"
    and "drm_property_add_enum j v n' p1 = Some (Inr p2)"
  shows "prop_enum_list p2 = map_at (\<lambda>e. penum_value e = v)
            (\<lambda>e. e\<lparr>penum_name := take (DRM_PROP_NAME_LEN - 1) n'\<rparr>) (prop_enum_list p1) \<and>
         prop_values p2 = prop_values p1 \<and> length (prop_enum_list p2) = length (prop_enum_list p1)"
proof -
  have "list_ex (\<lambda>e. penum_value e = v) (prop_enum_list p1)"
    using assms(1) by (auto simp: drm_property_add_enum_def list_ex_map_at_key split: if_splits)
  moreover have "prop_has DRM_MODE_PROP_ENUM p1"
    using assms(1) by (auto simp: drm_property_add_enum_def prop_has_def split: if_splits)
  ultimately show ?thesis using assms(2) by (auto simp: drm_property_add_enum_def)
qed

lemma drm_output_attach_property_full:
  "drm_output_attach_property pid v out = Inl e \<longleftrightarrow> e = EINVAL \<and> 0 \<notin> set (property_ids out)"
proof (cases "find_idx (\<lambda>x. x = 0) (property_ids out)")
  case None
  then have "0 \<notin> set (property_ids out)" by (simp only: find_idx_None_iff) blast
  with None show ?thesis by (auto simp: drm_output_attach_property_def)
next
  case (Some i)
  then have "0 \<in> set (property_ids out)" using find_idx_SomeD [OF Some] nth_mem by metis
  with Some show ?thesis by (simp add: drm_output_attach_property_def)
qed

text \<open>
  C15: after \<^verbatim>\<open>drm_output_attach_property\<close> succeeds for a property the output did not carry, \<^verbatim>\<open>drm_output_property_get_value\<close> reads back the initial value.
\<close>

theorem drm_output_attach_then_get:
  assumes "drm_output_attach_property pid v out = Inr out'"
    and "pid \<notin> set (property_ids out)"
    and "length (property_ids out) \<le> length (property_values out)"
  shows "drm_output_property_get_value pid out' = Inr v"
proof -
  obtain i where i: "find_idx (\<lambda>x. x = 0) (property_ids out) = Some i"
    and out': "out' = out\<lparr>property_ids := (property_ids out)[i := pid],
                          property_values := (property_values out)[i := v]\<rparr>"
    using assms(1) by (auto simp: drm_output_attach_property_def split: option.splits)
  have il: "i < length (property_ids out)" using find_idx_SomeD [OF i] by simp
  have "\<forall>j < i. (property_ids out)[i := pid] ! j \<noteq> pid"
    using assms(2) il by (auto simp: nth_list_update dest: nth_mem [of _ "property_ids out"])
  then have "find_idx (\<lambda>x. x = pid) ((property_ids out)[i := pid]) = Some i"
    using il by (intro find_idx_first) simp_all
  then show ?thesis using out' il assms(3) by (simp add: drm_output_property_get_value_def)
qed

text \<open>
  C16: \<^verbatim>\<open>drm_mode_getproperty_ioctl\<close> on a blob property that is not an enum writes \<open>count_enum_blobs = enum_count\<close>, which is 0, whatever the number of blobs it counted.
\<close>

theorem drm_mode_getproperty_blob_count:
  assumes "drm_mode_getproperty_ioctl pid cv ceb uok s = Some (Inr r, s')"
    and "lookup_property s pid = Some p"
    and "prop_has DRM_MODE_PROP_BLOB p" and "\<not> prop_has DRM_MODE_PROP_ENUM p"
  shows "reply_count_enum_blobs r = 0"
proof -
  have "lookup_property (s\<lparr>mutex_held := True\<rparr>) pid = Some p"
    using assms(2) by (simp add: lookup_property_def)
  then show ?thesis using assms
    by (auto simp: drm_mode_getproperty_ioctl_def mutex_lock_def idr_find_property_def
        getproperty_reply_def Let_def split: option.splits if_splits)
qed

text \<open>
  C17: \<^verbatim>\<open>drm_mode_output_update_edid_property\<close> with a NULL EDID faults: no blob is created and the source reads the identifier through the NULL blob pointer.
\<close>

theorem drm_mode_output_update_edid_null:
  assumes "lookup_output s oid \<noteq> None"
  shows "drm_mode_output_update_edid_property oid None s = None"
  using assms by (auto simp: drm_mode_output_update_edid_property_def drm_property_create_blob_def
      split: option.splits prod.splits)

text \<open>
  C18: \<^verbatim>\<open>drm_mode_output_update_edid_property\<close> with an EDID, on an output that carries the EDID property, succeeds: the old blob is gone, a 128-byte blob of the EDID is appended, the output points to it, and the output's EDID slot holds its identifier.
\<close>

theorem drm_mode_output_update_edid_property_ok:
  assumes out: "lookup_output s oid = Some out" and att: "edid_property s \<in> set (property_ids out)"
    and len: "length (property_ids out) \<le> length (property_values out)"
  shows "\<exists>b s' out'. drm_mode_output_update_edid_property oid (Some d) s = Some (Inr (), s') \<and>
     property_blob_list s' = (case edid_blob out of None \<Rightarrow> property_blob_list s
                              | Some b0 \<Rightarrow> del_key blob_id b0 (property_blob_list s)) @
                             [\<lparr>blob_id = b, blob_length = 128, blob_data = take 128 d\<rparr>] \<and>
     lookup_output s' oid = Some out' \<and> edid_blob out' = Some b \<and>
     drm_output_property_get_value (edid_property s) out' = Inr (word_of_nat b)"
proof -
  define s1 where "s1 = (case edid_blob out of None \<Rightarrow> s | Some b \<Rightarrow> drm_property_destroy_blob b s)"
  obtain b s2 where g: "mc_idr_get DRM_OBJ_BLOB s1 = (b, s2)" by fastforce
  have s1f: "output_list s1 = output_list s" "edid_property s1 = edid_property s"
    "property_blob_list s1 = (case edid_blob out of None \<Rightarrow> property_blob_list s
                              | Some b0 \<Rightarrow> del_key blob_id b0 (property_blob_list s))"
    by (auto simp: s1_def drm_property_destroy_blob_def mc_idr_put_def split: option.splits)
  have s2f: "output_list s2 = output_list s1" "edid_property s2 = edid_property s1"
      "property_blob_list s2 = property_blob_list s1"
    using g by (auto simp: mc_idr_get_def split: prod.splits)
  let ?s3 = "s2\<lparr>property_blob_list := property_blob_list s2 @ [\<lparr>blob_id = b, blob_length = 128, blob_data = take 128 d\<rparr>]\<rparr>"
  have cb: "drm_property_create_blob 128 (Some d) s1 = (Some b, ?s3)"
    using g by (simp add: drm_property_create_blob_def)
  have "out \<in> set (output_list s) \<and> output_id out = oid"
    using out unfolding lookup_output_def by (rule find_key_Some_in_set)
  then have oid: "output_id out = oid" ..
  have "edid_property s \<in> set (property_ids (out\<lparr>edid_blob := Some b\<rparr>))" using att by simp
  from set_value_attached [OF this, of "word_of_nat b"] obtain out3
    where sv: "drm_output_property_set_value (edid_property s) (word_of_nat b) (out\<lparr>edid_blob := Some b\<rparr>) = Inr out3"
    and f: "output_id out3 = output_id (out\<lparr>edid_blob := Some b\<rparr>)"
      "edid_blob out3 = edid_blob (out\<lparr>edid_blob := Some b\<rparr>)"
      "property_ids out3 = property_ids (out\<lparr>edid_blob := Some b\<rparr>)"
    by blast
  then have o3: "output_id out3 = oid" "edid_blob out3 = Some b" "property_ids out3 = property_ids out"
    using oid by simp_all
  let ?s4 = "update_output oid (\<lambda>_. out3) ?s3"
  have res: "drm_mode_output_update_edid_property oid (Some d) s = Some (Inr (), ?s4)"
    unfolding drm_mode_output_update_edid_property_def out option.case s1_def [symmetric] Let_def cb
    using sv s1f s2f by simp
  have "lookup_output ?s3 oid = Some out" using out s1f s2f by (simp add: lookup_output_def)
  then have lk: "lookup_output ?s4 oid = Some out3"
    using lookup_output_update_same [of ?s3 oid out "\<lambda>_. out3"] o3 by simp
  have "drm_output_property_get_value (edid_property s) out3 = Inr (word_of_nat b)"
    using drm_output_property_set_get [OF sv] len by simp
  then show ?thesis using res lk o3 s1f s2f by (auto simp: update_output_def)
qed

subsection \<open>Enum loops and the TV properties\<close>

lemma lookup_property_set_same:
  assumes "lookup_property s m = Some p" and "prop_id p' = m"
  shows "lookup_property (s\<lparr>property_list := map_at (\<lambda>q. prop_id q = m) (\<lambda>_. p') (property_list s)\<rparr>) m = Some p'"
  using assms find_map_at_const [of "\<lambda>q. prop_id q = m"] by (simp add: lookup_property_def)

text \<open>
  The loop of \<^verbatim>\<open>drm_property_add_enum\<close> calls on an enum property with room for the
  entries, whose values are new and distinct: every call appends its entry and stores
  its value at its index.
\<close>

lemma add_enum_list_fresh:
  assumes "lookup_property s m = Some p" and "prop_has DRM_MODE_PROP_ENUM p"
    and "i + length es \<le> length (prop_values p)" and "distinct (map fst es)"
    and "\<forall>e \<in> set (prop_enum_list p). penum_value e \<notin> fst ` set es"
  shows "\<exists>s'. add_enum_list m i es s = Some s' \<and>
    lookup_property s' m = Some (p\<lparr>prop_values := take i (prop_values p) @ map fst es @ drop (i + length es) (prop_values p),
      prop_enum_list := prop_enum_list p @
        map (\<lambda>(v, n). \<lparr>penum_value = v, penum_name = take (DRM_PROP_NAME_LEN - 1) n\<rparr>) es\<rparr>)"
  using assms
proof (induction es arbitrary: i p s)
  case Nil
  then show ?case by simp
next
  case (Cons e es)
  obtain v n where e: "e = (v, n)" by (cases e)
  let ?p1 = "p\<lparr>prop_values := (prop_values p)[i := v],
               prop_enum_list := prop_enum_list p @ [\<lparr>penum_value = v, penum_name = take (DRM_PROP_NAME_LEN - 1) n\<rparr>]\<rparr>"
  let ?s1 = "s\<lparr>property_list := map_at (\<lambda>q. prop_id q = m) (\<lambda>_. ?p1) (property_list s)\<rparr>"
  have id: "prop_id p = m"
    using Cons.prems(1) unfolding lookup_property_def by (auto dest: find_Some_iff [THEN iffD1])
  have nex: "\<not> list_ex (\<lambda>x. penum_value x = v) (prop_enum_list p)"
    using Cons.prems(5) e by (auto simp: list_ex_iff)
  have step: "mc_property_add_enum m i v n s = Some (Inr (), ?s1)"
    using Cons.prems(1,2,3) nex by (simp add: mc_property_add_enum_def drm_property_add_enum_def)
  have l1: "lookup_property ?s1 m = Some ?p1"
    using lookup_property_set_same [OF Cons.prems(1)] id by simp
  have "\<forall>x \<in> set (prop_enum_list ?p1). penum_value x \<notin> fst ` set es"
    using Cons.prems(4,5) e by auto
  then obtain s' where r: "add_enum_list m (Suc i) es ?s1 = Some s'" and
    l: "lookup_property s' m = Some (?p1\<lparr>prop_values := take (Suc i) (prop_values ?p1) @ map fst es @
          drop (Suc i + length es) (prop_values ?p1),
        prop_enum_list := prop_enum_list ?p1 @
          map (\<lambda>(v, n). \<lparr>penum_value = v, penum_name = take (DRM_PROP_NAME_LEN - 1) n\<rparr>) es\<rparr>)"
    using Cons.IH [where i = "Suc i" and p = ?p1 and s = ?s1] l1 Cons.prems(2,3,4) by (auto simp: prop_has_def)
  have i: "i < length (prop_values p)" using Cons.prems(3) by simp
  have "take (Suc i) ((prop_values p)[i := v]) = take i (prop_values p) @ [v]"
    using i by (simp add: take_Suc_conv_app_nth)
  moreover have "drop (Suc i + length es) ((prop_values p)[i := v]) = drop (Suc (i + length es)) (prop_values p)"
    by simp
  ultimately show ?case using step r l e by simp
qed

lemma distinct_word_of_nat_upt:
  "n \<le> 2 ^ LENGTH('a) \<Longrightarrow> distinct (map (word_of_nat :: nat \<Rightarrow> 'a::len word) [0..<n])"
  by (simp add: distinct_map inj_on_subset [OF inj_on_word_of_nat])

text \<open>
  C19: the TV-format loop of \<^verbatim>\<open>drm_create_tv_properties\<close>
  (\<^verbatim>\<open>drm_property_add_enum(prop, i, i, modes[i])\<close> for \<open>i < num_modes\<close>) on the
  enum property \<^verbatim>\<open>drm_property_create\<close> just made with \<open>num_modes\<close> zeroed values:
  it faults exactly when the caller's array has fewer than \<open>num_modes\<close> names, and
  otherwise every call succeeds, so that the property ends with the entries
  \<open>(i, modes[i])\<close> in order, names cut to 31 characters, and the values \<open>0, 1, ...\<close>.
\<close>

theorem tv_mode_enums_ok:
  assumes "lookup_property s m = Some p" and "prop_has DRM_MODE_PROP_ENUM p" and "prop_enum_list p = []"
    and "length (prop_values p) = n" and "n \<le> 2 ^ 64"
  shows "(tv_mode_enums m n names s = None \<longleftrightarrow> length names < n) \<and>
    (n \<le> length names \<longrightarrow>
      (\<exists>s'. tv_mode_enums m n names s = Some s' \<and>
        lookup_property s' m = Some (p\<lparr>prop_values := map of_nat [0..<n],
          prop_enum_list := map (\<lambda>i. \<lparr>penum_value = of_nat i,
            penum_name = take (DRM_PROP_NAME_LEN - 1) (names ! i)\<rparr>) [0..<n]\<rparr>)))"
proof -
  have d: "distinct (map fst (map (\<lambda>i. (of_nat i :: 64 word, names ! i)) [0..<n]))"
    using distinct_word_of_nat_upt [where 'a = 64] assms(5) by (simp add: comp_def)
  have ok: "n \<le> length names \<Longrightarrow> \<exists>s'. tv_mode_enums m n names s = Some s' \<and>
        lookup_property s' m = Some (p\<lparr>prop_values := map of_nat [0..<n],
          prop_enum_list := map (\<lambda>i. \<lparr>penum_value = of_nat i,
            penum_name = take (DRM_PROP_NAME_LEN - 1) (names ! i)\<rparr>) [0..<n]\<rparr>)"
    using add_enum_list_fresh [OF assms(1,2) _ d] assms(3,4) by (simp add: tv_mode_enums_def comp_def)
  have "length names < n \<Longrightarrow> tv_mode_enums m n names s = None"
    by (simp add: tv_mode_enums_def)
  then show ?thesis using ok by (cases "n \<le> length names") auto
qed

lemma drm_create_tv_properties_fault:
  "length names < n \<Longrightarrow> drm_create_tv_properties n names s = None"
  by (simp add: drm_create_tv_properties_def tv_mode_enums_def Let_def case_prod_unfold)

subsection \<open>Names\<close>

lemma drm_get_dpms_name_table:
  "map (\<lambda>(v, n). drm_get_dpms_name (uint v)) drm_dpms_enum_list = map snd drm_dpms_enum_list"
  "val \<notin> {0, 1, 2, 3} \<Longrightarrow> drm_get_dpms_name val = ''unknown''"
  by (auto simp: drm_get_dpms_name_def drm_dpms_enum_list_def)

text \<open>
  For a type inside the table and a 32-bit type identifier the name is not truncated,
  and the identifier is read back from what follows the dash.
\<close>

lemma drm_get_output_name_ok:
  assumes "output_type out < length drm_output_enum_list" and "output_type_id out < 2 ^ 31"
  shows "drm_get_output_name out =
      Some (snd (drm_output_enum_list ! output_type out) @ ''-'' @ nat_to_dec (output_type_id out)) \<and>
    dec_value (drop (Suc (length (snd (drm_output_enum_list ! output_type out))))
      (the (drm_get_output_name out))) = output_type_id out"
proof -
  have "output_type_id out < 10 ^ 10" using assms(2) by simp
  then have d: "length (nat_to_dec (output_type_id out)) \<le> 10" by (rule nat_to_dec_length) simp
  have "length (snd (drm_output_enum_list ! output_type out)) \<le> 4"
    using assms(1) by (auto simp: drm_output_enum_list_def less_Suc_eq nth_Cons split: nat.splits)
  then show ?thesis using assms(1) d by (simp add: drm_get_output_name_def)
qed

lemma drm_get_output_name_fault:
  "length drm_output_enum_list \<le> output_type out \<Longrightarrow> drm_get_output_name out = None"
  by (simp add: drm_get_output_name_def)

end
