(* ===== verification/DRM_Probe.thy ===== *)
theory DRM_Probe
  imports DRM_Store
begin

text \<open>
  The mode prober, \<^verbatim>\<open>drm_crtc_probe_single_output_modes\<close> and
  \<^verbatim>\<open>drm_crtc_probe_output_modes\<close> of \<^verbatim>\<open>drm_crtc.c\<close>, with the list helpers it calls
  from \<^verbatim>\<open>drm_modes.c\<close> (not in the repository, modelled from the specification):
  \<^verbatim>\<open>drm_mode_output_list_update\<close>, \<^verbatim>\<open>drm_mode_validate_size\<close>,
  \<^verbatim>\<open>drm_mode_prune_invalid\<close>. The driver's \<^verbatim>\<open>detect\<close>, \<^verbatim>\<open>get_modes\<close> and
  \<^verbatim>\<open>mode_valid\<close> answers come from the driver record; \<^verbatim>\<open>get_modes\<close> adds its modes
  with \<^verbatim>\<open>drm_mode_probed_add\<close>, that is at the head of the probed list, one by one.
  \<^verbatim>\<open>drm_mode_set_crtcinfo\<close> and the debug printing touch no field of the model.
\<close>

section \<open>Definitions\<close>

text \<open>
  \<^verbatim>\<open>drm_mode_output_list_update\<close>: every probed mode, in order, either refreshes the
  status of the first usable mode with the same timing (and is dropped) or moves to the
  end of the usable list.
\<close>

fun merge_probed :: "drm_display_mode list \<Rightarrow> drm_display_mode list \<Rightarrow> drm_display_mode list" where
  "merge_probed ms [] = ms"
| "merge_probed ms (p # ps) =
     merge_probed (case find_idx (drm_mode_equal p) ms of
                     None \<Rightarrow> ms @ [p]
                   | Some i \<Rightarrow> ms[i := (ms ! i)\<lparr>mode_status := mode_status p\<rparr>]) ps"

definition drm_mode_output_list_update :: "drm_output \<Rightarrow> drm_output" where
  "drm_mode_output_list_update out =
     out\<lparr>modes := merge_probed (modes out) (probed_modes out), probed_modes := []\<rparr>"

text \<open>\<^verbatim>\<open>drm_mode_validate_size\<close> on one mode: too wide, too high (a bound of 0 or less is no bound).\<close>

definition validate_size_one :: "int \<Rightarrow> int \<Rightarrow> int \<Rightarrow> drm_display_mode \<Rightarrow> drm_display_mode" where
  "validate_size_one maxX maxY maxPitch m =
     (let m1 = (if 0 < maxPitch \<and> maxPitch < hdisplay m then m\<lparr>mode_status := MODE_BAD_WIDTH\<rparr> else m);
          m2 = (if 0 < maxX \<and> maxX < hdisplay m1 then m1\<lparr>mode_status := MODE_VIRTUAL_X\<rparr> else m1)
      in if 0 < maxY \<and> maxY < vdisplay m2 then m2\<lparr>mode_status := MODE_VIRTUAL_Y\<rparr> else m2)"

definition drm_mode_prune_invalid :: "drm_display_mode list \<Rightarrow> drm_display_mode list" where
  "drm_mode_prune_invalid ms = filter (\<lambda>m. mode_status m = MODE_OK) ms"

text \<open>The steps of \<^verbatim>\<open>drm_crtc_probe_single_output_modes\<close> after a connected detection.\<close>

definition probe_validate :: "drm_driver \<Rightarrow> int \<Rightarrow> int \<Rightarrow> drm_output \<Rightarrow> drm_output" where
  "probe_validate drv maxX maxY out =
     (let new = drv_get_modes drv (output_id out);
          o1 = out\<lparr>probed_modes := rev new @ probed_modes out\<rparr>;
          o2 = (if new \<noteq> [] then drm_mode_output_list_update o1 else o1);
          o3 = (if maxX \<noteq> 0 \<and> maxY \<noteq> 0 then o2\<lparr>modes := map (validate_size_one maxX maxY 0) (modes o2)\<rparr>
                else o2);
          o4 = o3\<lparr>modes := map (\<lambda>m. if mode_status m = MODE_OK
                                      then m\<lparr>mode_status := drv_mode_valid drv (output_id out) m\<rparr> else m)
                               (modes o3)\<rparr>
      in o4\<lparr>modes := drm_mode_prune_invalid (modes o4)\<rparr>)"

text \<open>
  The fallback: with no usable mode left, a copy of \<^verbatim>\<open>std_mode[0]\<close> under a new
  identifier is added to the probed list, and the probed list is moved to the end of
  the usable one (\<^verbatim>\<open>drm_mode_list_concat\<close>).
\<close>

definition probe_fallback :: "drm_output \<Rightarrow> drm_mode_config \<Rightarrow> drm_output \<times> drm_mode_config" where
  "probe_fallback out s =
     (if modes out \<noteq> [] then (out, s)
      else (let (sm, s1) = drm_mode_duplicate std_mode s
            in (out\<lparr>modes := modes out @ sm # probed_modes out, probed_modes := []\<rparr>, s1)))"

definition probe_finish :: "drm_output \<Rightarrow> drm_output" where
  "probe_finish out =
     out\<lparr>modes := map (\<lambda>m. m\<lparr>vrefresh := drm_mode_vrefresh m\<rparr>) (drm_mode_sort (modes out))\<rparr>"

text \<open>The first two steps: every usable mode unverified, then the detection.\<close>

definition probe_mark :: "drm_driver \<Rightarrow> drm_output \<Rightarrow> drm_output" where
  "probe_mark drv out =
     out\<lparr>modes := map (\<lambda>m. m\<lparr>mode_status := MODE_UNVERIFIED\<rparr>) (modes out),
         output_status := drv_detect drv (output_id out)\<rparr>"

definition probe_output :: "drm_driver \<Rightarrow> int \<Rightarrow> int \<Rightarrow> drm_output \<Rightarrow> drm_mode_config \<Rightarrow>
    drm_output \<times> drm_mode_config" where
  "probe_output drv maxX maxY out s =
     (let o1 = probe_mark drv out
      in if output_status o1 = output_status_disconnected then (o1, s)
         else (let (o2, s1) = probe_fallback (probe_validate drv maxX maxY o1) s
               in (probe_finish o2, s1)))"

text \<open>The prober on the output at position \<open>i\<close> of the device's list, and on every output in order.\<close>

definition probe_at :: "drm_driver \<Rightarrow> int \<Rightarrow> int \<Rightarrow> nat \<Rightarrow> drm_mode_config \<Rightarrow> drm_mode_config" where
  "probe_at drv maxX maxY i s =
     (let (o', s1) = probe_output drv maxX maxY (output_list s ! i) s
      in s1\<lparr>output_list := (output_list s1)[i := o']\<rparr>)"

definition drm_crtc_probe_single_output_modes :: "drm_driver \<Rightarrow> int \<Rightarrow> int \<Rightarrow> nat \<Rightarrow>
    drm_mode_config \<Rightarrow> drm_mode_config faulting" where
  "drm_crtc_probe_single_output_modes drv maxX maxY oid s =
     (case find_idx (\<lambda>out. output_id out = oid) (output_list s) of
        None \<Rightarrow> None
      | Some i \<Rightarrow> Some (probe_at drv maxX maxY i s))"

definition drm_crtc_probe_output_modes :: "drm_driver \<Rightarrow> int \<Rightarrow> int \<Rightarrow> drm_mode_config \<Rightarrow> drm_mode_config" where
  "drm_crtc_probe_output_modes drv maxX maxY s =
     fold (probe_at drv maxX maxY) [0..<length (output_list s)] s"

section \<open>Lemmas\<close>

lemma drm_mode_vrefresh_idem [simp]:
  "drm_mode_vrefresh (m\<lparr>vrefresh := drm_mode_vrefresh m\<rparr>) = drm_mode_vrefresh m"
  by (simp add: drm_mode_vrefresh_def)

lemma sort_key_refresh [simp]:
  "drm_mode_sort_key (m\<lparr>vrefresh := drm_mode_vrefresh m\<rparr>) = drm_mode_sort_key m"
  by (simp add: drm_mode_sort_key_def mode_preferred_def)

lemma prune_ok: "m \<in> set (drm_mode_prune_invalid ms) \<Longrightarrow> mode_status m = MODE_OK"
  by (simp add: drm_mode_prune_invalid_def)

lemma validate_size_one_timing [simp]:
  "hdisplay (validate_size_one maxX maxY p m) = hdisplay m"
  "vdisplay (validate_size_one maxX maxY p m) = vdisplay m"
  by (simp_all add: validate_size_one_def Let_def)

lemma validate_size_one_ok:
  assumes "mode_status (validate_size_one maxX maxY 0 m) = MODE_OK" and "0 < maxX" and "0 < maxY"
  shows "hdisplay m \<le> maxX \<and> vdisplay m \<le> maxY"
  using assms by (auto simp: validate_size_one_def Let_def split: if_splits)

lemma probe_validate_ok:
  "m \<in> set (modes (probe_validate drv maxX maxY out)) \<Longrightarrow> mode_status m = MODE_OK"
  by (simp add: probe_validate_def Let_def prune_ok)

lemma probe_validate_probed:
  "probed_modes out = [] \<Longrightarrow> probed_modes (probe_validate drv maxX maxY out) = []"
  by (simp add: probe_validate_def Let_def drm_mode_output_list_update_def)

lemma probe_validate_id [simp]: "output_id (probe_validate drv maxX maxY out) = output_id out"
  "output_status (probe_validate drv maxX maxY out) = output_status out"
  by (simp_all add: probe_validate_def Let_def drm_mode_output_list_update_def)

lemma probe_validate_bounds:
  assumes "m \<in> set (modes (probe_validate drv maxX maxY out))" and "0 < maxX" and "0 < maxY"
  shows "hdisplay m \<le> maxX \<and> vdisplay m \<le> maxY"
proof -
  let ?o2 = "if drv_get_modes drv (output_id out) \<noteq> []
             then drm_mode_output_list_update (out\<lparr>probed_modes := rev (drv_get_modes drv (output_id out)) @ probed_modes out\<rparr>)
             else out\<lparr>probed_modes := rev (drv_get_modes drv (output_id out)) @ probed_modes out\<rparr>"
  from assms(1) obtain m0 where m0: "m0 \<in> set (modes ?o2)"
    and ok: "mode_status (if mode_status (validate_size_one maxX maxY 0 m0) = MODE_OK
                          then (validate_size_one maxX maxY 0 m0)\<lparr>mode_status := drv_mode_valid drv (output_id out) (validate_size_one maxX maxY 0 m0)\<rparr>
                          else validate_size_one maxX maxY 0 m0) = MODE_OK"
    and mm: "m = (if mode_status (validate_size_one maxX maxY 0 m0) = MODE_OK
                  then (validate_size_one maxX maxY 0 m0)\<lparr>mode_status := drv_mode_valid drv (output_id out) (validate_size_one maxX maxY 0 m0)\<rparr>
                  else validate_size_one maxX maxY 0 m0)"
    using assms(2,3) by (auto simp: probe_validate_def Let_def drm_mode_prune_invalid_def)
  have "mode_status (validate_size_one maxX maxY 0 m0) = MODE_OK"
    using ok by (auto split: if_splits)
  from validate_size_one_ok [OF this assms(2,3)] mm show ?thesis by (auto split: if_splits)
qed


lemma drm_mode_duplicate_std:
  "fst (drm_mode_duplicate m s) = m\<lparr>mode_id := fst (mc_idr_get DRM_OBJ_MODE s)\<rparr>"
  by (simp add: drm_mode_duplicate_def drm_mode_create_def split: prod.splits)

lemma probe_fallback_nonempty:
  "modes out \<noteq> [] \<Longrightarrow> probe_fallback out s = (out, s)"
  by (simp add: probe_fallback_def)

lemma probe_fallback_empty:
  assumes "modes out = []" and "probed_modes out = []"
  shows "probe_fallback out s =
    (out\<lparr>modes := [std_mode\<lparr>mode_id := fst (mc_idr_get DRM_OBJ_MODE s)\<rparr>]\<rparr>, snd (mc_idr_get DRM_OBJ_MODE s))"
  using assms drm_mode_duplicate_std [of std_mode s] drm_mode_duplicate_snd [of std_mode s]
  by (cases "drm_mode_duplicate std_mode s") (simp add: probe_fallback_def)

lemma probe_finish_fields [simp]:
  "output_status (probe_finish out) = output_status out" "probed_modes (probe_finish out) = probed_modes out"
  "modes (probe_finish out) = [] \<longleftrightarrow> modes out = []"
  by (simp_all add: probe_finish_def)

lemma probe_finish_sorted: "sorted (map drm_mode_sort_key (modes (probe_finish out)))"
proof -
  have "map drm_mode_sort_key (map (\<lambda>m. m\<lparr>vrefresh := drm_mode_vrefresh m\<rparr>) (drm_mode_sort (modes out))) =
        map drm_mode_sort_key (drm_mode_sort (modes out))"
    by simp
  then show ?thesis using sorted_drm_mode_sort [of "modes out"] by (simp add: probe_finish_def comp_def)
qed

lemma probe_finish_set:
  "m \<in> set (modes (probe_finish out)) \<longleftrightarrow>
     (\<exists>m0 \<in> set (modes out). m = m0\<lparr>vrefresh := drm_mode_vrefresh m0\<rparr>)"
  by (auto simp: probe_finish_def)



lemma probe_mark_fields [simp]:
  "output_id (probe_mark drv out) = output_id out" "probed_modes (probe_mark drv out) = probed_modes out"
  "output_status (probe_mark drv out) = drv_detect drv (output_id out)"
  by (simp_all add: probe_mark_def)

lemma probe_output_connected:
  assumes "drv_detect drv (output_id out) \<noteq> output_status_disconnected"
  shows "probe_output drv maxX maxY out s =
    (probe_finish (fst (probe_fallback (probe_validate drv maxX maxY (probe_mark drv out)) s)),
     snd (probe_fallback (probe_validate drv maxX maxY (probe_mark drv out)) s))"
  using assms by (simp add: probe_output_def split: prod.splits)

lemma std_mode_refresh: "drm_mode_vrefresh (std_mode\<lparr>mode_id := i\<rparr>) = 60"
  by (simp add: drm_mode_vrefresh_def std_mode_def)

lemma probe_output_id [simp]: "output_id (fst (probe_output drv maxX maxY out s)) = output_id out"
  by (simp add: probe_output_def probe_fallback_def probe_finish_def Let_def split: prod.splits)

lemma probe_output_state [simp]:
  "output_list (snd (probe_output drv maxX maxY out s)) = output_list s"
  by (simp add: probe_output_def probe_fallback_def Let_def case_prod_unfold drm_mode_duplicate_state)

text \<open>The prober does not look at the lock: under the lock it probes the same.\<close>

lemma probe_output_lock:
  "probe_output drv maxX maxY out (s\<lparr>mutex_held := b\<rparr>) =
     (fst (probe_output drv maxX maxY out s), (snd (probe_output drv maxX maxY out s))\<lparr>mutex_held := b\<rparr>)"
  by (simp add: probe_output_def probe_fallback_def drm_mode_duplicate_def drm_mode_create_def
      mc_idr_get_lock Let_def split: prod.splits)

lemma probe_single_lookup:
  assumes "lookup_output s oid = Some out"
  shows "\<exists>s1. drm_crtc_probe_single_output_modes drv maxX maxY oid s = Some s1 \<and>
    lookup_output s1 oid = Some (fst (probe_output drv maxX maxY out s))"
proof -
  obtain i where i: "find_idx (\<lambda>x. output_id x = oid) (output_list s) = Some i"
    using assms find_Some_find_idx unfolding lookup_output_def by metis
  then have o: "output_list s ! i = out" using assms find_idx_find unfolding lookup_output_def by fastforce
  have "output_id out = oid" using assms unfolding lookup_output_def by (auto dest: find_key_Some_in_set)
  then have "find (\<lambda>x. output_id x = oid) ((output_list s)[i := fst (probe_output drv maxX maxY out s)]) =
      Some (fst (probe_output drv maxX maxY out s))"
    by (intro find_idx_find_update [OF i]) simp
  then show ?thesis using i o
    by (simp add: drm_crtc_probe_single_output_modes_def probe_at_def lookup_output_def case_prod_unfold Let_def)
qed

lemma probe_output_keeps [simp]:
  "crtc_list (snd (probe_output drv maxX maxY out s)) = crtc_list s"
  "hotplug_counter (snd (probe_output drv maxX maxY out s)) = hotplug_counter s"
  by (simp_all add: probe_output_def probe_fallback_def Let_def case_prod_unfold drm_mode_duplicate_state
      mc_idr_get_snd)

lemma probe_output_modes_keeps:
  "map output_id (output_list (drm_crtc_probe_output_modes drv maxX maxY s)) = map output_id (output_list s)"
  "crtc_list (drm_crtc_probe_output_modes drv maxX maxY s) = crtc_list s"
  "hotplug_counter (drm_crtc_probe_output_modes drv maxX maxY s) = hotplug_counter s"
proof -
  have "map output_id (output_list (fold (probe_at drv maxX maxY) is t)) = map output_id (output_list t) \<and>
      crtc_list (fold (probe_at drv maxX maxY) is t) = crtc_list t \<and>
      hotplug_counter (fold (probe_at drv maxX maxY) is t) = hotplug_counter t" for "is" t
    by (induction "is" arbitrary: t)
       (simp_all add: probe_at_def case_prod_unfold Let_def map_update_same_key)
  then show "map output_id (output_list (drm_crtc_probe_output_modes drv maxX maxY s)) = map output_id (output_list s)"
    "crtc_list (drm_crtc_probe_output_modes drv maxX maxY s) = crtc_list s"
    "hotplug_counter (drm_crtc_probe_output_modes drv maxX maxY s) = hotplug_counter s"
    unfolding drm_crtc_probe_output_modes_def by blast+
qed

text \<open>
  C23: probing an output the driver detects as connected (with an empty probed list, as the store keeps it) leaves it with the detected status, a non-empty usable list of modes that are all MODE_OK, sorted by the prober order, and an empty probed list.
\<close>
theorem drm_probe_connected:
  assumes "drv_detect drv (output_id out) \<noteq> output_status_disconnected" and "probed_modes out = []"
  shows "output_status (fst (probe_output drv maxX maxY out s)) = drv_detect drv (output_id out) \<and>
    modes (fst (probe_output drv maxX maxY out s)) \<noteq> [] \<and>
    (\<forall>m \<in> set (modes (fst (probe_output drv maxX maxY out s))). mode_status m = MODE_OK) \<and>
    sorted (map drm_mode_sort_key (modes (fst (probe_output drv maxX maxY out s)))) \<and>
    probed_modes (fst (probe_output drv maxX maxY out s)) = []"
proof -
  let ?v = "probe_validate drv maxX maxY (probe_mark drv out)"
  have pv: "probed_modes ?v = []" using assms(2) by (simp add: probe_validate_probed)
  have "output_status (fst (probe_fallback ?v s)) = drv_detect drv (output_id out) \<and>
    modes (fst (probe_fallback ?v s)) \<noteq> [] \<and>
    (\<forall>m \<in> set (modes (fst (probe_fallback ?v s))). mode_status m = MODE_OK) \<and>
    probed_modes (fst (probe_fallback ?v s)) = []"
  proof (cases "modes ?v = []")
    case True
    then show ?thesis using probe_fallback_empty [OF True pv] pv by (simp add: std_mode_def)
  next
    case False
    then show ?thesis using probe_fallback_nonempty [OF False] pv probe_validate_ok by simp
  qed
  then show ?thesis
    using probe_output_connected [OF assms(1)] probe_finish_sorted probe_finish_set by auto
qed

text \<open>
  C24: with positive bounds, every usable mode after the probe fits the bounds, unless the list is the fallback 640x480 mode, which is added without a size check.
\<close>
theorem drm_probe_size_bound:
  assumes "drv_detect drv (output_id out) \<noteq> output_status_disconnected" and "probed_modes out = []"
    and "0 < maxX" and "0 < maxY"
  shows "(\<forall>m \<in> set (modes (fst (probe_output drv maxX maxY out s))). hdisplay m \<le> maxX \<and> vdisplay m \<le> maxY) \<or>
    modes (fst (probe_output drv maxX maxY out s)) =
      [std_mode\<lparr>mode_id := fst (mc_idr_get DRM_OBJ_MODE s), vrefresh := 60\<rparr>]"
proof (cases "modes (probe_validate drv maxX maxY (probe_mark drv out)) = []")
  case True
  have pv: "probed_modes (probe_validate drv maxX maxY (probe_mark drv out)) = []"
    using assms(2) by (simp add: probe_validate_probed)
  show ?thesis
    using probe_output_connected [OF assms(1)] probe_fallback_empty [OF True pv]
    by (simp add: probe_finish_def std_mode_refresh drm_mode_sort_def)
next
  case False
  then show ?thesis
    using probe_output_connected [OF assms(1)] probe_fallback_nonempty [OF False]
      probe_validate_bounds [OF _ assms(3,4)] probe_finish_set by auto
qed

text \<open>
  C25: when no probed mode survives validation, the usable list is exactly one copy of the built-in 640x480 mode under a freshly allocated identifier, at 60 Hz, and that mode is not marked preferred.
\<close>
theorem drm_probe_fallback:
  assumes "drv_detect drv (output_id out) \<noteq> output_status_disconnected" and "probed_modes out = []"
    and "modes (probe_validate drv maxX maxY (probe_mark drv out)) = []"
  shows "modes (fst (probe_output drv maxX maxY out s)) =
      [std_mode\<lparr>mode_id := fst (mc_idr_get DRM_OBJ_MODE s), vrefresh := 60\<rparr>] \<and>
    \<not> mode_preferred (hd (modes (fst (probe_output drv maxX maxY out s)))) \<and>
    snd (probe_output drv maxX maxY out s) = snd (mc_idr_get DRM_OBJ_MODE s)"
proof -
  have pv: "probed_modes (probe_validate drv maxX maxY (probe_mark drv out)) = []"
    using assms(2) by (simp add: probe_validate_probed)
  let ?v = "probe_validate drv maxX maxY (probe_mark drv out)"
  let ?sm = "std_mode\<lparr>mode_id := fst (mc_idr_get DRM_OBJ_MODE s)\<rparr>"
  have po: "probe_output drv maxX maxY out s = (probe_finish (?v\<lparr>modes := [?sm]\<rparr>), snd (mc_idr_get DRM_OBJ_MODE s))"
    using probe_output_connected [OF assms(1), of maxX maxY s] probe_fallback_empty [OF assms(3) pv, of s]
    by simp
  have m: "modes (probe_finish (?v\<lparr>modes := [?sm]\<rparr>)) = [?sm\<lparr>vrefresh := 60\<rparr>]"
    by (simp add: probe_finish_def drm_mode_sort_def std_mode_refresh)
  have np: "\<not> mode_preferred (?sm\<lparr>vrefresh := 60\<rparr>)"
    by (simp add: mode_preferred_def std_mode_def drm_mode_bits)
  show ?thesis using po m np by simp
qed

text \<open>
  C26: probing an output detected as disconnected keeps its stale usable list, with every mode marked MODE_UNVERIFIED, and changes nothing else on the device.
\<close>
theorem drm_probe_disconnected:
  assumes "drv_detect drv (output_id out) = output_status_disconnected"
  shows "probe_output drv maxX maxY out s =
    (out\<lparr>modes := map (\<lambda>m. m\<lparr>mode_status := MODE_UNVERIFIED\<rparr>) (modes out),
         output_status := output_status_disconnected\<rparr>, s)"
  using assms by (simp add: probe_output_def probe_mark_def)

end
