(* ===== verification/DRM_Umode.thy ===== *)
theory DRM_Umode
  imports DRM_Mode
begin

text \<open>
  The user-space form of a mode, \<^verbatim>\<open>struct drm_mode_modeinfo\<close> of \<^verbatim>\<open>drm_mode.h\<close>, and
  the two copies between it and \<^verbatim>\<open>struct drm_display_mode\<close>:
  \<^verbatim>\<open>drm_crtc_convert_to_umode\<close> (kernel to user, for the get ioctls) and
  \<^verbatim>\<open>drm_crtc_convert_umode\<close> (user to kernel, for \<^verbatim>\<open>drm_mode_setcrtc\<close> and the mode
  attach ioctls). The kernel fields are C \<^verbatim>\<open>int\<close>s, the user fields \<^verbatim>\<open>unsigned int\<close>
  and \<^verbatim>\<open>unsigned short\<close>: the assignments truncate to the width of the target and,
  back from an unsigned 32-bit field into an \<^verbatim>\<open>int\<close>, read the bits as signed. The
  name is copied with \<^verbatim>\<open>strncpy\<close> and cut at 31 characters by the terminating zero.
\<close>

section \<open>Definitions\<close>

definition DRM_DISPLAY_MODE_LEN :: nat where "DRM_DISPLAY_MODE_LEN = 32"

record drm_mode_modeinfo =
  umode_clock :: "32 word"
  umode_hdisplay :: "16 word"
  umode_hsync_start :: "16 word"
  umode_hsync_end :: "16 word"
  umode_htotal :: "16 word"
  umode_hskew :: "16 word"
  umode_vdisplay :: "16 word"
  umode_vsync_start :: "16 word"
  umode_vsync_end :: "16 word"
  umode_vtotal :: "16 word"
  umode_vscan :: "16 word"
  umode_vrefresh :: "32 word"
  umode_flags :: "32 word"
  umode_type :: "32 word"
  umode_name :: string

definition drm_crtc_convert_to_umode :: "drm_display_mode \<Rightarrow> drm_mode_modeinfo" where
  "drm_crtc_convert_to_umode m =
     \<lparr>umode_clock = word_of_int (clock m), umode_hdisplay = word_of_int (hdisplay m),
      umode_hsync_start = word_of_int (hsync_start m), umode_hsync_end = word_of_int (hsync_end m),
      umode_htotal = word_of_int (htotal m), umode_hskew = word_of_int (hskew m),
      umode_vdisplay = word_of_int (vdisplay m), umode_vsync_start = word_of_int (vsync_start m),
      umode_vsync_end = word_of_int (vsync_end m), umode_vtotal = word_of_int (vtotal m),
      umode_vscan = word_of_int (vscan m), umode_vrefresh = word_of_int (vrefresh m),
      umode_flags = mode_flags m, umode_type = mode_type m,
      umode_name = take (DRM_DISPLAY_MODE_LEN - 1) (mode_name m)\<rparr>"

text \<open>The target mode keeps its other fields (its identifier, its status).\<close>

definition drm_crtc_convert_umode :: "drm_display_mode \<Rightarrow> drm_mode_modeinfo \<Rightarrow> drm_display_mode" where
  "drm_crtc_convert_umode out u =
     out\<lparr>clock := sint (umode_clock u), hdisplay := uint (umode_hdisplay u),
         hsync_start := uint (umode_hsync_start u), hsync_end := uint (umode_hsync_end u),
         htotal := uint (umode_htotal u), hskew := uint (umode_hskew u),
         vdisplay := uint (umode_vdisplay u), vsync_start := uint (umode_vsync_start u),
         vsync_end := uint (umode_vsync_end u), vtotal := uint (umode_vtotal u),
         vscan := uint (umode_vscan u), vrefresh := sint (umode_vrefresh u),
         mode_flags := umode_flags u, mode_type := umode_type u,
         mode_name := take (DRM_DISPLAY_MODE_LEN - 1) (umode_name u)\<rparr>"

text \<open>The kernel values that survive the trip through the user structure.\<close>

definition umode_representable :: "drm_display_mode \<Rightarrow> bool" where
  "umode_representable m \<longleftrightarrow>
     - (2 ^ 31) \<le> clock m \<and> clock m < 2 ^ 31 \<and> - (2 ^ 31) \<le> vrefresh m \<and> vrefresh m < 2 ^ 31 \<and>
     list_all (\<lambda>v. 0 \<le> v \<and> v < 2 ^ 16)
       [hdisplay m, hsync_start m, hsync_end m, htotal m, hskew m,
        vdisplay m, vsync_start m, vsync_end m, vtotal m, vscan m] \<and>
     length (mode_name m) < DRM_DISPLAY_MODE_LEN"

section \<open>Lemmas\<close>

lemma uint_word_of_int_16: "uint (word_of_int v :: 16 word) = v mod 2 ^ 16"
  by (simp add: uint_word_of_int)

lemma uint_word_of_int_16_id: "0 \<le> v \<Longrightarrow> v < 2 ^ 16 \<Longrightarrow> uint (word_of_int v :: 16 word) = v"
  by (simp add: uint_word_of_int_16)

lemma sint_word_of_int_32_id:
  "- (2 ^ 31) \<le> v \<Longrightarrow> v < 2 ^ 31 \<Longrightarrow> sint (word_of_int v :: 32 word) = v"
  by (simp add: sint_sbintrunc' signed_take_bit_int_eq_self)

lemma word_of_int_sint_id [simp]: "word_of_int (sint w) = (w :: 'a::len word)"
  by (metis scast_eq scast_id)

lemma drm_crtc_convert_umode_keeps [simp]:
  "mode_id (drm_crtc_convert_umode m u) = mode_id m"
  "mode_status (drm_crtc_convert_umode m u) = mode_status m"
  by (simp_all add: drm_crtc_convert_umode_def)

lemma mode_timing_convert_umode:
  "mode_timing (drm_crtc_convert_umode m u) = mode_timing (drm_crtc_convert_umode m' u)"
  by (simp add: mode_timing_def drm_crtc_convert_umode_def)

text \<open>
  C20: a user mode copied into a kernel mode and back is the user mode again, whenever its
  name fits the 31 characters the copies keep.
\<close>

theorem drm_umode_roundtrip:
  assumes "length (umode_name u) < DRM_DISPLAY_MODE_LEN"
  shows "drm_crtc_convert_to_umode (drm_crtc_convert_umode out u) = u"
  using assms by (simp add: drm_crtc_convert_to_umode_def drm_crtc_convert_umode_def)

text \<open>
  C21: a kernel mode copied to the user structure and back is the kernel mode again
  exactly when its values are representable there (signed 32-bit clock and refresh,
  unsigned 16-bit timings, a name of at most 31 characters).
\<close>

theorem drm_mode_umode_roundtrip:
  "drm_crtc_convert_umode m (drm_crtc_convert_to_umode m) = m \<longleftrightarrow> umode_representable m"
proof
  assume "umode_representable m"
  then show "drm_crtc_convert_umode m (drm_crtc_convert_to_umode m) = m"
    by (simp add: umode_representable_def drm_crtc_convert_to_umode_def drm_crtc_convert_umode_def
        uint_word_of_int_16_id sint_word_of_int_32_id DRM_DISPLAY_MODE_LEN_def)
next
  assume eq: "drm_crtc_convert_umode m (drm_crtc_convert_to_umode m) = m"
  have w: "uint (word_of_int v :: 16 word) = v \<Longrightarrow> 0 \<le> v \<and> v < 2 ^ 16" for v
    by (metis uint_word_of_int_16 Euclidean_Rings.pos_mod_bound Euclidean_Rings.pos_mod_sign zero_less_numeral zero_less_power)
  have sw: "sint (word_of_int v :: 32 word) = v \<Longrightarrow> - (2 ^ 31) \<le> v \<and> v < 2 ^ 31" for v
    by (simp add: sint_sbintrunc' signed_take_bit_int_eq_self_iff)
  have "length (mode_name (drm_crtc_convert_umode m (drm_crtc_convert_to_umode m))) = length (mode_name m)"
    using eq by simp
  then have "length (mode_name m) < DRM_DISPLAY_MODE_LEN"
    by (simp add: drm_crtc_convert_umode_def drm_crtc_convert_to_umode_def DRM_DISPLAY_MODE_LEN_def)
  with eq w sw show "umode_representable m"
    unfolding umode_representable_def drm_crtc_convert_umode_def drm_crtc_convert_to_umode_def
    by (cases m) simp
qed

text \<open>
  C22: the 16-bit timing fields of a kernel mode come back from the user structure
  reduced modulo \<open>2^16\<close>: a width of 70000 comes back as 4464.
\<close>

theorem drm_mode_umode_wraps:
  "hdisplay (drm_crtc_convert_umode out (drm_crtc_convert_to_umode m)) = hdisplay m mod 2 ^ 16 \<and>
   vdisplay (drm_crtc_convert_umode out (drm_crtc_convert_to_umode m)) = vdisplay m mod 2 ^ 16 \<and>
   htotal (drm_crtc_convert_umode out (drm_crtc_convert_to_umode m)) = htotal m mod 2 ^ 16 \<and>
   vtotal (drm_crtc_convert_umode out (drm_crtc_convert_to_umode m)) = vtotal m mod 2 ^ 16"
  by (simp add: drm_crtc_convert_umode_def drm_crtc_convert_to_umode_def uint_word_of_int_16)

end
