(* ===== verification/DRM_Ioctl.thy ===== *)
theory DRM_Ioctl
  imports DRM_SetConfig DRM_Probe DRM_Umode DRM_Property
begin

text \<open>
  The ioctl entry points of \<^verbatim>\<open>drm_crtc.c\<close> that query and change the configuration:
  resources, CRTC and output queries, \<^verbatim>\<open>drm_mode_setcrtc\<close>, the framebuffer ioctls
  (\<^verbatim>\<open>addfb\<close>, \<^verbatim>\<open>rmfb\<close>, \<^verbatim>\<open>getfb\<close>, \<^verbatim>\<open>replacefb\<close>, \<^verbatim>\<open>drm_fb_release\<close>), and the
  user-mode attach and detach ioctls. Every ioctl takes the device lock (a held lock is
  a dead-lock, \<open>None\<close>) and releases it on every exit. The user's pointers are one flag
  \<open>uok\<close>: when it is false every \<^verbatim>\<open>copy_to_user\<close>, \<^verbatim>\<open>put_user\<close> and \<^verbatim>\<open>get_user\<close>
  that runs fails with \<^verbatim>\<open>-EFAULT\<close>. The framebuffers a file owns
  (\<^verbatim>\<open>file_priv->fbs\<close>) are a list of identifiers passed in and returned.
  \<^verbatim>\<open>drm_get_buffer_object\<close> looks a handle up in the device's user-object table,
  given as a map from handles to the object's kind (a buffer object or not); a buffer
  object is named by its handle, the key \<^verbatim>\<open>drm_mode_getfb\<close> reports back.
\<close>

section \<open>Definitions\<close>

subsection \<open>Lookups\<close>

definition idr_find_crtc :: "drm_mode_config \<Rightarrow> nat \<Rightarrow> drm_crtc option faulting" where
  "idr_find_crtc s c =
     (case crtc_idr s c of
        None \<Rightarrow> Some None
      | Some k \<Rightarrow> if k = DRM_OBJ_CRTC then Some (lookup_crtc s c) else None)"

definition idr_find_fb :: "drm_mode_config \<Rightarrow> nat \<Rightarrow> drm_framebuffer option faulting" where
  "idr_find_fb s f =
     (case crtc_idr s f of
        None \<Rightarrow> Some None
      | Some k \<Rightarrow> if k = DRM_OBJ_FB then Some (lookup_fb s f) else None)"

type_synonym user_objects = "nat \<Rightarrow> bool option"

definition drm_get_buffer_object :: "user_objects \<Rightarrow> nat \<Rightarrow> nat drm_result" where
  "drm_get_buffer_object objs handle =
     (case objs handle of
        None \<Rightarrow> Inl EINVAL
      | Some is_bo \<Rightarrow> if is_bo then Inr handle else Inl EINVAL)"

text \<open>Run a locked body: take the lock, release it on the way out.\<close>

definition with_lock :: "(drm_mode_config \<Rightarrow> ('r \<times> drm_mode_config) faulting) \<Rightarrow> drm_mode_config \<Rightarrow>
    ('r \<times> drm_mode_config) faulting" where
  "with_lock f s =
     (case mutex_lock s of
        None \<Rightarrow> None
      | Some s1 \<Rightarrow> map_option (\<lambda>(r, s2). (r, mutex_unlock s2)) (f s1))"

subsection \<open>\<^verbatim>\<open>drm_mode_getresources\<close>\<close>

record card_res =
  res_count_fbs :: nat
  res_fb_ids :: "nat list"
  res_count_crtcs :: nat
  res_crtc_ids :: "nat list"
  res_count_outputs :: nat
  res_output_ids :: "nat list"
  res_min_width :: int
  res_max_width :: int
  res_min_height :: int
  res_max_height :: int

text \<open>
  The three copy loops run when the caller's capacity is at least the count; a loop
  over a non-empty list with bad pointers fails. The ids copied are \<open>[]\<close> when the loop
  did not run.
\<close>

definition getresources_reply :: "nat \<Rightarrow> nat \<Rightarrow> nat \<Rightarrow> bool \<Rightarrow> drm_mode_config \<Rightarrow> card_res drm_result" where
  "getresources_reply cf cc co uok s =
     (let fbs = map fb_id (fb_list s); crtcs = map crtc_id (crtc_list s);
          outs = map output_id (output_list s);
          copy_f = (length fbs \<le> cf); copy_c = (length crtcs \<le> cc); copy_o = (length outs \<le> co)
      in if \<not> uok \<and> ((copy_f \<and> fbs \<noteq> []) \<or> (copy_c \<and> crtcs \<noteq> []) \<or> (copy_o \<and> outs \<noteq> []))
         then Inl EFAULT
         else Inr \<lparr>res_count_fbs = length fbs, res_fb_ids = (if copy_f then fbs else []),
                   res_count_crtcs = length crtcs, res_crtc_ids = (if copy_c then crtcs else []),
                   res_count_outputs = length outs, res_output_ids = (if copy_o then outs else []),
                   res_min_width = min_width s, res_max_width = max_width s,
                   res_min_height = min_height s, res_max_height = max_height s\<rparr>)"

definition drm_mode_getresources :: "nat \<Rightarrow> nat \<Rightarrow> nat \<Rightarrow> bool \<Rightarrow> drm_mode_config \<Rightarrow>
    (card_res drm_result \<times> drm_mode_config) faulting" where
  "drm_mode_getresources cf cc co uok =
     with_lock (\<lambda>s. Some (getresources_reply cf cc co uok s, s))"

subsection \<open>\<^verbatim>\<open>drm_mode_getcrtc\<close>\<close>

record crtc_reply =
  crtc_reply_x :: int
  crtc_reply_y :: int
  crtc_reply_fb_id :: nat
  crtc_reply_outputs :: "32 word"
  crtc_reply_mode :: "drm_mode_modeinfo option"

text \<open>
  \<^verbatim>\<open>crtc_resp->outputs |= 1 << (ocount++)\<close> for every output bound to the CRTC, in
  list order: the counter advances only on a bound output.
\<close>

fun getcrtc_outputs :: "nat \<Rightarrow> nat \<Rightarrow> drm_output list \<Rightarrow> 32 word" where
  "getcrtc_outputs c ocount [] = 0"
| "getcrtc_outputs c ocount (out # outs) =
     (if output_crtc out = Some c then push_bit ocount 1 OR getcrtc_outputs c (Suc ocount) outs
      else getcrtc_outputs c ocount outs)"

definition drm_mode_getcrtc :: "nat \<Rightarrow> drm_mode_config \<Rightarrow> (crtc_reply drm_result \<times> drm_mode_config) faulting" where
  "drm_mode_getcrtc cid =
     with_lock (\<lambda>s. case idr_find_crtc s cid of
        None \<Rightarrow> None
      | Some None \<Rightarrow> Some (Inl EINVAL, s)
      | Some (Some crtc) \<Rightarrow>
          Some (Inr \<lparr>crtc_reply_x = crtc_x crtc, crtc_reply_y = crtc_y crtc,
                     crtc_reply_fb_id = (case crtc_fb crtc of None \<Rightarrow> 0 | Some f \<Rightarrow> f),
                     crtc_reply_outputs = (if crtc_enabled crtc
                                           then getcrtc_outputs (crtc_id crtc) 0 (output_list s) else 0),
                     crtc_reply_mode = (if crtc_enabled crtc
                                        then Some (drm_crtc_convert_to_umode (crtc_mode crtc)) else None)\<rparr>,
                s))"

subsection \<open>The framebuffer ioctls\<close>

record fb_cmd =
  fbc_width :: "32 word"
  fbc_height :: "32 word"
  fbc_pitch :: "32 word"
  fbc_bpp :: "32 word"
  fbc_depth :: "32 word"
  fbc_handle :: nat

text \<open>
  \<^verbatim>\<open>drm_mode_addfb\<close>: the size limits are checked before the lock, comparing the
  \<^verbatim>\<open>int\<close> limits with the \<^verbatim>\<open>unsigned\<close> request (the limits convert to unsigned).
  The new framebuffer is put at the head of the file's list; its identifier is the reply.
\<close>

definition drm_mode_addfb :: "user_objects \<Rightarrow> fb_cmd \<Rightarrow> nat list \<Rightarrow> drm_mode_config \<Rightarrow>
    ((nat drm_result \<times> nat list) \<times> drm_mode_config) faulting" where
  "drm_mode_addfb objs r fbs s =
     (if word_of_int (max_width s) < fbc_width r \<or> fbc_width r < word_of_int (min_width s) \<or>
         word_of_int (max_height s) < fbc_height r \<or> fbc_height r < word_of_int (min_height s)
      then Some ((Inl EINVAL, fbs), s)
      else with_lock (\<lambda>s1. case drm_get_buffer_object objs (fbc_handle r) of
             Inl e \<Rightarrow> Some ((Inl EINVAL, fbs), s1)
           | Inr bo \<Rightarrow>
               (let (i, s2) = drm_framebuffer_create s1
                in Some ((Inr i, i # fbs),
                         s2\<lparr>fb_list := map_at (\<lambda>f. fb_id f = i)
                               (\<lambda>f. f\<lparr>fb_width := uint (fbc_width r), fb_height := uint (fbc_height r),
                                      fb_pitch := uint (fbc_pitch r), fb_bits_per_pixel := sint (fbc_bpp r),
                                      fb_depth := uint (fbc_depth r), fb_bo := bo\<rparr>) (fb_list s2)\<rparr>))) s)"

text \<open>\<^verbatim>\<open>drm_mode_rmfb\<close>: only a framebuffer of the calling file; its CRTCs lose it.\<close>

definition drm_mode_rmfb :: "nat \<Rightarrow> nat list \<Rightarrow> drm_mode_config \<Rightarrow>
    ((unit drm_result \<times> nat list) \<times> drm_mode_config) faulting" where
  "drm_mode_rmfb fid fbs =
     with_lock (\<lambda>s. case idr_find_fb s fid of
        None \<Rightarrow> None
      | Some None \<Rightarrow> Some ((Inl EINVAL, fbs), s)
      | Some (Some fb) \<Rightarrow>
          if fb_id fb \<notin> set fbs then Some ((Inl EINVAL, fbs), s)
          else Some ((Inr (), remove1 (fb_id fb) fbs), drm_framebuffer_destroy (fb_id fb) s))"

definition drm_mode_getfb :: "nat \<Rightarrow> drm_mode_config \<Rightarrow> (fb_cmd drm_result \<times> drm_mode_config) faulting" where
  "drm_mode_getfb fid =
     with_lock (\<lambda>s. case idr_find_fb s fid of
        None \<Rightarrow> None
      | Some None \<Rightarrow> Some (Inl EINVAL, s)
      | Some (Some fb) \<Rightarrow>
          Some (Inr \<lparr>fbc_width = word_of_int (fb_width fb), fbc_height = word_of_int (fb_height fb),
                     fbc_pitch = word_of_int (fb_pitch fb), fbc_bpp = word_of_int (fb_bits_per_pixel fb),
                     fbc_depth = word_of_int (fb_depth fb), fbc_handle = fb_bo fb\<rparr>, s))"

text \<open>\<^verbatim>\<open>drm_fb_release\<close>: every framebuffer of the closing file is destroyed, in list order.\<close>

definition drm_fb_release :: "nat list \<Rightarrow> drm_mode_config \<Rightarrow> drm_mode_config faulting" where
  "drm_fb_release fbs =
     map_option snd \<circ> with_lock (\<lambda>s. Some ((), fold drm_framebuffer_destroy fbs s))"

text \<open>
  \<^verbatim>\<open>drm_mode_replacefb\<close>: after the checks, the framebuffer gets the new geometry and
  buffer, and every CRTC whose framebuffer has the identifier is rebased. The loop reads
  \<^verbatim>\<open>crtc->fb->id\<close> for every CRTC: a CRTC without a framebuffer is a NULL
  dereference; \<^verbatim>\<open>mode_set_base\<close> is called without a test.
\<close>

fun replacefb_rebase :: "drm_driver \<Rightarrow> nat \<Rightarrow> drm_crtc list \<Rightarrow> hw_event list faulting" where
  "replacefb_rebase drv fid [] = Some []"
| "replacefb_rebase drv fid (c # cs) =
     (case crtc_fb c of
        None \<Rightarrow> None
      | Some f \<Rightarrow>
          if f = fid
          then (if drv_has_mode_set_base drv (crtc_id c)
                then map_option (\<lambda>es. CrtcModeSetBase (crtc_id c) (crtc_x c) (crtc_y c) # es)
                       (replacefb_rebase drv fid cs)
                else None)
          else replacefb_rebase drv fid cs)"

definition drm_mode_replacefb :: "drm_driver \<Rightarrow> user_objects \<Rightarrow> nat \<Rightarrow> fb_cmd \<Rightarrow> nat list \<Rightarrow>
    drm_mode_config \<Rightarrow> (unit drm_result \<times> drm_mode_config) faulting" where
  "drm_mode_replacefb drv objs fid r fbs =
     with_lock (\<lambda>s. case drm_get_buffer_object objs (fbc_handle r) of
        Inl _ \<Rightarrow> Some (Inl EINVAL, s)
      | Inr bo \<Rightarrow>
          (case idr_find_fb s fid of
             None \<Rightarrow> None
           | Some None \<Rightarrow> Some (Inl EINVAL, s)
           | Some (Some fb) \<Rightarrow>
               if fb_id fb \<notin> set fbs then Some (Inl EINVAL, s)
               else (let s1 = s\<lparr>fb_list := map_at (\<lambda>f. fb_id f = fid)
                            (\<lambda>f. f\<lparr>fb_width := uint (fbc_width r), fb_height := uint (fbc_height r),
                                   fb_pitch := uint (fbc_pitch r), fb_bits_per_pixel := sint (fbc_bpp r),
                                   fb_depth := uint (fbc_depth r), fb_bo := bo\<rparr>) (fb_list s)\<rparr>
                     in map_option (\<lambda>es. (Inr (), log_hw es s1)) (replacefb_rebase drv fid (crtc_list s1)))))"

subsection \<open>\<^verbatim>\<open>drm_mode_getoutput\<close>\<close>

record output_reply =
  oreply_type :: nat
  oreply_type_id :: nat
  oreply_connection :: drm_output_status
  oreply_crtc :: nat
  oreply_crtcs :: "32 word"
  oreply_clones :: "32 word"
  oreply_count_modes :: nat
  oreply_modes :: "drm_mode_modeinfo list"
  oreply_count_props :: nat
  oreply_props :: "(nat \<times> 64 word) list"

text \<open>
  The mode and property counts are taken first; a request with \<open>count_modes = 0\<close> then
  probes the output (with the device's maximum size) before the reply is filled from
  the probed output. The copies run when the capacity suffices and the count is not 0.
\<close>

definition output_props :: "drm_output \<Rightarrow> (nat \<times> 64 word) list" where
  "output_props out =
     filter (\<lambda>(i, v). i \<noteq> 0) (take DRM_OUTPUT_MAX_PROPERTY (zip (property_ids out) (property_values out)))"

definition getoutput_reply :: "nat \<Rightarrow> nat \<Rightarrow> nat \<Rightarrow> nat \<Rightarrow> bool \<Rightarrow> drm_output \<Rightarrow> output_reply drm_result" where
  "getoutput_reply count_modes count_props mode_count props_count uok out =
     (let copy_m = (mode_count \<le> count_modes \<and> mode_count \<noteq> 0);
          copy_p = (props_count \<le> count_props \<and> props_count \<noteq> 0)
      in if \<not> uok \<and> ((copy_m \<and> modes out \<noteq> []) \<or> copy_p) then Inl EFAULT
         else Inr \<lparr>oreply_type = output_type out, oreply_type_id = output_type_id out,
                   oreply_connection = output_status out,
                   oreply_crtc = (case output_crtc out of None \<Rightarrow> 0 | Some c \<Rightarrow> c),
                   oreply_crtcs = possible_crtcs out, oreply_clones = possible_clones out,
                   oreply_count_modes = mode_count,
                   oreply_modes = (if copy_m then map drm_crtc_convert_to_umode (modes out) else []),
                   oreply_count_props = props_count,
                   oreply_props = (if copy_p then output_props out else [])\<rparr>)"

definition drm_mode_getoutput :: "drm_driver \<Rightarrow> nat \<Rightarrow> nat \<Rightarrow> nat \<Rightarrow> bool \<Rightarrow> drm_mode_config \<Rightarrow>
    (output_reply drm_result \<times> drm_mode_config) faulting" where
  "drm_mode_getoutput drv oid count_modes count_props uok =
     with_lock (\<lambda>s. case idr_find_output s oid of
        None \<Rightarrow> None
      | Some None \<Rightarrow> Some (Inl EINVAL, s)
      | Some (Some out) \<Rightarrow>
          (let mode_count = length (modes out);
               props_count = length (filter (\<lambda>i. i \<noteq> 0) (take DRM_OUTPUT_MAX_PROPERTY (property_ids out)))
           in case (if count_modes = 0
                    then drm_crtc_probe_single_output_modes drv (max_width s) (max_height s) oid s
                    else Some s) of
                None \<Rightarrow> None
              | Some s1 \<Rightarrow>
                  (case lookup_output s1 oid of
                     None \<Rightarrow> None
                   | Some out1 \<Rightarrow>
                       Some (getoutput_reply count_modes count_props mode_count props_count uok out1, s1))))"

subsection \<open>\<^verbatim>\<open>drm_mode_setcrtc\<close>\<close>

record crtc_req =
  req_crtc_id :: nat
  req_fb_id :: "32 word"
  req_x :: int
  req_y :: int
  req_mode_valid :: bool
  req_mode :: drm_mode_modeinfo
  req_count_outputs :: nat
  req_outputs :: "nat list"

text \<open>
  The output identifiers are read one by one from the caller's array
  (\<open>req_outputs\<close>); a read past its end, or with bad pointers, is \<^verbatim>\<open>-EFAULT\<close>.
\<close>

fun setcrtc_outputs :: "bool \<Rightarrow> drm_mode_config \<Rightarrow> nat \<Rightarrow> nat list \<Rightarrow> nat list drm_result faulting" where
  "setcrtc_outputs uok s 0 ids = Some (Inr [])"
| "setcrtc_outputs uok s (Suc n) ids =
     (if \<not> uok \<or> ids = [] then Some (Inl EFAULT)
      else (case idr_find_output s (hd ids) of
              None \<Rightarrow> None
            | Some None \<Rightarrow> Some (Inl EINVAL)
            | Some (Some out) \<Rightarrow>
                map_option (map_sum id (\<lambda>os. output_id out # os)) (setcrtc_outputs uok s n (tl ids))))"

text \<open>An identifier the loop accepts: registered as an output, and an output of the list.\<close>

definition output_named :: "drm_mode_config \<Rightarrow> nat \<Rightarrow> bool" where
  "output_named s i \<longleftrightarrow> crtc_idr s i = Some DRM_OBJ_OUTPUT \<and> list_ex (\<lambda>out. output_id out = i) (output_list s)"

text \<open>
  The framebuffer of a request with a mode: the CRTC's own for \<open>fb_id = -1\<close>, else the
  one the identifier names. The mode is a new mode (with a new identifier) filled from
  the user's mode.
\<close>

definition setcrtc_fb :: "crtc_req \<Rightarrow> drm_crtc \<Rightarrow> drm_mode_config \<Rightarrow> nat option drm_result faulting" where
  "setcrtc_fb req crtc s =
     (if req_fb_id req = - 1 then Some (Inr (crtc_fb crtc))
      else (case idr_find_fb s (unat (req_fb_id req)) of
              None \<Rightarrow> None
            | Some None \<Rightarrow> Some (Inl EINVAL)
            | Some (Some fb) \<Rightarrow> Some (Inr (Some (fb_id fb)))))"

definition setcrtc_locked :: "drm_driver \<Rightarrow> bool \<Rightarrow> crtc_req \<Rightarrow> drm_mode_config \<Rightarrow>
    (unit drm_result \<times> drm_mode_config) faulting" where
  "setcrtc_locked drv uok req s =
     (case idr_find_crtc s (req_crtc_id req) of
        None \<Rightarrow> None
      | Some None \<Rightarrow> Some (Inl EINVAL, s)
      | Some (Some crtc) \<Rightarrow>
          (case (if req_mode_valid req then setcrtc_fb req crtc s else Some (Inr None)) of
             None \<Rightarrow> None
           | Some (Inl e) \<Rightarrow> Some (Inl e, s)
           | Some (Inr fb) \<Rightarrow>
               (let (mode, s1) = (if req_mode_valid req
                                  then (let (m, s1) = drm_mode_create s
                                        in (Some (drm_crtc_convert_umode m (req_mode req)), s1))
                                  else (None, s))
                in if req_count_outputs req = 0 \<and> mode \<noteq> None then Some (Inl EINVAL, s1)
                   else if 0 < req_count_outputs req \<and> mode = None \<and> fb = None then Some (Inl EINVAL, s1)
                   else (case setcrtc_outputs uok s1 (req_count_outputs req) (req_outputs req) of
                           None \<Rightarrow> None
                         | Some (Inl e) \<Rightarrow> Some (Inl e, s1)
                         | Some (Inr os) \<Rightarrow>
                             drm_crtc_set_config drv
                               \<lparr>set_crtc = Some (crtc_id crtc), set_fb = fb, set_x = req_x req,
                                set_y = req_y req, set_mode = mode, set_outputs = os\<rparr> s1))))"

definition drm_mode_setcrtc :: "drm_driver \<Rightarrow> bool \<Rightarrow> crtc_req \<Rightarrow> drm_mode_config \<Rightarrow>
    (unit drm_result \<times> drm_mode_config) faulting" where
  "drm_mode_setcrtc drv uok req = with_lock (setcrtc_locked drv uok req)"

subsection \<open>User modes\<close>

text \<open>
  \<^verbatim>\<open>drm_mode_attachmode\<close> appends a mode to an output's user modes;
  \<^verbatim>\<open>drm_mode_detachmode\<close> removes and frees the first user mode with the same timing.
\<close>

definition drm_mode_attachmode :: "nat \<Rightarrow> drm_display_mode \<Rightarrow> drm_mode_config \<Rightarrow> drm_mode_config" where
  "drm_mode_attachmode oid m s = update_output oid (\<lambda>out. out\<lparr>user_modes := user_modes out @ [m]\<rparr>) s"

definition drm_mode_detachmode :: "nat \<Rightarrow> drm_display_mode \<Rightarrow> drm_mode_config \<Rightarrow> unit drm_result \<times> drm_mode_config" where
  "drm_mode_detachmode oid m s =
     (case lookup_output s oid of
        None \<Rightarrow> (Inl EINVAL, s)
      | Some out \<Rightarrow>
          (case find_idx (\<lambda>mm. drm_mode_equal mm m) (user_modes out) of
             None \<Rightarrow> (Inl EINVAL, s)
           | Some i \<Rightarrow>
               (Inr (), drm_mode_destroy (user_modes out ! i)
                          (update_output oid (\<lambda>ou. ou\<lparr>user_modes := take i (user_modes ou) @ drop (Suc i) (user_modes ou)\<rparr>) s))))"

definition drm_mode_attachmode_ioctl :: "nat \<Rightarrow> drm_mode_modeinfo \<Rightarrow> drm_mode_config \<Rightarrow>
    (unit drm_result \<times> drm_mode_config) faulting" where
  "drm_mode_attachmode_ioctl oid u =
     with_lock (\<lambda>s. case idr_find_output s oid of
        None \<Rightarrow> None
      | Some None \<Rightarrow> Some (Inl EINVAL, s)
      | Some (Some out) \<Rightarrow>
          (let (m, s1) = drm_mode_create s
           in Some (Inr (), drm_mode_attachmode oid (drm_crtc_convert_umode m u) s1)))"

text \<open>The detach ioctl converts into an uninitialised stack mode: only the converted fields count.\<close>

definition drm_mode_detachmode_ioctl :: "nat \<Rightarrow> drm_mode_modeinfo \<Rightarrow> drm_mode_config \<Rightarrow>
    (unit drm_result \<times> drm_mode_config) faulting" where
  "drm_mode_detachmode_ioctl oid u =
     with_lock (\<lambda>s. case idr_find_output s oid of
        None \<Rightarrow> None
      | Some None \<Rightarrow> Some (Inl EINVAL, s)
      | Some (Some out) \<Rightarrow> Some (drm_mode_detachmode oid (drm_crtc_convert_umode zero_mode u) s))"

text \<open>
  \<^verbatim>\<open>drm_mode_attachmode_crtc\<close>: the mode itself to the first output bound to the CRTC,
  a duplicate (with a new identifier) to each further one; \<^verbatim>\<open>drm_mode_detachmode_crtc\<close>
  detaches from every output and ignores the results.
\<close>

fun attachmode_crtc_loop :: "nat \<Rightarrow> drm_display_mode \<Rightarrow> bool \<Rightarrow> nat list \<Rightarrow> drm_mode_config \<Rightarrow> drm_mode_config" where
  "attachmode_crtc_loop c m need_dup [] s = s"
| "attachmode_crtc_loop c m need_dup (oid # oids) s =
     (let (dup, s1) = (if need_dup then drm_mode_duplicate m s else (m, s))
      in attachmode_crtc_loop c m True oids (drm_mode_attachmode oid dup s1))"

definition drm_mode_attachmode_crtc :: "nat \<Rightarrow> drm_display_mode \<Rightarrow> drm_mode_config \<Rightarrow> drm_mode_config" where
  "drm_mode_attachmode_crtc c m s =
     attachmode_crtc_loop c m False
       (map output_id (filter (\<lambda>out. output_crtc out = Some c) (output_list s))) s"

definition drm_mode_detachmode_crtc :: "drm_display_mode \<Rightarrow> drm_mode_config \<Rightarrow> drm_mode_config" where
  "drm_mode_detachmode_crtc m s = fold (\<lambda>oid s. snd (drm_mode_detachmode oid m s)) (map output_id (output_list s)) s"


subsection \<open>\<^verbatim>\<open>drm_mode_getblob_ioctl\<close>\<close>

text \<open>
  A blob is found through the registry like the other objects. The caller gives the
  length of its buffer: when it equals the blob's length the bytes are copied out, and
  in every case but a failed copy the blob's length is written back, so a caller first
  asks with a wrong length and then with the length it got.
\<close>

definition lookup_blob :: "drm_mode_config \<Rightarrow> nat \<Rightarrow> drm_property_blob option" where
  "lookup_blob s b = find (\<lambda>x. blob_id x = b) (property_blob_list s)"

definition idr_find_blob :: "drm_mode_config \<Rightarrow> nat \<Rightarrow> drm_property_blob option faulting" where
  "idr_find_blob s b =
     (case crtc_idr s b of
        None \<Rightarrow> Some None
      | Some k \<Rightarrow> if k = DRM_OBJ_BLOB then Some (lookup_blob s b) else None)"

record blob_reply =
  blob_reply_length :: nat
  blob_reply_data :: "8 word list option"

definition drm_mode_getblob_ioctl :: "nat \<Rightarrow> nat \<Rightarrow> bool \<Rightarrow> drm_mode_config \<Rightarrow>
    (blob_reply drm_result \<times> drm_mode_config) faulting" where
  "drm_mode_getblob_ioctl bid len uok =
     with_lock (\<lambda>s. case idr_find_blob s bid of
        None \<Rightarrow> None
      | Some None \<Rightarrow> Some (Inl EINVAL, s)
      | Some (Some b) \<Rightarrow>
          if len = blob_length b
          then (if uok then Some (Inr \<lparr>blob_reply_length = blob_length b, blob_reply_data = Some (blob_data b)\<rparr>, s)
                else Some (Inl EFAULT, s))
          else Some (Inr \<lparr>blob_reply_length = blob_length b, blob_reply_data = None\<rparr>, s))"

section \<open>Lemmas\<close>

subsection \<open>The lock\<close>

lemma with_lock_free:
  "\<not> mutex_held s \<Longrightarrow> with_lock f s = map_option (\<lambda>(r, s2). (r, mutex_unlock s2)) (f (s\<lparr>mutex_held := True\<rparr>))"
  by (simp add: with_lock_def)

lemma idr_find_fb_lock [simp]: "idr_find_fb (s\<lparr>mutex_held := b\<rparr>) = idr_find_fb s"
  by (simp add: idr_find_fb_def fun_eq_iff split: option.splits)

lemma idr_find_output_lock [simp]: "idr_find_output (s\<lparr>mutex_held := b\<rparr>) = idr_find_output s"
  by (simp add: idr_find_output_def fun_eq_iff split: option.splits)

lemma setcrtc_fb_lock [simp]: "setcrtc_fb req crtc (s\<lparr>mutex_held := b\<rparr>) = setcrtc_fb req crtc s"
  by (simp add: setcrtc_fb_def)

subsection \<open>Loops\<close>

text \<open>The CRTC query's mask: one bit per bound output, from bit \<open>ocount\<close> up, whatever their positions.\<close>

lemma getcrtc_outputs_mask:
  "getcrtc_outputs c k outs = push_bit k (mask (length (filter (\<lambda>out. output_crtc out = Some c) outs)))"
proof (induction outs arbitrary: k)
  case Nil
  then show ?case by simp
next
  case (Cons out outs)
  have "push_bit k 1 OR push_bit (Suc k) (mask n) = (push_bit k (mask (Suc n)) :: 32 word)" for n
    apply (rule bit_eqI)
    apply (simp only: bit_or_iff bit_push_bit_iff bit_mask_iff bit_1_iff)
    by auto
  with Cons show ?case by simp
qed

lemma replacefb_rebase_Some_iff:
  "(\<exists>es. replacefb_rebase drv fid cs = Some es) \<longleftrightarrow>
     (\<forall>c \<in> set cs. crtc_fb c \<noteq> None \<and> (crtc_fb c = Some fid \<longrightarrow> drv_has_mode_set_base drv (crtc_id c)))"
  by (induction cs) (auto split: option.splits)

lemma setcrtc_outputs_ok:
  assumes "n \<le> length ids" and "list_all (output_named s) (take n ids)"
  shows "setcrtc_outputs True s n ids = Some (Inr (take n ids))"
  using assms
proof (induction n arbitrary: ids)
  case 0
  then show ?case by simp
next
  case (Suc n)
  then obtain x xs where ids: "ids = x # xs" by (cases ids) auto
  with Suc.prems have named: "output_named s x" and rest: "list_all (output_named s) (take n xs)"
    by simp_all
  then have reg: "crtc_idr s x = Some DRM_OBJ_OUTPUT" and "x \<in> output_id ` set (output_list s)"
    by (auto simp: output_named_def list_ex_iff)
  then obtain out where lk: "lookup_output s x = Some out" and "output_id out = x"
    using lookup_output_exists by blast
  with Suc ids reg show ?case by (simp add: idr_find_output_def)
qed

lemma output_named_mode_get:
  "output_named s i \<Longrightarrow> output_named ((snd (mc_idr_get k s))\<lparr>mutex_held := b\<rparr>) i"
  by (simp add: output_named_def mc_idr_get_keeps)

text \<open>
  C27: on a request the ioctl accepts (a CRTC, a mode, a framebuffer the request resolves to, and outputs that all name outputs), drm_mode_setcrtc is, under the lock, a new mode filled from the user's mode followed by drm_crtc_set_config on the decoded set: the ioctl refines the transaction.
\<close>

theorem drm_mode_setcrtc_refines:
  assumes nl: "\<not> mutex_held s" and creg: "crtc_idr s (req_crtc_id req) = Some DRM_OBJ_CRTC"
    and lkc: "lookup_crtc s (req_crtc_id req) = Some crtc" and mv: "req_mode_valid req"
    and fb: "setcrtc_fb req crtc s = Some (Inr fb)"
    and n: "0 < req_count_outputs req" "req_count_outputs req \<le> length (req_outputs req)"
    and outs: "list_all (output_named s) (take (req_count_outputs req) (req_outputs req))"
  shows "drm_mode_setcrtc drv True req s =
    with_lock (\<lambda>s1. drm_crtc_set_config drv
      \<lparr>set_crtc = Some (req_crtc_id req), set_fb = fb, set_x = req_x req, set_y = req_y req,
       set_mode = Some (drm_crtc_convert_umode (zero_mode\<lparr>mode_id := fst (mc_idr_get DRM_OBJ_MODE s1)\<rparr>) (req_mode req)),
       set_outputs = take (req_count_outputs req) (req_outputs req)\<rparr>
      (snd (mc_idr_get DRM_OBJ_MODE s1))) s"
proof -
  let ?l1 = "(snd (mc_idr_get DRM_OBJ_MODE s))\<lparr>mutex_held := True\<rparr>"
  have cid: "crtc_id crtc = req_crtc_id req" using lkc by (auto dest: lookup_crtc_in_set)
  have "list_all (output_named ?l1) (take (req_count_outputs req) (req_outputs req))"
    using outs by (simp add: list_all_iff output_named_mode_get)
  then have so: "setcrtc_outputs True ?l1 (req_count_outputs req) (req_outputs req) =
      Some (Inr (take (req_count_outputs req) (req_outputs req)))"
    using setcrtc_outputs_ok n(2) by blast
  show ?thesis using nl creg lkc mv fb n so cid
    by (simp add: drm_mode_setcrtc_def with_lock_free setcrtc_locked_def idr_find_crtc_def
        drm_mode_create_def mc_idr_get_lock)
qed

text \<open>
  C28: with a free identifier in the registry and a valid buffer object, drm_mode_addfb within the size limits returns a new non-zero identifier, put at the head of the file's list, whose framebuffer has the requested geometry and buffer, and keeps the store invariant.
\<close>

theorem drm_mode_addfb_ok:
  assumes inv: "mc_inv s" and nl: "\<not> mutex_held s"
    and lim: "fbc_width r \<le> word_of_int (max_width s)" "word_of_int (min_width s) \<le> fbc_width r"
             "fbc_height r \<le> word_of_int (max_height s)" "word_of_int (min_height s) \<le> fbc_height r"
    and bo: "objs (fbc_handle r) = Some True"
    and free: "1 \<le> j" "j \<le> MAX_ID_MASK" "crtc_idr s j = None"
  shows "\<exists>i s'. drm_mode_addfb objs r fbs s = Some ((Inr i, i # fbs), s') \<and> i \<noteq> 0 \<and> crtc_idr s i = None \<and>
    lookup_fb s' i = Some \<lparr>fb_id = i, fb_width = uint (fbc_width r), fb_height = uint (fbc_height r),
      fb_pitch = uint (fbc_pitch r), fb_bits_per_pixel = sint (fbc_bpp r), fb_depth = uint (fbc_depth r),
      fb_bo = fbc_handle r\<rparr> \<and> mc_inv s' \<and> \<not> mutex_held s'"
proof -
  let ?l = "s\<lparr>mutex_held := True\<rparr>"
  obtain i s2 where cr: "drm_framebuffer_create ?l = (i, s2)" by fastforce
  have i: "i \<noteq> 0"
    using cr mc_idr_get_nonzero [OF free, of DRM_OBJ_FB] drm_framebuffer_create_id [of ?l]
    by (simp add: mc_idr_get_lock)
  have ok: "crtc_idr ?l i = None \<and>
    s2 = ?l\<lparr>crtc_idr := (crtc_idr ?l)(i \<mapsto> DRM_OBJ_FB), num_fb := Suc (num_fb ?l),
           fb_list := \<lparr>fb_id = i, fb_width = 0, fb_height = 0, fb_pitch = 0,
                       fb_bits_per_pixel = 0, fb_depth = 0, fb_bo = 0\<rparr> # fb_list ?l\<rparr>"
    by (rule drm_framebuffer_create_ok [OF cr i])
  have inv2: "mc_inv s2" using drm_framebuffer_create_inv [OF _ cr i] inv by simp
  let ?g = "\<lambda>f. f\<lparr>fb_width := uint (fbc_width r), fb_height := uint (fbc_height r),
               fb_pitch := uint (fbc_pitch r), fb_bits_per_pixel := sint (fbc_bpp r),
               fb_depth := uint (fbc_depth r), fb_bo := fbc_handle r\<rparr>"
  let ?s' = "mutex_unlock (s2\<lparr>fb_list := map_at (\<lambda>f. fb_id f = i) ?g (fb_list s2)\<rparr>)"
  have run: "drm_mode_addfb objs r fbs s = Some ((Inr i, i # fbs), ?s')"
    using lim bo cr nl by (simp add: drm_mode_addfb_def with_lock_free drm_get_buffer_object_def not_less)
  have "mc_inv ?s'"
    using inv2 mc_inv_fb_fields [where g = ?g and s = s2 and P = "\<lambda>f. fb_id f = i"] by (simp add: mutex_unlock_def)
  moreover have "lookup_fb ?s' i = Some (?g \<lparr>fb_id = i, fb_width = 0, fb_height = 0, fb_pitch = 0,
                       fb_bits_per_pixel = 0, fb_depth = 0, fb_bo = 0\<rparr>)"
    using ok by (simp add: lookup_fb_def mutex_unlock_def)
  ultimately show ?thesis using run i ok by (simp add: mutex_unlock_def)
qed

text \<open>
  C29: drm_mode_rmfb of a framebuffer the file owns succeeds, removes it from the file's list, the registry and the device list, leaves no CRTC scanning it out, and keeps the store invariant.
\<close>

theorem drm_mode_rmfb_ok:
  assumes inv: "mc_inv s" and nl: "\<not> mutex_held s" and own: "fid \<in> set fbs"
    and f: "fid \<in> fb_id ` set (fb_list s)"
  shows "\<exists>s'. drm_mode_rmfb fid fbs s = Some ((Inr (), remove1 fid fbs), s') \<and> mc_inv s' \<and>
    crtc_idr s' fid = None \<and> lookup_fb s' fid = None \<and> (\<forall>c \<in> set (crtc_list s'). crtc_fb c \<noteq> Some fid) \<and>
    \<not> mutex_held s'"
proof -
  have reg: "crtc_idr s fid = Some DRM_OBJ_FB" using inv f by (auto simp: mc_inv_defs)
  obtain fb where lk: "lookup_fb s fid = Some fb" and fid: "fb_id fb = fid"
    using lookup_fb_exists [OF f] by blast
  let ?s' = "mutex_unlock (drm_framebuffer_destroy fid (s\<lparr>mutex_held := True\<rparr>))"
  have run: "drm_mode_rmfb fid fbs s = Some ((Inr (), remove1 fid fbs), ?s')"
    using nl reg lk fid own by (simp add: drm_mode_rmfb_def with_lock_free idr_find_fb_def)
  have i: "mc_inv ?s'" using drm_framebuffer_destroy_inv [OF inv f]
    by (simp add: mutex_unlock_def drm_framebuffer_destroy_lock)
  have d: "distinct (map fb_id (fb_list s))" using inv by (simp add: mc_inv_defs)
  have u: "?s' = (drm_framebuffer_destroy fid s)\<lparr>mutex_held := False\<rparr>"
    by (simp add: mutex_unlock_def drm_framebuffer_destroy_lock)
  have "lookup_fb ?s' fid = None"
    using set_del_key_distinct [OF d, of _ fid] unfolding u
    by (simp add: lookup_fb_def find_None_iff drm_framebuffer_destroy_fields)
  moreover have "\<forall>c \<in> set (crtc_list ?s'). crtc_fb c \<noteq> Some fid"
    unfolding u by (auto simp: drm_framebuffer_destroy_fields map_at_def)
  moreover have "crtc_idr ?s' fid = None" and "\<not> mutex_held ?s'"
    unfolding u by (simp_all add: drm_framebuffer_destroy_fields drm_idr_put_def)
  ultimately show ?thesis using run i by blast
qed

text \<open>
  C30: attaching a user mode to an output and detaching the same user mode gives back the device state exactly, when the output has no user mode of that timing yet.
\<close>

theorem drm_mode_attach_detach_roundtrip:
  assumes inv: "mc_inv s" and nl: "\<not> mutex_held s" and reg: "crtc_idr s oid = Some DRM_OBJ_OUTPUT"
    and lk: "lookup_output s oid = Some out"
    and new: "\<not> list_ex (\<lambda>mm. drm_mode_equal mm (drm_crtc_convert_umode zero_mode u)) (user_modes out)"
  shows "\<exists>s1. drm_mode_attachmode_ioctl oid u s = Some (Inr (), s1) \<and>
    drm_mode_detachmode_ioctl oid u s1 = Some (Inr (), s)"
proof -
  let ?i = "fst (mc_idr_get DRM_OBJ_MODE s)" and ?r = "snd (drm_idr_get DRM_OBJ_MODE (crtc_idr s))"
  let ?m = "drm_crtc_convert_umode (zero_mode\<lparr>mode_id := ?i\<rparr>) u"
  let ?f = "\<lambda>out. out\<lparr>user_modes := user_modes out @ [?m]\<rparr>"
  let ?n = "length (user_modes out)"
  let ?g = "\<lambda>ou. ou\<lparr>user_modes := take ?n (user_modes ou) @ drop (Suc ?n) (user_modes ou)\<rparr>"
  let ?s1 = "update_output oid ?f (s\<lparr>crtc_idr := ?r\<rparr>)"
  have oid: "output_id out = oid" using lk unfolding lookup_output_def by (auto dest: find_key_Some_in_set)
  have att: "drm_mode_attachmode_ioctl oid u s = Some (Inr (), ?s1)"
    using nl reg lk
    by (simp add: drm_mode_attachmode_ioctl_def with_lock_free idr_find_output_def drm_mode_create_def
        mc_idr_get_lock drm_mode_attachmode_def mc_idr_get_snd update_output_def mutex_unlock_def)
  have reg1: "?r oid = Some DRM_OBJ_OUTPUT"
    using mc_idr_get_keeps [OF reg, of DRM_OBJ_MODE] by (simp add: mc_idr_get_snd)
  have lk1: "lookup_output ?s1 oid = Some (?f out)"
    using lk by (simp add: lookup_output_def update_output_def find_map_at_same_key)
  have eq: "drm_mode_equal ?m (drm_crtc_convert_umode zero_mode u)"
    unfolding drm_mode_equal_timing by (rule mode_timing_convert_umode)
  have fi: "find_idx (\<lambda>mm. drm_mode_equal mm (drm_crtc_convert_umode zero_mode u)) (user_modes out @ [?m]) = Some ?n"
    using find_idx_append_last [OF new eq] .
  have d: "distinct (map output_id (output_list s))" using inv by (simp add: mc_inv_defs)
  have restored: "map_at (\<lambda>x. output_id x = oid) ?g (map_at (\<lambda>x. output_id x = oid) ?f (output_list s)) = output_list s"
  proof (rule map_at_inverse)
    fix x assume "x \<in> set (output_list s)" "output_id x = oid"
    then have "x = out" using lookup_output_unique [OF d lk] by blast
    then show "output_id (?f x) = oid \<and> ?g (?f x) = x" using oid by simp
  qed
  have idr: "drm_idr_put ?i ?r = crtc_idr s"
    using mc_idr_get_put [of s DRM_OBJ_MODE] inv by (simp add: mc_inv_defs mc_idr_get_snd)
  have "drm_mode_detachmode_ioctl oid u ?s1 = Some (Inr (), s)"
    using reg1 lk1 fi restored idr nl
    by (simp add: drm_mode_detachmode_ioctl_def with_lock_def mutex_lock_def idr_find_output_def
        drm_mode_detachmode_def drm_mode_destroy_def mc_idr_put_def update_output_def mutex_unlock_def)
  with att show ?thesis by blast
qed

text \<open>
  C31: the outputs mask of drm_mode_getcrtc for an enabled CRTC is the mask of the first n bits, n the number of outputs bound to the CRTC: the counter advances only on bound outputs, so the mask does not say which outputs they are.
\<close>

theorem drm_mode_getcrtc_outputs:
  assumes "\<not> mutex_held s" and "crtc_idr s c = Some DRM_OBJ_CRTC" and "lookup_crtc s c = Some crtc"
    and "crtc_enabled crtc"
  shows "\<exists>r. drm_mode_getcrtc c s = Some (Inr r, s) \<and>
    crtc_reply_outputs r = mask (length (filter (\<lambda>out. output_crtc out = Some c) (output_list s)))"
proof -
  have "crtc_id crtc = c" using assms(3) unfolding lookup_crtc_def by (auto dest: find_key_Some_in_set)
  then show ?thesis using assms
    by (simp add: drm_mode_getcrtc_def with_lock_free idr_find_crtc_def getcrtc_outputs_mask)
qed

text \<open>
  C32: once its checks pass, drm_mode_replacefb returns exactly when every CRTC has a framebuffer and every CRTC on the replaced framebuffer has mode_set_base: a CRTC without a framebuffer is a NULL dereference.
\<close>

theorem drm_mode_replacefb_null_fb:
  assumes "\<not> mutex_held s" and "objs (fbc_handle r) = Some True"
    and "crtc_idr s fid = Some DRM_OBJ_FB" and "lookup_fb s fid = Some fb" and "fid \<in> set fbs"
  shows "drm_mode_replacefb drv objs fid r fbs s \<noteq> None \<longleftrightarrow>
    (\<forall>c \<in> set (crtc_list s). crtc_fb c \<noteq> None \<and> (crtc_fb c = Some fid \<longrightarrow> drv_has_mode_set_base drv (crtc_id c)))"
proof -
  have "fb_id fb = fid" using assms(4) unfolding lookup_fb_def by (auto dest: find_key_Some_in_set)
  then show ?thesis using assms
    by (simp add: drm_mode_replacefb_def with_lock_free idr_find_fb_def drm_get_buffer_object_def
        replacefb_rebase_Some_iff del: replacefb_rebase.simps)
qed

text \<open>
  C33: drm_mode_setcrtc with a mode and no outputs returns -EINVAL after the new mode has taken an identifier, which is never put back: the state returned is the state after the allocation.
\<close>

theorem drm_mode_setcrtc_mode_leak:
  assumes "\<not> mutex_held s" and "crtc_idr s (req_crtc_id req) = Some DRM_OBJ_CRTC"
    and "lookup_crtc s (req_crtc_id req) = Some crtc" and "req_mode_valid req"
    and "req_fb_id req = - 1" and "req_count_outputs req = 0"
  shows "drm_mode_setcrtc drv uok req s = Some (Inl EINVAL, snd (mc_idr_get DRM_OBJ_MODE s))"
  using assms
  by (simp add: drm_mode_setcrtc_def with_lock_free setcrtc_locked_def idr_find_crtc_def setcrtc_fb_def
      drm_mode_create_def mc_idr_get_lock mutex_unlock_def split: prod.splits)

text \<open>
  C34: when every identifier of the registry is taken, drm_mode_addfb still reports success, with the identifier 0, and the framebuffer it adds under 0 breaks the store invariant.
\<close>

theorem drm_mode_addfb_exhausted:
  assumes nl: "\<not> mutex_held s"
    and lim: "fbc_width r \<le> word_of_int (max_width s)" "word_of_int (min_width s) \<le> fbc_width r"
             "fbc_height r \<le> word_of_int (max_height s)" "word_of_int (min_height s) \<le> fbc_height r"
    and bo: "objs (fbc_handle r) = Some True"
    and full: "\<forall>j. 1 \<le> j \<and> j \<le> MAX_ID_MASK \<longrightarrow> crtc_idr s j \<noteq> None" and z: "crtc_idr s 0 = None"
  shows "\<exists>s'. drm_mode_addfb objs r fbs s = Some ((Inr 0, 0 # fbs), s') \<and> lookup_fb s' 0 \<noteq> None \<and> \<not> mc_inv s'"
proof -
  let ?l = "s\<lparr>mutex_held := True\<rparr>"
  have g: "mc_idr_get DRM_OBJ_FB ?l = (0, ?l)" using full by (intro mc_idr_get_full) simp
  then show ?thesis using lim bo nl z
    by (simp add: drm_mode_addfb_def with_lock_free drm_get_buffer_object_def not_less
        drm_framebuffer_create_def lookup_fb_def mutex_unlock_def mc_inv_def ids_registered_def)
qed

text \<open>
  C35: drm_mode_getoutput with count_modes = 0 probes the output but reports the number of modes it had before the probe, and copies none.
\<close>

theorem drm_mode_getoutput_stale_count:
  assumes nl: "\<not> mutex_held s" and reg: "crtc_idr s oid = Some DRM_OBJ_OUTPUT"
    and lk: "lookup_output s oid = Some out"
  shows "\<exists>r s'. drm_mode_getoutput drv oid 0 0 uok s = Some (Inr r, s') \<and>
    oreply_count_modes r = length (modes out) \<and> oreply_modes r = [] \<and>
    lookup_output s' oid = Some (fst (probe_output drv (max_width s) (max_height s) out s))"
proof -
  let ?l = "s\<lparr>mutex_held := True\<rparr>"
  obtain s1 where p: "drm_crtc_probe_single_output_modes drv (max_width s) (max_height s) oid ?l = Some s1"
    and l1: "lookup_output s1 oid = Some (fst (probe_output drv (max_width s) (max_height s) out ?l))"
    using probe_single_lookup [of ?l oid out drv "max_width s" "max_height s"] lk by auto
  show ?thesis using nl reg lk p l1
    by (simp add: drm_mode_getoutput_def with_lock_free idr_find_output_def getoutput_reply_def
        probe_output_lock mutex_unlock_def Let_def)
qed

subsection \<open>Blobs\<close>

text \<open>
  The two calls of the blob protocol: a query with a length that is not the blob's
  gives the length and no bytes; the query with that length gives the bytes the blob
  was created with. The device is unchanged.
\<close>

lemma drm_mode_getblob_two_calls:
  assumes nl: "\<not> mutex_held s" and reg: "crtc_idr s bid = Some DRM_OBJ_BLOB"
    and b: "lookup_blob s bid = Some b" and len: "len \<noteq> blob_length b"
  shows "drm_mode_getblob_ioctl bid len uok s =
           Some (Inr \<lparr>blob_reply_length = blob_length b, blob_reply_data = None\<rparr>, s) \<and>
         drm_mode_getblob_ioctl bid (blob_length b) True s =
           Some (Inr \<lparr>blob_reply_length = blob_length b, blob_reply_data = Some (blob_data b)\<rparr>, s)"
proof -
  have lk: "lookup_blob (s\<lparr>mutex_held := True\<rparr>) = lookup_blob s"
    by (simp add: lookup_blob_def fun_eq_iff)
  have "mutex_unlock (s\<lparr>mutex_held := True\<rparr>) = s" using nl by (simp add: mutex_unlock_def)
  then show ?thesis using reg b len lk nl
    by (simp add: drm_mode_getblob_ioctl_def with_lock_free idr_find_blob_def)
qed

end
