(* ===== verification/DRM_Config.thy ===== *)
theory DRM_Config
  imports DRM_SetMode DRM_PickCrtcs DRM_Probe DRM_Property
begin

text \<open>
  The device-level sequences of \<^verbatim>\<open>drm_crtc.c\<close> that compose the prober, the
  assignment engine and the mode-apply protocol: \<^verbatim>\<open>drm_initial_config\<close>,
  \<^verbatim>\<open>drm_hotplug_stage_two\<close> with \<^verbatim>\<open>drm_mode_hotplug_ioctl\<close>, and
  \<^verbatim>\<open>drm_mode_config_cleanup\<close>. The device driver's framebuffer hooks
  (\<^verbatim>\<open>dev->driver->fb_probe\<close>, \<^verbatim>\<open>fb_resize\<close>, \<^verbatim>\<open>fb_remove\<close>) are code of the driver, not
  of this file: they are given as state transformers, and the lemmas that need them to
  be well behaved say so in a hypothesis. An output or CRTC pointer is an identifier;
  following one that names no object of the device is a fault.
\<close>

section \<open>Definitions\<close>

text \<open>The device driver's framebuffer hooks, called on a CRTC (and an output).\<close>

record drm_fb_hooks =
  hook_fb_probe :: "nat \<Rightarrow> nat \<Rightarrow> drm_mode_config \<Rightarrow> drm_mode_config"
  hook_fb_resize :: "nat \<Rightarrow> drm_mode_config \<Rightarrow> drm_mode_config"
  hook_fb_remove :: "nat \<Rightarrow> drm_mode_config \<Rightarrow> drm_mode_config"

text \<open>
  \<^verbatim>\<open>output->crtc && output->crtc->desired_mode\<close>: the output's CRTC and the mode the
  assignment engine chose for it, if both are set; a binding to a CRTC the device does
  not have, or an output that is not there, is a dangling pointer.
\<close>

definition output_config :: "drm_mode_config \<Rightarrow> nat \<Rightarrow> (nat \<times> drm_display_mode) option faulting" where
  "output_config s oid =
     (case lookup_output s oid of
        None \<Rightarrow> None
      | Some out \<Rightarrow>
          (case output_crtc out of
             None \<Rightarrow> Some None
           | Some c \<Rightarrow>
               (case lookup_crtc s c of
                  None \<Rightarrow> None
                | Some crtc \<Rightarrow> Some (map_option (\<lambda>m. (c, m)) (crtc_desired_mode crtc)))))"

subsection \<open>\<^verbatim>\<open>drm_initial_config\<close>\<close>

text \<open>
  One pass of the loop over the outputs: an output with a CRTC and a desired mode gets a
  framebuffer from \<^verbatim>\<open>fb_probe\<close>, and, if the CRTC then has a framebuffer, its desired
  mode is applied at the origin. The result of \<^verbatim>\<open>drm_crtc_set_mode\<close> is ignored.
\<close>

definition initial_config_step :: "drm_driver \<Rightarrow> drm_fb_hooks \<Rightarrow> nat \<Rightarrow> drm_mode_config \<Rightarrow>
    drm_mode_config faulting" where
  "initial_config_step drv hk oid s =
     (case output_config s oid of
        None \<Rightarrow> None
      | Some None \<Rightarrow> Some s
      | Some (Some (c, m)) \<Rightarrow>
          (let s1 = hook_fb_probe hk c oid s
           in case lookup_crtc s1 c of
                None \<Rightarrow> None
              | Some crtc \<Rightarrow>
                  if crtc_fb crtc = None then Some s1
                  else (case crtc_desired_mode crtc of
                          None \<Rightarrow> None
                        | Some dm \<Rightarrow> map_option snd (drm_crtc_set_mode drv c dm 0 0 s1))))"

fun initial_config_loop :: "drm_driver \<Rightarrow> drm_fb_hooks \<Rightarrow> nat list \<Rightarrow> drm_mode_config \<Rightarrow>
    drm_mode_config faulting" where
  "initial_config_loop drv hk [] s = Some s"
| "initial_config_loop drv hk (oid # oids) s =
     (case initial_config_step drv hk oid s of
        None \<Rightarrow> None
      | Some s1 \<Rightarrow> initial_config_loop drv hk oids s1)"

text \<open>
  The whole function: probe every output at 2048x2048, assign CRTCs, run the loop, power
  off what is unused. \<open>ret\<close> is initialised to \<open>false\<close> and never assigned: the
  function returns \<open>false\<close> on every path. \<open>can_grow\<close> is not read.
\<close>

definition drm_initial_config :: "drm_driver \<Rightarrow> drm_fb_hooks \<Rightarrow> bool \<Rightarrow> drm_mode_config \<Rightarrow>
    (bool \<times> drm_mode_config) faulting" where
  "drm_initial_config drv hk can_grow s =
     (case mutex_lock s of
        None \<Rightarrow> None
      | Some s1 \<Rightarrow>
          (let s2 = drm_pick_crtcs (drm_crtc_probe_output_modes drv 2048 2048 s1)
           in case initial_config_loop drv hk (map output_id (output_list s2)) s2 of
                None \<Rightarrow> None
              | Some s3 \<Rightarrow> Some (False, mutex_unlock (drm_disable_unused_functions s3))))"

subsection \<open>Hotplug\<close>

text \<open>
  \<^verbatim>\<open>drm_hotplug_stage_two\<close>, called with the lock held: count the event; for a
  connection, re-probe every output, re-assign unless the output already had a
  configuration, and then either let the driver create a framebuffer (new configuration)
  or resize it and re-apply the desired mode (existing one). Returns 1 when the output
  ends without a CRTC or mode. \<^verbatim>\<open>drm_sysfs_hotplug_event\<close> notifies user space and
  changes no state of the model.
\<close>

definition drm_hotplug_stage_two :: "drm_driver \<Rightarrow> drm_fb_hooks \<Rightarrow> nat \<Rightarrow> bool \<Rightarrow> drm_mode_config \<Rightarrow>
    (nat \<times> drm_mode_config) faulting" where
  "drm_hotplug_stage_two drv hk oid connected s =
     (let s0 = s\<lparr>hotplug_counter := Suc (hotplug_counter s)\<rparr>
      in if \<not> connected then Some (0, s0)
         else (case output_config s0 oid of
                 None \<Rightarrow> None
               | Some cfg \<Rightarrow>
                   (let s1 = drm_crtc_probe_output_modes drv 2048 2048 s0;
                        s2 = (if cfg = None then drm_pick_crtcs s1 else s1)
                    in case output_config s2 oid of
                         None \<Rightarrow> None
                       | Some None \<Rightarrow> Some (1, s2)
                       | Some (Some (c, m)) \<Rightarrow>
                           if cfg = None
                           then Some (0, drm_disable_unused_functions (hook_fb_probe hk c oid s2))
                           else (case drm_crtc_set_mode drv c m 0 0 (hook_fb_resize hk c s2) of
                                   None \<Rightarrow> None
                                 | Some (_, s3) \<Rightarrow> Some (0, drm_disable_unused_functions s3)))))"

text \<open>\<^verbatim>\<open>drm_mode_hotplug_ioctl\<close> reports the counter, without the lock.\<close>

definition drm_mode_hotplug_ioctl :: "drm_mode_config \<Rightarrow> nat \<times> drm_mode_config" where
  "drm_mode_hotplug_ioctl s = (hotplug_counter s, s)"

subsection \<open>\<^verbatim>\<open>drm_mode_config_cleanup\<close>\<close>

fun cleanup_outputs :: "drm_driver \<Rightarrow> nat list \<Rightarrow> drm_mode_config \<Rightarrow> drm_mode_config faulting" where
  "cleanup_outputs drv [] s = Some s"
| "cleanup_outputs drv (oid # oids) s =
     (case drm_output_destroy drv oid s of
        None \<Rightarrow> None
      | Some s1 \<Rightarrow> cleanup_outputs drv oids s1)"

text \<open>
  The teardown, documented as called with the lock held: destroy every output (its
  modes are unlinked and freed with \<^verbatim>\<open>drm_mode_remove\<close>, which releases no
  identifier; \<open>drm_output_destroy\<close> empties the three lists), every
  property, every framebuffer (a framebuffer on a kernel buffer object goes to the
  driver's \<^verbatim>\<open>fb_remove\<close> instead), and every CRTC. \<open>kernel_bo\<close> says which buffer
  objects are of kernel type.
\<close>

definition drm_mode_config_cleanup :: "drm_driver \<Rightarrow> drm_fb_hooks \<Rightarrow> (nat \<Rightarrow> bool) \<Rightarrow> drm_mode_config \<Rightarrow>
    drm_mode_config faulting" where
  "drm_mode_config_cleanup drv hk kernel_bo s =
     (case cleanup_outputs drv (map output_id (output_list s)) s of
        None \<Rightarrow> None
      | Some s1 \<Rightarrow>
          (let s2 = fold drm_property_destroy (map prop_id (property_list s1)) s1;
               s3 = fold (\<lambda>fb s. if kernel_bo (fb_bo fb) then hook_fb_remove hk (fb_id fb) s
                                 else drm_framebuffer_destroy (fb_id fb) s) (fb_list s2) s2
           in Some (fold (drm_crtc_destroy drv) (map crtc_id (crtc_list s3)) s3)))"

subsection \<open>What the lemmas ask of the driver's hooks\<close>

text \<open>
  The CRTCs as the loop of \<^verbatim>\<open>drm_initial_config\<close> sees them: identifiers with their
  desired modes. A well-behaved \<^verbatim>\<open>fb_probe\<close> attaches a framebuffer and leaves the
  outputs and this shape alone; well-behaved hooks leave the hotplug counter alone; a
  well-behaved \<^verbatim>\<open>fb_remove\<close> keeps the CRTCs and outputs.
\<close>

definition crtc_shape :: "drm_mode_config \<Rightarrow> (nat \<times> drm_display_mode option) list" where
  "crtc_shape s = map (\<lambda>c. (crtc_id c, crtc_desired_mode c)) (crtc_list s)"

definition fb_probe_keeps :: "drm_fb_hooks \<Rightarrow> bool" where
  "fb_probe_keeps hk \<longleftrightarrow>
     (\<forall>c oid s. output_list (hook_fb_probe hk c oid s) = output_list s \<and>
                crtc_shape (hook_fb_probe hk c oid s) = crtc_shape s)"

definition hooks_keep_counter :: "drm_fb_hooks \<Rightarrow> bool" where
  "hooks_keep_counter hk \<longleftrightarrow>
     (\<forall>c oid s. hotplug_counter (hook_fb_probe hk c oid s) = hotplug_counter s) \<and>
     (\<forall>c s. hotplug_counter (hook_fb_resize hk c s) = hotplug_counter s)"

definition fb_remove_keeps :: "drm_fb_hooks \<Rightarrow> bool" where
  "fb_remove_keeps hk \<longleftrightarrow>
     (\<forall>f s. map crtc_id (crtc_list (hook_fb_remove hk f s)) = map crtc_id (crtc_list s) \<and>
            output_list (hook_fb_remove hk f s) = output_list s)"

section \<open>Lemmas\<close>

lemma crtc_shape_update_crtc:
  assumes "\<And>r. crtc_id (f r) = crtc_id r \<and> crtc_desired_mode (f r) = crtc_desired_mode r"
  shows "crtc_shape (update_crtc c f s) = crtc_shape s"
  using assms by (simp add: crtc_shape_def map_map_at_frame)

lemma crtc_shape_ids: "map crtc_id (crtc_list s) = map fst (crtc_shape s)"
  by (simp add: crtc_shape_def)

lemma lookup_crtc_shape:
  assumes "lookup_crtc s c = Some r" and "crtc_shape s' = crtc_shape s"
  shows "\<exists>r'. lookup_crtc s' c = Some r' \<and> crtc_desired_mode r' = crtc_desired_mode r"
proof -
  have m: "map_option (\<lambda>c. (crtc_id c, crtc_desired_mode c)) (lookup_crtc t c) =
      find (\<lambda>p. fst p = c) (crtc_shape t)" for t
    by (simp add: lookup_crtc_def crtc_shape_def find_map_option comp_def)
  then have "map_option (\<lambda>c. (crtc_id c, crtc_desired_mode c)) (lookup_crtc s' c) =
      Some (crtc_id r, crtc_desired_mode r)"
    using m [of s] assms by simp
  then show ?thesis by (cases "lookup_crtc s' c") auto
qed

lemma set_mode_keeps:
  assumes "drm_crtc_set_mode drv c m x y s = Some (b, s')"
  shows "output_list s' = output_list s \<and> crtc_shape s' = crtc_shape s \<and> hotplug_counter s' = hotplug_counter s"
  using assms
  by (auto simp: drm_crtc_set_mode_def set_mode_apply_def restore_crtc_def drm_mode_duplicate_def
      drm_mode_create_def drm_mode_destroy_def mc_idr_put_def log_hw_def crtc_shape_def update_crtc_def
      map_map_at_frame mc_idr_get_def Let_def split: option.splits prod.splits if_splits bool.splits)

lemma set_mode_total:
  assumes "\<forall>c. drv_has_mode_set_base drv c" and "lookup_crtc s c \<noteq> None"
  shows "\<exists>r. drm_crtc_set_mode drv c m x y s = Some r"
  using assms
  by (auto simp: drm_crtc_set_mode_def set_mode_apply_def Let_def split: option.splits prod.splits bool.splits)

lemma initial_config_step_total:
  assumes base: "\<forall>c. drv_has_mode_set_base drv c" and hk: "fb_probe_keeps hk"
    and oid: "oid \<in> output_id ` set (output_list s)"
    and live: "\<forall>out \<in> set (output_list s). \<forall>c. output_crtc out = Some c \<longrightarrow> c \<in> crtc_id ` set (crtc_list s)"
  shows "\<exists>s'. initial_config_step drv hk oid s = Some s' \<and> output_list s' = output_list s \<and>
    crtc_shape s' = crtc_shape s"
proof -
  obtain out where lo: "lookup_output s oid = Some out" and "output_id out = oid"
    using lookup_output_exists [OF oid] by blast
  then have out_in: "out \<in> set (output_list s)"
    unfolding lookup_output_def by (auto dest: find_key_Some_in_set)
  show ?thesis
  proof (cases "output_crtc out")
    case None
    then show ?thesis using lo by (simp add: initial_config_step_def output_config_def)
  next
    case (Some c)
    then obtain crtc where lc: "lookup_crtc s c = Some crtc"
      using live out_in lookup_crtc_exists by blast
    show ?thesis
    proof (cases "crtc_desired_mode crtc")
      case None
      then show ?thesis using lo lc Some by (simp add: initial_config_step_def output_config_def)
    next
      case (Some m)
      let ?s1 = "hook_fb_probe hk c oid s"
      have k1: "output_list ?s1 = output_list s" "crtc_shape ?s1 = crtc_shape s"
        using hk by (simp_all add: fb_probe_keeps_def)
      obtain crtc1 where lc1: "lookup_crtc ?s1 c = Some crtc1"
        and d1: "crtc_desired_mode crtc1 = Some m"
        using lookup_crtc_shape [OF lc k1(2)] Some by auto
      obtain b s2 where sm: "drm_crtc_set_mode drv c m 0 0 ?s1 = Some (b, s2)"
        using set_mode_total [OF base, of ?s1 c m 0 0] lc1 by auto
      have "output_list s2 = output_list s \<and> crtc_shape s2 = crtc_shape s"
        using set_mode_keeps [OF sm] k1 by simp
      then show ?thesis using lo lc Some \<open>output_crtc out = Some c\<close> lc1 d1 sm k1
        by (cases "crtc_fb crtc1") (simp_all add: initial_config_step_def output_config_def Let_def)
    qed
  qed
qed

lemma initial_config_loop_total:
  assumes base: "\<forall>c. drv_has_mode_set_base drv c" and hk: "fb_probe_keeps hk"
    and oids: "set oids \<subseteq> output_id ` set (output_list s)"
    and live: "\<forall>out \<in> set (output_list s). \<forall>c. output_crtc out = Some c \<longrightarrow> c \<in> crtc_id ` set (crtc_list s)"
  shows "\<exists>s'. initial_config_loop drv hk oids s = Some s'"
  using oids live
proof (induction oids arbitrary: s)
  case Nil
  then show ?case by simp
next
  case (Cons oid oids)
  obtain s1 where st: "initial_config_step drv hk oid s = Some s1" and o1: "output_list s1 = output_list s"
    and c1: "crtc_shape s1 = crtc_shape s"
    using initial_config_step_total [OF base hk _ Cons.prems(2)] Cons.prems(1) by auto
  have "crtc_id ` set (crtc_list s1) = crtc_id ` set (crtc_list s)"
    using arg_cong [OF c1, of "\<lambda>l. fst ` set l"] crtc_shape_ids [of s] crtc_shape_ids [of s1]
    by (metis list.set_map)
  then have "\<exists>s'. initial_config_loop drv hk oids s1 = Some s'"
    using Cons.IH [of s1] Cons.prems o1 by simp
  then show ?case using st by simp
qed

text \<open>
  C36: with the lock free, distinct output identifiers, a driver that has
  \<^verbatim>\<open>mode_set_base\<close> and an \<^verbatim>\<open>fb_probe\<close> that keeps the outputs and the CRTCs'
  desired modes, \<^verbatim>\<open>drm_initial_config\<close> returns (it neither faults nor dead-locks),
  releases the lock, and reports \<open>false\<close>, which is also its return value on success.
\<close>

theorem drm_initial_config_returns:
  assumes nl: "\<not> mutex_held s" and d: "distinct (map output_id (output_list s))"
    and base: "\<forall>c. drv_has_mode_set_base drv c" and hk: "fb_probe_keeps hk"
  shows "\<exists>s'. drm_initial_config drv hk can_grow s = Some (False, s') \<and> \<not> mutex_held s'"
proof -
  let ?s1 = "drm_crtc_probe_output_modes drv 2048 2048 (s\<lparr>mutex_held := True\<rparr>)"
  let ?s2 = "drm_pick_crtcs ?s1"
  have d1: "distinct (map output_id (output_list ?s1))"
    using d by (simp add: probe_output_modes_keeps)
  have live: "\<forall>out \<in> set (output_list ?s2). \<forall>c. output_crtc out = Some c \<longrightarrow> c \<in> crtc_id ` set (crtc_list ?s2)"
    using drm_pick_crtcs_bindings_live [OF d1] by blast
  obtain s3 where "initial_config_loop drv hk (map output_id (output_list ?s2)) ?s2 = Some s3"
    using initial_config_loop_total [OF base hk _ live, of "map output_id (output_list ?s2)"] by auto
  then show ?thesis using nl by (simp add: drm_initial_config_def mutex_unlock_def)
qed

lemma disable_unused_counter [simp]:
  "hotplug_counter (drm_disable_unused_functions s) = hotplug_counter s"
  by (simp add: drm_disable_unused_functions_def log_hw_def)

text \<open>
  C37: the hotplug counter is monotonic: after every call of \<^verbatim>\<open>drm_hotplug_stage_two\<close>
  that returns, connected or not, \<^verbatim>\<open>drm_mode_hotplug_ioctl\<close> reports exactly one more than
  before, when the driver's hooks leave the counter alone.
\<close>

theorem drm_hotplug_counter:
  assumes hk: "hooks_keep_counter hk" and run: "drm_hotplug_stage_two drv hk oid connected s = Some (r, s')"
  shows "fst (drm_mode_hotplug_ioctl s') = Suc (fst (drm_mode_hotplug_ioctl s))"
proof -
  have p: "hotplug_counter (hook_fb_probe hk c oi t) = hotplug_counter t"
    and z: "hotplug_counter (hook_fb_resize hk c t) = hotplug_counter t" for c oi t
    using hk by (simp_all add: hooks_keep_counter_def)
  have sm: "drm_crtc_set_mode drv c m 0 0 t = Some (b, t') \<Longrightarrow> hotplug_counter t' = hotplug_counter t" for c m t b t'
    using set_mode_keeps by blast
  show ?thesis using run p z sm
    by (auto simp: drm_hotplug_stage_two_def drm_mode_hotplug_ioctl_def probe_output_modes_keeps Let_def
        split: if_splits option.splits prod.splits)
qed

lemma output_destroy_held:
  "mutex_held s \<Longrightarrow> drm_output_destroy drv oid s = None"
  by (simp add: drm_output_destroy_def mutex_lock_def update_output_def log_hw_def Let_def)

lemma output_destroy_head:
  assumes "output_list s = x # xs" "output_id x \<notin> output_id ` set xs" "\<not> mutex_held s"
  shows "\<exists>s'. drm_output_destroy drv (output_id x) s = Some s' \<and> output_list s' = xs \<and>
    \<not> mutex_held s' \<and> crtc_list s' = crtc_list s"
proof -
  have "map_at (\<lambda>y. output_id y = output_id x) f xs = xs" for f
    using assms(2) by (intro map_at_ident) (auto simp: image_iff)
  then show ?thesis using assms
    by (simp add: drm_output_destroy_def mutex_lock_def mutex_unlock_def update_output_def log_hw_def
        mc_idr_put_def Let_def)
qed

lemma cleanup_outputs_all:
  assumes "output_list s = outs" "distinct (map output_id outs)" "\<not> mutex_held s"
  shows "\<exists>s'. cleanup_outputs drv (map output_id outs) s = Some s' \<and> output_list s' = [] \<and>
    \<not> mutex_held s' \<and> crtc_list s' = crtc_list s"
  using assms
proof (induction outs arbitrary: s)
  case Nil
  then show ?case by simp
next
  case (Cons x xs)
  then obtain s1 where d: "drm_output_destroy drv (output_id x) s = Some s1" "output_list s1 = xs"
    "\<not> mutex_held s1" "crtc_list s1 = crtc_list s"
    using output_destroy_head [of s x xs drv] by auto
  then show ?case using Cons.IH [of s1] Cons.prems by auto
qed

lemma crtc_destroy_all:
  assumes "crtc_list s = crs" "distinct (map crtc_id crs)"
  shows "crtc_list (fold (drm_crtc_destroy drv) (map crtc_id crs) s) = []"
  using assms
proof (induction crs arbitrary: s)
  case Nil
  then show ?case by simp
next
  case (Cons x xs)
  have "crtc_list (drm_crtc_destroy drv (crtc_id x) s) = xs"
    using Cons.prems by (simp add: drm_crtc_destroy_def mc_idr_put_def log_hw_def Let_def)
  then show ?case using Cons.IH Cons.prems by simp
qed

lemma cleanup_fbs_crtc_ids:
  assumes "fb_remove_keeps hk"
  shows "map crtc_id (crtc_list (fold (\<lambda>fb s. if kernel_bo (fb_bo fb) then hook_fb_remove hk (fb_id fb) s
                                     else drm_framebuffer_destroy (fb_id fb) s) fbs t)) = map crtc_id (crtc_list t) \<and>
    output_list (fold (\<lambda>fb s. if kernel_bo (fb_bo fb) then hook_fb_remove hk (fb_id fb) s
                                     else drm_framebuffer_destroy (fb_id fb) s) fbs t) = output_list t"
  using assms
  by (induction fbs arbitrary: t)
     (simp_all add: fb_remove_keeps_def drm_framebuffer_destroy_fields map_map_at_frame)

lemma cleanup_props_keeps [simp]:
  "crtc_list (fold drm_property_destroy pids t) = crtc_list t"
  "output_list (fold drm_property_destroy pids t) = output_list t"
  by (induction pids arbitrary: t) (simp_all add: drm_property_destroy_def mc_idr_put_def)

lemma crtc_destroy_outputs [simp]:
  "output_list (fold (drm_crtc_destroy drv) cids t) = output_list t"
  by (induction cids arbitrary: t) (simp_all add: drm_crtc_destroy_def mc_idr_put_def log_hw_def Let_def)

text \<open>
  C38: \<^verbatim>\<open>drm_mode_config_cleanup\<close>, documented as called with the lock held, dead-locks
  on a device with an output, since \<^verbatim>\<open>drm_output_destroy\<close> takes the lock itself;
  it returns exactly when the lock is free, and then no output and no CRTC is left.
\<close>

theorem drm_mode_config_cleanup_lock:
  assumes ne: "output_list s \<noteq> []" and d: "distinct (map output_id (output_list s))"
    and dc: "distinct (map crtc_id (crtc_list s))" and hk: "fb_remove_keeps hk"
  shows "(drm_mode_config_cleanup drv hk kernel_bo s = None \<longleftrightarrow> mutex_held s) \<and>
    (\<forall>s'. drm_mode_config_cleanup drv hk kernel_bo s = Some s' \<longrightarrow> output_list s' = [] \<and> crtc_list s' = [])"
proof (cases "mutex_held s")
  case True
  obtain x xs where "output_list s = x # xs" using ne by (cases "output_list s") auto
  then show ?thesis using True
    by (simp add: drm_mode_config_cleanup_def output_destroy_held)
next
  case False
  obtain s1 where c1: "cleanup_outputs drv (map output_id (output_list s)) s = Some s1"
    "output_list s1 = []" "crtc_list s1 = crtc_list s"
    using cleanup_outputs_all [OF refl d False] by blast
  let ?s2 = "fold drm_property_destroy (map prop_id (property_list s1)) s1"
  let ?s3 = "fold (\<lambda>fb s. if kernel_bo (fb_bo fb) then hook_fb_remove hk (fb_id fb) s
                           else drm_framebuffer_destroy (fb_id fb) s) (fb_list ?s2) ?s2"
  have f3: "map crtc_id (crtc_list ?s3) = map crtc_id (crtc_list s) \<and> output_list ?s3 = []"
    using cleanup_fbs_crtc_ids [OF hk, of kernel_bo "fb_list ?s2" ?s2] c1 by simp
  then have "crtc_list (fold (drm_crtc_destroy drv) (map crtc_id (crtc_list ?s3)) ?s3) = []"
    using crtc_destroy_all [OF refl, of ?s3 drv] dc by simp
  moreover have "output_list (fold (drm_crtc_destroy drv) (map crtc_id (crtc_list ?s3)) ?s3) = []"
    using f3 by simp
  ultimately show ?thesis using c1 False by (simp add: drm_mode_config_cleanup_def Let_def)
qed

end
