(* ===== verification/DRM_Cursor.thy ===== *)
theory DRM_Cursor
  imports DRM_Ioctl
begin

text \<open>
  \<^verbatim>\<open>drm_mode_cursor_ioctl\<close>: the hardware cursor of a CRTC. The request's flags select
  a new cursor image (\<^verbatim>\<open>DRM_MODE_CURSOR_BO\<close>, the buffer object of a handle, or none
  for handle 0) and a move (\<^verbatim>\<open>DRM_MODE_CURSOR_MOVE\<close>). The CRTC's optional
  \<^verbatim>\<open>cursor_set\<close> and \<^verbatim>\<open>cursor_move\<close> callbacks are a record of flags saying
  whether the pointer is set and of the driver's answers; a call is logged in
  \<open>hw_log\<close>. The two blocks share the variable \<^verbatim>\<open>ret\<close>: the answer of
  \<^verbatim>\<open>cursor_set\<close> is what the ioctl returns only when no move follows.
\<close>

section \<open>Definitions\<close>

text \<open>The flag values of \<^verbatim>\<open>drm_mode.h\<close>.\<close>

definition DRM_MODE_CURSOR_BO :: "32 word" where "DRM_MODE_CURSOR_BO = 1"
definition DRM_MODE_CURSOR_MOVE :: "32 word" where "DRM_MODE_CURSOR_MOVE = 2"

text \<open>\<^verbatim>\<open>struct drm_mode_cursor\<close>.\<close>

record cursor_req =
  cursor_flags :: "32 word"
  cursor_crtc :: nat
  cursor_x :: int
  cursor_y :: int
  cursor_width :: "32 word"
  cursor_height :: "32 word"
  cursor_handle :: nat

text \<open>The CRTC's cursor callbacks of \<^verbatim>\<open>struct drm_crtc_funcs\<close>, both optional.\<close>

record drm_cursor_funcs =
  drv_has_cursor_set :: "nat \<Rightarrow> bool"
  drv_cursor_set :: "nat \<Rightarrow> nat option \<Rightarrow> 32 word \<Rightarrow> 32 word \<Rightarrow> unit drm_result"
  drv_has_cursor_move :: "nat \<Rightarrow> bool"
  drv_cursor_move :: "nat \<Rightarrow> int \<Rightarrow> int \<Rightarrow> unit drm_result"

text \<open>
  The buffer object of the request: none for handle 0 (\<^verbatim>\<open>bo = NULL\<close>, the cursor is
  turned off), else the lookup, whose failure the caller turns into \<^verbatim>\<open>-EINVAL\<close>.
\<close>

definition cursor_bo :: "user_objects \<Rightarrow> nat \<Rightarrow> nat option drm_result" where
  "cursor_bo objs h =
     (if h = 0 then Inr None
      else (case drm_get_buffer_object objs h of
              Inl e \<Rightarrow> Inl e
            | Inr b \<Rightarrow> Inr (Some b)))"

text \<open>The move block, given the value of \<^verbatim>\<open>ret\<close> so far.\<close>

definition cursor_move_step :: "drm_cursor_funcs \<Rightarrow> cursor_req \<Rightarrow> nat \<Rightarrow> unit drm_result \<Rightarrow>
    drm_mode_config \<Rightarrow> unit drm_result \<times> drm_mode_config" where
  "cursor_move_step cf req c ret s =
     (if cursor_flags req AND DRM_MODE_CURSOR_MOVE = 0 then (ret, s)
      else if drv_has_cursor_move cf c
      then (drv_cursor_move cf c (cursor_x req) (cursor_y req),
            log_hw [CrtcCursorMove c (cursor_x req) (cursor_y req)] s)
      else (Inl EFAULT, s))"

text \<open>The body under the lock, once the CRTC \<open>c\<close> is found.\<close>

definition cursor_locked :: "drm_cursor_funcs \<Rightarrow> user_objects \<Rightarrow> cursor_req \<Rightarrow> nat \<Rightarrow>
    drm_mode_config \<Rightarrow> unit drm_result \<times> drm_mode_config" where
  "cursor_locked cf objs req c s =
     (if cursor_flags req AND DRM_MODE_CURSOR_BO = 0 then cursor_move_step cf req c (Inr ()) s
      else (case cursor_bo objs (cursor_handle req) of
              Inl _ \<Rightarrow> (Inl EINVAL, s)
            | Inr bo \<Rightarrow>
                if drv_has_cursor_set cf c
                then cursor_move_step cf req c
                       (drv_cursor_set cf c bo (cursor_width req) (cursor_height req))
                       (log_hw [CrtcCursorSet c bo (cursor_width req) (cursor_height req)] s)
                else (Inl EFAULT, s)))"

definition drm_mode_cursor_ioctl :: "drm_cursor_funcs \<Rightarrow> user_objects \<Rightarrow> cursor_req \<Rightarrow>
    drm_mode_config \<Rightarrow> (unit drm_result \<times> drm_mode_config) faulting" where
  "drm_mode_cursor_ioctl cf objs req s =
     (if cursor_flags req = 0 then Some (Inl EINVAL, s)
      else with_lock (\<lambda>s1. case idr_find_crtc s1 (cursor_crtc req) of
                None \<Rightarrow> None
              | Some None \<Rightarrow> Some (Inl EINVAL, s1)
              | Some (Some crtc) \<Rightarrow> Some (cursor_locked cf objs req (crtc_id crtc) s1)) s)"

section \<open>Lemmas\<close>

lemma cursor_move_step_lock [simp]:
  "mutex_held (snd (cursor_move_step cf req c ret s)) = mutex_held s"
  by (simp add: cursor_move_step_def log_hw_def)

lemma cursor_locked_lock [simp]:
  "mutex_held (snd (cursor_locked cf objs req c s)) = mutex_held s"
  by (simp add: cursor_locked_def log_hw_def split: sum.split)

lemma drm_mode_cursor_ioctl_unlocks:
  "drm_mode_cursor_ioctl cf objs req s = Some (r, s') \<Longrightarrow> \<not> mutex_held s \<Longrightarrow> \<not> mutex_held s'"
  by (auto simp: drm_mode_cursor_ioctl_def with_lock_def mutex_lock_def mutex_unlock_def
      split: if_splits option.splits)

lemma drm_mode_cursor_ioctl_held:
  "mutex_held s \<Longrightarrow> cursor_flags req \<noteq> 0 \<Longrightarrow> drm_mode_cursor_ioctl cf objs req s = None"
  by (simp add: drm_mode_cursor_ioctl_def with_lock_def mutex_lock_def)

text \<open>
  C39: when a request sets both the image and the position, a \<^verbatim>\<open>cursor_set\<close> that
  fails is followed by the move anyway, and the move's success overwrites the error:
  the ioctl reports success with both calls made.
\<close>

theorem drm_mode_cursor_set_error_lost:
  assumes nl: "\<not> mutex_held s" and bo: "cursor_flags req AND DRM_MODE_CURSOR_BO \<noteq> 0"
    and mv: "cursor_flags req AND DRM_MODE_CURSOR_MOVE \<noteq> 0"
    and reg: "crtc_idr s (cursor_crtc req) = Some DRM_OBJ_CRTC"
    and cr: "lookup_crtc s (cursor_crtc req) = Some crtc"
    and h: "cursor_bo objs (cursor_handle req) = Inr b"
    and set: "drv_has_cursor_set cf (cursor_crtc req)"
      "drv_cursor_set cf (cursor_crtc req) b (cursor_width req) (cursor_height req) = Inl e"
    and move: "drv_has_cursor_move cf (cursor_crtc req)"
      "drv_cursor_move cf (cursor_crtc req) (cursor_x req) (cursor_y req) = Inr ()"
  shows "drm_mode_cursor_ioctl cf objs req s =
    Some (Inr (), log_hw [CrtcCursorSet (cursor_crtc req) b (cursor_width req) (cursor_height req),
                          CrtcCursorMove (cursor_crtc req) (cursor_x req) (cursor_y req)] s)"
proof -
  have id: "crtc_id crtc = cursor_crtc req" using lookup_crtc_in_set [OF cr] by simp
  have nz: "cursor_flags req \<noteq> 0" using bo by auto
  show ?thesis
    using nl bo mv reg cr h set move id nz
    by (simp add: drm_mode_cursor_ioctl_def with_lock_free idr_find_crtc_def cursor_locked_def
        cursor_move_step_def log_hw_def mutex_unlock_def)
qed

end
