(* ===== verification/DRM_Device.thy ===== *)
theory DRM_Device
  imports DRM_Config DRM_Cursor
begin

text \<open>
  The ioctls of the mode-setting core as one interface: a datatype of the requests a
  file can make (the \<^verbatim>\<open>DRM_IOCTL_MODE_*\<close> entries that reach \<^verbatim>\<open>drm_crtc.c\<close>, and
  the release of the file), a step function that dispatches a request to the entry
  point of its component, and the runs of one file as a step relation. The state of a
  run is the file's list of framebuffers with the device. The theorem of this theory
  is the lock discipline of the whole interface: on every path every entry point
  releases the device lock it took, so no run of a file leaves it held.
\<close>

section \<open>Definitions\<close>

datatype drm_file_op =
    IoGetResources nat nat nat bool
  | IoGetCrtc nat
  | IoSetCrtc bool crtc_req
  | IoCursor cursor_req
  | IoGetOutput nat nat nat bool
  | IoSetProperty nat nat "64 word"
  | IoGetProperty nat nat nat bool
  | IoGetBlob nat nat bool
  | IoAddFb fb_cmd
  | IoRmFb nat
  | IoGetFb nat
  | IoReplaceFb nat fb_cmd
  | IoAttachMode nat drm_mode_modeinfo
  | IoDetachMode nat drm_mode_modeinfo
  | IoHotplug
  | FileRelease

text \<open>What an ioctl copies back to user space.\<close>

datatype drm_reply =
    RNone | RRes card_res | RCrtc crtc_reply | ROutput output_reply | RProp prop_reply
  | RFbId nat | RFb fb_cmd | RCounter nat | RBlob blob_reply

text \<open>The driver's callbacks and the device's table of user objects.\<close>

record drm_env =
  env_drv :: drm_driver
  env_cursor :: drm_cursor_funcs
  env_objs :: user_objects

definition reply :: "('a \<Rightarrow> drm_reply) \<Rightarrow> ('a drm_result \<times> drm_mode_config) faulting \<Rightarrow> nat list \<Rightarrow>
    ((drm_reply drm_result \<times> nat list) \<times> drm_mode_config) faulting" where
  "reply f r fbs = map_option (\<lambda>(x, s'). ((map_sum id f x, fbs), s')) r"

primrec drm_file_step :: "drm_env \<Rightarrow> drm_file_op \<Rightarrow> nat list \<Rightarrow> drm_mode_config \<Rightarrow>
    ((drm_reply drm_result \<times> nat list) \<times> drm_mode_config) faulting" where
  "drm_file_step env (IoGetResources cf cc co uok) fbs s =
     reply RRes (drm_mode_getresources cf cc co uok s) fbs"
| "drm_file_step env (IoGetCrtc cid) fbs s = reply RCrtc (drm_mode_getcrtc cid s) fbs"
| "drm_file_step env (IoSetCrtc uok req) fbs s =
     reply (\<lambda>_. RNone) (drm_mode_setcrtc (env_drv env) uok req s) fbs"
| "drm_file_step env (IoCursor req) fbs s =
     reply (\<lambda>_. RNone) (drm_mode_cursor_ioctl (env_cursor env) (env_objs env) req s) fbs"
| "drm_file_step env (IoGetOutput oid cm cp uok) fbs s =
     reply ROutput (drm_mode_getoutput (env_drv env) oid cm cp uok s) fbs"
| "drm_file_step env (IoSetProperty oid pid v) fbs s =
     reply (\<lambda>_. RNone) (drm_mode_output_property_set_ioctl (env_drv env) oid pid v s) fbs"
| "drm_file_step env (IoGetProperty pid cv ce uok) fbs s =
     reply RProp (drm_mode_getproperty_ioctl pid cv ce uok s) fbs"
| "drm_file_step env (IoGetBlob bid len uok) fbs s = reply RBlob (drm_mode_getblob_ioctl bid len uok s) fbs"
| "drm_file_step env (IoAddFb r) fbs s =
     map_option (\<lambda>((x, fbs'), s'). ((map_sum id RFbId x, fbs'), s')) (drm_mode_addfb (env_objs env) r fbs s)"
| "drm_file_step env (IoRmFb fid) fbs s =
     map_option (\<lambda>((x, fbs'), s'). ((map_sum id (\<lambda>_. RNone) x, fbs'), s')) (drm_mode_rmfb fid fbs s)"
| "drm_file_step env (IoGetFb fid) fbs s = reply RFb (drm_mode_getfb fid s) fbs"
| "drm_file_step env (IoReplaceFb fid r) fbs s =
     reply (\<lambda>_. RNone) (drm_mode_replacefb (env_drv env) (env_objs env) fid r fbs s) fbs"
| "drm_file_step env (IoAttachMode oid u) fbs s = reply (\<lambda>_. RNone) (drm_mode_attachmode_ioctl oid u s) fbs"
| "drm_file_step env (IoDetachMode oid u) fbs s = reply (\<lambda>_. RNone) (drm_mode_detachmode_ioctl oid u s) fbs"
| "drm_file_step env IoHotplug fbs s =
     (let (n, s') = drm_mode_hotplug_ioctl s in Some ((Inr (RCounter n), fbs), s'))"
| "drm_file_step env FileRelease fbs s = map_option (\<lambda>s'. ((Inr RNone, []), s')) (drm_fb_release fbs s)"

text \<open>The runs of one file: every request that returns moves the run on.\<close>

inductive file_reach :: "drm_env \<Rightarrow> nat list \<times> drm_mode_config \<Rightarrow> nat list \<times> drm_mode_config \<Rightarrow> bool"
  for env :: drm_env where
  file_reach_refl: "file_reach env a a"
| file_reach_step: "file_reach env a (fbs, s) \<Longrightarrow> drm_file_step env op fbs s = Some ((r, fbs'), s') \<Longrightarrow>
    file_reach env a (fbs', s')"

section \<open>Lemmas\<close>

lemma with_lock_unlocks: "with_lock f s = Some (r, s') \<Longrightarrow> \<not> mutex_held s'"
  by (auto simp: with_lock_def mutex_unlock_def split: option.splits)

text \<open>The entry points written as a locked body.\<close>

lemmas locked_entry_defs = drm_mode_getresources_def drm_mode_getcrtc_def drm_mode_setcrtc_def
  drm_mode_getoutput_def drm_mode_rmfb_def drm_mode_getfb_def drm_mode_replacefb_def
  drm_mode_attachmode_ioctl_def drm_mode_detachmode_ioctl_def drm_mode_getblob_ioctl_def

lemma property_ioctls_unlock:
  "drm_mode_output_property_set_ioctl drv oid pid v s = Some (r, s') \<Longrightarrow> \<not> mutex_held s'"
  "drm_mode_getproperty_ioctl pid cv ce uok s = Some (q, s') \<Longrightarrow> \<not> mutex_held s'"
  by (auto simp: drm_mode_output_property_set_ioctl_def drm_mode_getproperty_ioctl_def mutex_unlock_def
      split: option.splits)

lemma addfb_unlocks:
  "drm_mode_addfb objs r fbs s = Some (x, s') \<Longrightarrow> \<not> mutex_held s \<Longrightarrow> \<not> mutex_held s'"
  unfolding drm_mode_addfb_def by (auto split: if_splits dest: with_lock_unlocks)

lemma fb_release_unlocks: "drm_fb_release fbs s = Some s' \<Longrightarrow> \<not> mutex_held s'"
  by (auto simp: drm_fb_release_def dest: with_lock_unlocks)

text \<open>Every request that returns leaves the lock as free as it found it.\<close>

lemma drm_file_step_unlocks:
  assumes "drm_file_step env op fbs s = Some ((r, fbs'), s')" and "\<not> mutex_held s"
  shows "\<not> mutex_held s'"
  using assms
proof (cases op)
  case (IoCursor req)
  then show ?thesis using assms
    by (auto simp: reply_def dest: drm_mode_cursor_ioctl_unlocks)
next
  case (IoSetProperty oid pid v)
  then show ?thesis using assms by (auto simp: reply_def dest: property_ioctls_unlock)
next
  case (IoGetProperty pid cv ce uok)
  then show ?thesis using assms by (auto simp: reply_def dest: property_ioctls_unlock)
next
  case (IoAddFb r)
  then show ?thesis using assms by (auto dest: addfb_unlocks)
next
  case IoHotplug
  then show ?thesis using assms by (simp add: drm_mode_hotplug_ioctl_def)
next
  case FileRelease
  then show ?thesis using assms by (auto dest: fb_release_unlocks)
qed (auto simp: reply_def locked_entry_defs dest: with_lock_unlocks)

text \<open>
  C40: the lock discipline of the interface: in every run of a file that starts with
  the device lock free, the lock is free after every request, whatever the request,
  its path through the entry point, or its result; so no request of the run
  dead-locks on the lock a previous one left behind.
\<close>

theorem file_reach_unlocked:
  assumes "file_reach env (fbs0, s0) (fbs, s)" and "\<not> mutex_held s0"
  shows "\<not> mutex_held s"
  using assms
proof (induction "(fbs0, s0)" "(fbs, s)" arbitrary: fbs s rule: file_reach.induct)
  case file_reach_refl
  then show ?case by simp
next
  case (file_reach_step fbs1 s1 op r fbs' s')
  then show ?case using drm_file_step_unlocks by blast
qed

end
