(* ===== verification/DRM_Example.thy ===== *)
theory DRM_Example
  imports DRM_SetConfig DRM_PickCrtcs DRM_Property DRM_Probe DRM_Umode DRM_Ioctl DRM_Config DRM_Device
begin

text \<open>
  A concrete device on which the theorems of the development are instantiated: two
  CRTCs (identifiers 1 and 2), a connected output 3 with a preferred 1920x1080 mode and
  a 1280x720 mode, a disconnected output 4, one framebuffer 5, and drivers that accept
  every mode, reject every mode, or lack \<^verbatim>\<open>mode_set_base\<close>. It is the scenario of
  section 8 of the specification.
\<close>

named_theorems drm_code "definitions unfolded to run the model on a concrete device"

declare lookup_crtc_def [drm_code] lookup_output_def [drm_code] lookup_fb_def [drm_code]
  update_crtc_def [drm_code] update_output_def [drm_code] log_hw_def [drm_code]
  mc_idr_get_def [drm_code] mc_idr_put_def [drm_code] drm_idr_get_def [drm_code]
  drm_idr_put_def [drm_code] idr_search.simps [drm_code] MAX_ID_MASK_def [drm_code]
  drm_crtc_in_use_def [drm_code] drm_disable_unused_functions_def [drm_code]
  drm_mode_create_def [drm_code] drm_mode_destroy_def [drm_code] drm_mode_duplicate_def [drm_code]
  drm_mode_equal_def [drm_code] outputs_on_def [drm_code] mode_fixups_def [drm_code]
  mode_set_sequence_def [drm_code] restore_crtc_def [drm_code] set_mode_apply_def [drm_code]
  drm_crtc_set_mode_def [drm_code] new_binding_def [drm_code] rebind_outputs_def [drm_code]
  restore_bindings_def [drm_code] config_flip_or_move_def [drm_code]
  config_mode_changed_def [drm_code] set_config_apply_def [drm_code]
  drm_crtc_set_config_def [drm_code] zero_mode_def [drm_code] drm_mode_bits [drm_code]
  crtc_eligible_def [drm_code] pick_desired_mode_def [drm_code] mode_preferred_def [drm_code]
  crtc_assigned_def [drm_code] pick_crtc_for_def [drm_code] drm_pick_crtcs_def [drm_code]

definition ex_mode_1080 :: drm_display_mode where
  "ex_mode_1080 = zero_mode\<lparr>mode_id := 10, mode_name := ''1920x1080'',
     mode_type := DRM_MODE_TYPE_PREFERRED OR DRM_MODE_TYPE_DRIVER, clock := 148500,
     hdisplay := 1920, hsync_start := 2008, hsync_end := 2052, htotal := 2200,
     vdisplay := 1080, vsync_start := 1084, vsync_end := 1089, vtotal := 1125\<rparr>"

definition ex_mode_720 :: drm_display_mode where
  "ex_mode_720 = zero_mode\<lparr>mode_id := 11, mode_name := ''1280x720'',
     mode_type := DRM_MODE_TYPE_DRIVER, clock := 74250,
     hdisplay := 1280, hsync_start := 1390, hsync_end := 1430, htotal := 1650,
     vdisplay := 720, vsync_start := 725, vsync_end := 730, vtotal := 750\<rparr>"

definition ex_crtc :: "nat \<Rightarrow> drm_crtc" where
  "ex_crtc i = \<lparr>crtc_id = i, crtc_enabled = False, crtc_mode = zero_mode, crtc_x = 0, crtc_y = 0,
     crtc_desired_mode = None, crtc_desired_x = 0, crtc_desired_y = 0, crtc_fb = None\<rparr>"

definition ex_output :: "nat \<Rightarrow> drm_output_status \<Rightarrow> drm_display_mode list \<Rightarrow> drm_output" where
  "ex_output i st ms = \<lparr>output_id = i, output_type = 2, output_type_id = 1, output_status = st,
     probed_modes = [], modes = ms, user_modes = [], possible_crtcs = 3, possible_clones = 0,
     output_crtc = None, initial_x = 0, initial_y = 0,
     property_ids = replicate DRM_OUTPUT_MAX_PROPERTY 0,
     property_values = replicate DRM_OUTPUT_MAX_PROPERTY 0, edid_blob = None\<rparr>"

definition ex_fb :: drm_framebuffer where
  "ex_fb = \<lparr>fb_id = 5, fb_width = 1920, fb_height = 1080, fb_pitch = 7680,
     fb_bits_per_pixel = 32, fb_depth = 24, fb_bo = 1\<rparr>"

definition ex_dev :: drm_mode_config where
  "ex_dev = \<lparr>fb_list = [ex_fb], crtc_list = [ex_crtc 1, ex_crtc 2],
     output_list = [ex_output 3 output_status_connected [ex_mode_1080, ex_mode_720],
                    ex_output 4 output_status_disconnected []],
     property_list = [], property_blob_list = [],
     crtc_idr = [1 \<mapsto> DRM_OBJ_CRTC, 2 \<mapsto> DRM_OBJ_CRTC, 3 \<mapsto> DRM_OBJ_OUTPUT,
                 4 \<mapsto> DRM_OBJ_OUTPUT, 5 \<mapsto> DRM_OBJ_FB, 10 \<mapsto> DRM_OBJ_MODE, 11 \<mapsto> DRM_OBJ_MODE],
     num_fb = 1, num_crtc = 2, num_output = 2,
     min_width = 0, min_height = 0, max_width = 2048, max_height = 2048,
     hotplug_counter = 0, edid_property = 0, dpms_property = 0,
     connector_type_property = 0, connector_num_property = 0,
     mutex_held = False, hw_log = []\<rparr>"

text \<open>The same device with output 3 bound to CRTC 1.\<close>

definition ex_dev_bound :: drm_mode_config where
  "ex_dev_bound = ex_dev\<lparr>output_list :=
     [(ex_output 3 output_status_connected [ex_mode_1080, ex_mode_720])\<lparr>output_crtc := Some 1\<rparr>,
      ex_output 4 output_status_disconnected []]\<rparr>"

text \<open>
  The same device where output 3 may only use CRTC 1, and where output 4, disconnected,
  still holds CRTC 1 from an earlier configuration.
\<close>

definition ex_dev_stale :: drm_mode_config where
  "ex_dev_stale = ex_dev\<lparr>output_list :=
     [(ex_output 3 output_status_connected [ex_mode_1080, ex_mode_720])\<lparr>possible_crtcs := 1\<rparr>,
      (ex_output 4 output_status_disconnected [])\<lparr>output_crtc := Some 1\<rparr>]\<rparr>"

text \<open>
  Properties on the device: the EDID blob property 20, the DPMS enum property 21 and a
  brightness range property 22 over [0, 100]; output 3 carries all three.
\<close>

definition ex_prop_edid :: drm_property where
  "ex_prop_edid = \<lparr>prop_id = 20, prop_flags = DRM_MODE_PROP_BLOB OR DRM_MODE_PROP_IMMUTABLE,
     prop_name = ''EDID'', prop_values = [], prop_enum_list = []\<rparr>"

definition ex_prop_dpms :: drm_property where
  "ex_prop_dpms = \<lparr>prop_id = 21, prop_flags = DRM_MODE_PROP_ENUM, prop_name = ''DPMS'',
     prop_values = [0, 1, 2, 3],
     prop_enum_list = map (\<lambda>(v, n). \<lparr>penum_value = v, penum_name = n\<rparr>) drm_dpms_enum_list\<rparr>"

definition ex_prop_bright :: drm_property where
  "ex_prop_bright = \<lparr>prop_id = 22, prop_flags = DRM_MODE_PROP_RANGE, prop_name = ''brightness'',
     prop_values = [0, 100], prop_enum_list = []\<rparr>"

definition ex_out3_props :: drm_output where
  "ex_out3_props = (ex_output 3 output_status_connected [ex_mode_1080, ex_mode_720])\<lparr>
     property_ids := [20, 21, 22] @ replicate 13 0\<rparr>"

definition ex_pdev :: drm_mode_config where
  "ex_pdev = ex_dev\<lparr>property_list := [ex_prop_edid, ex_prop_dpms, ex_prop_bright],
     crtc_idr := (crtc_idr ex_dev)(20 \<mapsto> DRM_OBJ_PROPERTY, 21 \<mapsto> DRM_OBJ_PROPERTY, 22 \<mapsto> DRM_OBJ_PROPERTY),
     edid_property := 20, dpms_property := 21,
     output_list := [ex_out3_props, ex_output 4 output_status_disconnected []]\<rparr>"

text \<open>A driver that accepts everything, one whose outputs reject every mode, one without \<^verbatim>\<open>mode_set_base\<close>.\<close>

definition ex_drv :: drm_driver where
  "ex_drv = \<lparr>drv_detect = (\<lambda>_. output_status_connected), drv_get_modes = (\<lambda>_. []),
     drv_mode_valid = (\<lambda>_ _. MODE_OK), drv_output_mode_fixup = (\<lambda>_ _. True),
     drv_crtc_mode_fixup = (\<lambda>_ _. True), drv_has_mode_set_base = (\<lambda>_. True),
     drv_has_set_property = (\<lambda>_. True), drv_set_property = (\<lambda>_ _ _. Inr ()),
     drv_has_crtc_cleanup = (\<lambda>_. True), drv_has_output_cleanup = (\<lambda>_. True)\<rparr>"

definition ex_drv_probe :: drm_driver where
  "ex_drv_probe = ex_drv\<lparr>drv_get_modes := (\<lambda>_. [ex_mode_1080, ex_mode_720])\<rparr>"

definition ex_drv_disc :: drm_driver where
  "ex_drv_disc = ex_drv\<lparr>drv_detect := (\<lambda>_. output_status_disconnected)\<rparr>"

definition ex_drv_reject :: drm_driver where
  "ex_drv_reject = ex_drv\<lparr>drv_output_mode_fixup := (\<lambda>_ _. False)\<rparr>"

definition ex_drv_nobase :: drm_driver where
  "ex_drv_nobase = ex_drv\<lparr>drv_has_mode_set_base := (\<lambda>_. False)\<rparr>"

text \<open>Requests: output 3 on CRTC 1 at 1080p with framebuffer 5; and CRTC 1 with no output and no mode.\<close>

definition ex_req :: drm_mode_set where
  "ex_req = \<lparr>set_crtc = Some 1, set_fb = Some 5, set_x = 0, set_y = 0,
     set_mode = Some ex_mode_1080, set_outputs = [3]\<rparr>"

definition ex_req_off :: drm_mode_set where
  "ex_req_off = \<lparr>set_crtc = Some 1, set_fb = None, set_x = 0, set_y = 0,
     set_mode = None, set_outputs = []\<rparr>"

text \<open>The device after \<open>ex_req\<close> was applied with the accepting driver.\<close>

definition ex_dev_on :: drm_mode_config where
  "ex_dev_on = snd (the (drm_crtc_set_config ex_drv ex_req ex_dev))"

text \<open>
  For the ioctls: a user-object table where handle 1 is a buffer object and handle 2 is
  another object, a framebuffer request on handle 1, a CRTC request that puts output 3
  on CRTC 1 with framebuffer 5, and the device with CRTC 1 enabled and driving the
  second output of the list only.
\<close>

definition ex_objs :: user_objects where
  "ex_objs h = (if h = 1 then Some True else if h = 2 then Some False else None)"

definition ex_fbcmd :: fb_cmd where
  "ex_fbcmd = \<lparr>fbc_width = 1024, fbc_height = 768, fbc_pitch = 4096, fbc_bpp = 32,
     fbc_depth = 24, fbc_handle = 1\<rparr>"

definition ex_creq :: crtc_req where
  "ex_creq = \<lparr>req_crtc_id = 1, req_fb_id = 5, req_x = 0, req_y = 0, req_mode_valid = True,
     req_mode = drm_crtc_convert_to_umode ex_mode_1080, req_count_outputs = 1, req_outputs = [3]\<rparr>"

definition ex_dev_second :: drm_mode_config where
  "ex_dev_second = ex_dev\<lparr>crtc_list := [(ex_crtc 1)\<lparr>crtc_enabled := True\<rparr>, ex_crtc 2],
     output_list := [ex_output 3 output_status_connected [ex_mode_1080, ex_mode_720],
                     (ex_output 4 output_status_connected [])\<lparr>output_crtc := Some 1\<rparr>]\<rparr>"

text \<open>The device with every identifier of the registry taken.\<close>

definition ex_dev_full :: drm_mode_config where
  "ex_dev_full = ex_dev\<lparr>crtc_idr := (\<lambda>i. if i = 0 then None else Some DRM_OBJ_MODE)\<rparr>"

text \<open>
  Framebuffer hooks of a driver: \<^verbatim>\<open>fb_probe\<close> attaches framebuffer 5 to the CRTC,
  \<^verbatim>\<open>fb_resize\<close> does nothing, \<^verbatim>\<open>fb_remove\<close> drops the framebuffer from the list.
\<close>

definition ex_hooks :: drm_fb_hooks where
  "ex_hooks = \<lparr>hook_fb_probe = (\<lambda>c oid s. update_crtc c (\<lambda>r. r\<lparr>crtc_fb := Some 5\<rparr>) s),
     hook_fb_resize = (\<lambda>c s. s),
     hook_fb_remove = (\<lambda>f s. s\<lparr>fb_list := filter (\<lambda>fb. fb_id fb \<noteq> f) (fb_list s)\<rparr>)\<rparr>"

text \<open>
  Cursor callbacks whose \<^verbatim>\<open>cursor_set\<close> rejects every image and whose
  \<^verbatim>\<open>cursor_move\<close> accepts every position; a request that sets both on CRTC 1; and
  the environment of the example for the runs of a file.
\<close>

definition ex_cursor :: drm_cursor_funcs where
  "ex_cursor = \<lparr>drv_has_cursor_set = (\<lambda>_. True), drv_cursor_set = (\<lambda>_ _ _ _. Inl EINVAL),
     drv_has_cursor_move = (\<lambda>_. True), drv_cursor_move = (\<lambda>_ _ _. Inr ())\<rparr>"

definition ex_curreq :: cursor_req where
  "ex_curreq = \<lparr>cursor_flags = DRM_MODE_CURSOR_BO OR DRM_MODE_CURSOR_MOVE, cursor_crtc = 1,
     cursor_x = 10, cursor_y = 20, cursor_width = 64, cursor_height = 64, cursor_handle = 1\<rparr>"

definition ex_env :: drm_env where
  "ex_env = \<lparr>env_drv = ex_drv, env_cursor = ex_cursor, env_objs = ex_objs\<rparr>"

text \<open>
  The device after a TV driver's \<^verbatim>\<open>drm_property_create\<close> of its mode property with
  two values, under identifier 9.
\<close>

definition ex_tvprop :: drm_property where
  "ex_tvprop = \<lparr>prop_id = 9, prop_flags = DRM_MODE_PROP_ENUM, prop_name = ''mode'',
     prop_values = [0, 0], prop_enum_list = []\<rparr>"

definition ex_tvdev :: drm_mode_config where
  "ex_tvdev = ex_dev\<lparr>property_list := [ex_tvprop], crtc_idr := (crtc_idr ex_dev)(9 \<mapsto> DRM_OBJ_PROPERTY)\<rparr>"

declare ex_mode_1080_def [drm_code] ex_mode_720_def [drm_code] ex_crtc_def [drm_code]
  ex_output_def [drm_code] ex_fb_def [drm_code] ex_dev_def [drm_code] ex_drv_def [drm_code]
  ex_drv_reject_def [drm_code] ex_drv_nobase_def [drm_code] ex_req_def [drm_code]
  ex_req_off_def [drm_code] DRM_OUTPUT_MAX_PROPERTY_def [drm_code] ex_dev_bound_def [drm_code]
  ex_dev_on_def [drm_code] ex_dev_stale_def [drm_code]
  ex_prop_edid_def [drm_code] ex_prop_dpms_def [drm_code] ex_prop_bright_def [drm_code]
  ex_out3_props_def [drm_code] ex_pdev_def [drm_code]
  drm_prop_bits [drm_code] prop_has_def [drm_code] idr_find_output_def [drm_code]
  idr_find_property_def [drm_code] lookup_property_def [drm_code] set_property_checked_def [drm_code]
  property_value_ok_def [drm_code] output_property_set_locked_def [drm_code]
  drm_mode_output_property_set_ioctl_def [drm_code] mutex_lock_def [drm_code] mutex_unlock_def [drm_code]
  drm_property_add_enum_def [drm_code] drm_output_attach_property_def [drm_code]
  drm_output_property_get_value_def [drm_code] drm_output_property_set_value_def [drm_code]
  getproperty_reply_def [drm_code] drm_mode_getproperty_ioctl_def [drm_code]
  drm_property_create_blob_def [drm_code] drm_property_destroy_blob_def [drm_code]
  drm_mode_output_update_edid_property_def [drm_code] drm_dpms_enum_list_def [drm_code]
  replicate_numeral [drm_code] ex_drv_probe_def [drm_code] ex_drv_disc_def [drm_code]
  probe_output_def [drm_code] probe_mark_def [drm_code] probe_validate_def [drm_code]
  probe_fallback_def [drm_code] probe_finish_def [drm_code] drm_mode_output_list_update_def [drm_code]
  merge_probed.simps [drm_code] validate_size_one_def [drm_code] drm_mode_prune_invalid_def [drm_code]
  drm_mode_sort_def [drm_code] drm_mode_sort_key_def [drm_code] drm_mode_vrefresh_def [drm_code]
  std_mode_def [drm_code] drm_crtc_convert_to_umode_def [drm_code] drm_crtc_convert_umode_def [drm_code]
  DRM_DISPLAY_MODE_LEN_def [drm_code] umode_representable_def [drm_code]
  ex_objs_def [drm_code] ex_fbcmd_def [drm_code] ex_creq_def [drm_code] ex_dev_second_def [drm_code]
  ex_dev_full_def [drm_code] with_lock_def [drm_code] idr_find_crtc_def [drm_code]
  idr_find_fb_def [drm_code] drm_get_buffer_object_def [drm_code] setcrtc_fb_def [drm_code]
  setcrtc_locked_def [drm_code] drm_mode_setcrtc_def [drm_code] output_named_def [drm_code]
  drm_mode_getcrtc_def [drm_code] drm_mode_addfb_def [drm_code] drm_framebuffer_create_def [drm_code]
  drm_mode_rmfb_def [drm_code] drm_framebuffer_destroy_def [drm_code] drm_mode_replacefb_def [drm_code]
  drm_mode_getoutput_def [drm_code] getoutput_reply_def [drm_code] output_props_def [drm_code]
  drm_crtc_probe_single_output_modes_def [drm_code] probe_at_def [drm_code]
  drm_mode_attachmode_ioctl_def [drm_code] drm_mode_attachmode_def [drm_code]
  drm_mode_detachmode_ioctl_def [drm_code] drm_mode_detachmode_def [drm_code]
  ex_hooks_def [drm_code] drm_initial_config_def [drm_code] initial_config_step_def [drm_code]
  output_config_def [drm_code] drm_hotplug_stage_two_def [drm_code] drm_mode_hotplug_ioctl_def [drm_code]
  drm_mode_config_cleanup_def [drm_code] ex_cursor_def [drm_code] ex_curreq_def [drm_code]
  ex_env_def [drm_code] DRM_MODE_CURSOR_BO_def [drm_code] DRM_MODE_CURSOR_MOVE_def [drm_code]
  cursor_bo_def [drm_code] cursor_locked_def [drm_code] cursor_move_step_def [drm_code]
  drm_mode_cursor_ioctl_def [drm_code] reply_def [drm_code] ex_tvprop_def [drm_code] ex_tvdev_def [drm_code]

lemma ex_hooks_keep: "fb_probe_keeps ex_hooks \<and> hooks_keep_counter ex_hooks \<and> fb_remove_keeps ex_hooks"
  by (simp add: fb_probe_keeps_def hooks_keep_counter_def fb_remove_keeps_def ex_hooks_def
      crtc_shape_update_crtc) (simp add: update_crtc_def)

end
