(* ===== verification/Spec2Isabelle.thy ===== *)
theory Spec2Isabelle
  imports DRM_Example
begin

text \<open>
  \<^bold>\<open>A verification library for the DRM mode-setting core, src/linux-core/drm_crtc.c.\<close>

  The program keeps, for one graphics device, the display configuration: an
  identifier registry, a store of framebuffers, CRTCs (scan-out controllers), outputs
  and properties, a mode prober that asks the driver which modes an output supports,
  an assignment engine that picks a CRTC and a mode for every output, the transaction
  that applies a configuration with the driver's fixup/prepare/mode_set/commit
  callbacks and rolls it back on rejection, the property system, and the ioctls that
  expose all this to user space. Pointers of the C code are identifiers in the model;
  driver callbacks are a record of answer functions, and the calls that act on the
  hardware are appended to a log \<open>hw_log\<close> so that their order can be stated.
  Errors are values \<open>drm_errno + 'a\<close>; a kernel fault (NULL call, dead-lock on the
  non-recursive mutex, out-of-bounds access, an object used at the wrong type) is
  \<open>None\<close> of the \<open>'a faulting\<close> option.

  \<^bold>\<open>Theories.\<close>
  \<^item> \<open>DRM_Prelude\<close>: errors and faults, the list loops of the source as \<open>map_at\<close>
    (update the entries with a key), \<open>find_idx\<close> (first index of a loop), \<open>del_key\<close>
    (\<^verbatim>\<open>list_del\<close>), the decimal printing of \<^verbatim>\<open>"%d"\<close> (\<open>nat_to_dec\<close>), and
    their lemmas.
  \<^item> \<open>DRM_Mode\<close>: \<^verbatim>\<open>struct drm_display_mode\<close>, the built-in \<^verbatim>\<open>std_mode\<close>, and the
    \<^verbatim>\<open>drm_modes.c\<close> helpers the core calls (\<^verbatim>\<open>drm_mode_equal\<close>, refresh, sort),
    modelled from the specification since that file is not in the repository.
  \<^item> \<open>DRM_Idr\<close>: \<^verbatim>\<open>drm_idr_get\<close>/\<^verbatim>\<open>drm_idr_put\<close> over a map from identifiers to
    object kinds; the least-free search of \<^verbatim>\<open>idr_get_new_above\<close> is a \<open>function\<close>
    terminating on the measure \<open>MAX_ID_MASK + 1 - i\<close>; exhaustion returns 0 as the
    source does (its callers do not check it).
  \<^item> \<open>DRM_Store\<close>: \<^verbatim>\<open>struct drm_mode_config\<close> as a record, the create/destroy
    operations (\<^verbatim>\<open>drm_framebuffer_create\<close> ... \<^verbatim>\<open>drm_output_destroy\<close>),
    \<^verbatim>\<open>drm_mode_remove\<close>, \<^verbatim>\<open>drm_crtc_in_use\<close>,
    \<^verbatim>\<open>drm_disable_unused_functions\<close>, the lock, and the store
    invariant \<open>mc_inv\<close> (identifiers registered with their kind, distinct, references
    live, counters equal to list lengths, property arrays of 16 slots).
  \<^item> \<open>DRM_SetMode\<close>: \<^verbatim>\<open>drm_crtc_set_mode\<close> with its fast path, fixups, the
    prepare/mode_set/commit sequence (\<open>mode_set_sequence\<close>) and the restore.
  \<^item> \<open>DRM_SetConfig\<close>: \<^verbatim>\<open>drm_crtc_set_config\<close>, the transaction over
    \<^verbatim>\<open>struct drm_mode_set\<close>, with the saved bindings and their restore.
  \<^item> \<open>DRM_PickCrtcs\<close>: \<^verbatim>\<open>drm_pick_crtcs\<close>, a fold over output positions with the
    CRTC scan and the clone scan as the source has them, and the first-fit reference
    engine \<open>pick_crtcs_first_fit\<close> it is proved equal to.
  \<^item> \<open>DRM_Property\<close>: properties, enums, output slots, blobs, the EDID update,
    the set-property and get-property ioctls, the standard properties,
    \<^verbatim>\<open>drm_mode_config_init\<close>, the TV properties of \<^verbatim>\<open>drm_create_tv_properties\<close>, and
    the name lookups of the debug output.
  \<^item> \<open>DRM_Probe\<close>: \<^verbatim>\<open>drm_crtc_probe_single_output_modes\<close> split into its steps
    (\<open>probe_mark\<close>, \<open>probe_validate\<close>, \<open>probe_fallback\<close>, \<open>probe_finish\<close>) and
    \<^verbatim>\<open>drm_crtc_probe_output_modes\<close>.
  \<^item> \<open>DRM_Umode\<close>: \<^verbatim>\<open>struct drm_mode_modeinfo\<close> at its C widths and the two copies.
  \<^item> \<open>DRM_Ioctl\<close>: the ioctl entry points, each run under the device lock by
    \<open>with_lock\<close>: \<^verbatim>\<open>drm_mode_getresources\<close>, \<^verbatim>\<open>drm_mode_getcrtc\<close>,
    \<^verbatim>\<open>drm_mode_getoutput\<close> (which probes), \<^verbatim>\<open>drm_mode_setcrtc\<close> (decoding the
    request into a \<^verbatim>\<open>struct drm_mode_set\<close> for \<^verbatim>\<open>drm_crtc_set_config\<close>), the
    framebuffer ioctls \<^verbatim>\<open>addfb\<close>, \<^verbatim>\<open>rmfb\<close>, \<^verbatim>\<open>getfb\<close>, \<^verbatim>\<open>replacefb\<close> and
    \<^verbatim>\<open>drm_fb_release\<close> (the file's framebuffer list is passed in and returned), the
    user-mode attach and detach ioctls, \<^verbatim>\<open>drm_mode_getblob_ioctl\<close>, and
    \<^verbatim>\<open>drm_get_buffer_object\<close> over a table of user objects.
  \<^item> \<open>DRM_Config\<close>: the device-level sequences that compose the prober, the
    assignment engine and the mode-apply protocol: \<^verbatim>\<open>drm_initial_config\<close> (its loop
    over the outputs as \<open>initial_config_loop\<close>), \<^verbatim>\<open>drm_hotplug_stage_two\<close> with
    \<^verbatim>\<open>drm_mode_hotplug_ioctl\<close>, and \<^verbatim>\<open>drm_mode_config_cleanup\<close>. The driver's
    \<^verbatim>\<open>fb_probe\<close>, \<^verbatim>\<open>fb_resize\<close> and \<^verbatim>\<open>fb_remove\<close> are a record of state
    transformers (\<open>drm_fb_hooks\<close>), and the predicates \<open>fb_probe_keeps\<close>,
    \<open>hooks_keep_counter\<close> and \<open>fb_remove_keeps\<close> say what the lemmas ask of them.
  \<^item> \<open>DRM_Cursor\<close>: \<^verbatim>\<open>drm_mode_cursor_ioctl\<close> with the CRTC's optional
    \<^verbatim>\<open>cursor_set\<close>/\<^verbatim>\<open>cursor_move\<close> callbacks (\<open>drm_cursor_funcs\<close>); the shared
    \<^verbatim>\<open>ret\<close> of its two blocks is the \<open>ret\<close> argument of \<open>cursor_move_step\<close>.
  \<^item> \<open>DRM_Device\<close>: the interface of a file: a datatype \<open>drm_file_op\<close> of the
    requests (every modelled ioctl and the release of the file), the step function
    \<open>drm_file_step\<close> that dispatches each to its entry point, and the runs of a file
    as the inductive relation \<open>file_reach\<close> over the file's framebuffers and the device.
  \<^item> \<open>DRM_Example\<close>: a concrete device (two CRTCs, a connected and a disconnected
    output, a framebuffer, properties) and drivers, with the bundle \<open>drm_code\<close> of
    definitions that \<open>simp\<close> unfolds to run the model on it.
  \<^item> This theory: the witnesses, each applying a claim's theorem to the device.

  \<^bold>\<open>What the lemmas show.\<close> The transaction: a rejected mode set restores every
  binding and every CRTC field except the framebuffer pointer (C1), a successful one
  calls the driver in the documented order (C2), a rejection leaks the adjusted mode's
  identifier (C3), a request without a mode disables the CRTC (C4), and moving the
  origin with a driver that has no \<^verbatim>\<open>mode_set_base\<close> faults (C5, C6). The
  assignment engine never shares a CRTC (C7), binds only connected outputs with modes
  to eligible CRTCs with the preferred mode (C8), equals the clone-free first-fit
  engine because its clone branch is dead (C9), and lets stale bindings block earlier
  outputs (C10). The property system validates before calling the driver (C11, C12),
  uses objects at the wrong type (C13), renames idempotently (C14), reads back what was
  attached (C15), reports a wrong blob count (C16), faults on a NULL EDID (C17) and
  otherwise installs the EDID blob (C18); the TV-format loop of
  \<^verbatim>\<open>drm_create_tv_properties\<close> faults exactly on a short array of names and otherwise
  builds the enum entries in order (C19). The user-mode copies round-trip (C20, C21) and wrap modulo
  \<open>2^16\<close> (C22). The prober leaves a non-empty sorted list of valid modes (C23) within
  the size bounds except for the unchecked fallback (C24), whose mode is not marked
  preferred (C25), and keeps a stale list for a disconnected output (C26). The ioctls:
  \<^verbatim>\<open>drm_mode_setcrtc\<close> refines the transaction on the decoded request (C27);
  \<^verbatim>\<open>addfb\<close> and \<^verbatim>\<open>rmfb\<close> keep the store invariant (C28, C29); attaching and
  detaching a user mode is the identity (C30); the CRTC query's output mask does not
  say which outputs are bound (C31); \<^verbatim>\<open>replacefb\<close> faults on a CRTC without a
  framebuffer (C32); \<^verbatim>\<open>setcrtc\<close> leaks a mode identifier on a request without
  outputs (C33); \<^verbatim>\<open>addfb\<close> hands out identifier 0 on a full registry (C34); and the
  output query reports the mode count from before its probe (C35). The device level:
  \<^verbatim>\<open>drm_initial_config\<close> returns, releases the lock and reports \<open>false\<close> on every
  path (C36); every returning hotplug event advances the counter the hotplug ioctl
  reports by exactly one (C37); \<^verbatim>\<open>drm_mode_config_cleanup\<close>, documented as called
  with the lock held, dead-locks then and otherwise removes every output and CRTC
  (C38). The cursor ioctl loses the error of a failed \<^verbatim>\<open>cursor_set\<close> when a move
  follows (C39), and, by rule induction over the runs of a file, no sequence of
  requests leaves the device lock held (C40). Lemmas without a claim of their own: the
  loops of \<^verbatim>\<open>drm_mode_remove\<close> empty a mode list (\<open>drm_mode_remove_all\<close>), a
  loop of \<^verbatim>\<open>drm_property_add_enum\<close> calls appends its entries in order
  (\<open>add_enum_list_fresh\<close>, on which C19 rests), the blob
  ioctl's two calls return the length and then the bytes (\<open>drm_mode_getblob_two_calls\<close>),
  and an output's name prints its type identifier so that it reads back
  (\<open>drm_get_output_name_ok\<close>, over \<open>dec_value_nat_to_dec\<close>).

  \<^bold>\<open>Bounds and fuel.\<close> No fuel is used: every loop of the source is a
  structural recursion or a fold over a list, and the identifier search is a
  terminating \<open>function\<close>. Widths are the C widths: 32-bit masks and flags, 64-bit
  property values, 16-bit and 32-bit fields of the user mode.

  \<^bold>\<open>Not modelled.\<close> The ioctl transport (\<^verbatim>\<open>copy_to_user\<close>/\<^verbatim>\<open>get_user\<close>) is one
  flag that says whether the user's pointers are valid, and a read past the user's
  array of output identifiers is \<^verbatim>\<open>-EFAULT\<close>. Memory allocation never fails
  (the \<^verbatim>\<open>-ENOMEM\<close> paths are not produced). \<^verbatim>\<open>drm_mode_set_crtcinfo\<close> and the
  debug printing touch no field of the model (the name lookups that the printing
  uses are modelled).
  The driver's framebuffer hooks are parameters, since they are driver code; the
  sysfs notifications (\<^verbatim>\<open>drm_sysfs_output_remove\<close>,
  \<^verbatim>\<open>drm_sysfs_hotplug_event\<close>) change no state of the model. The property
  pointers \<^verbatim>\<open>drm_create_tv_properties\<close> stores in the device structure are its
  result in the model. The ioctl table that routes a request to its entry
  point lives outside this file; \<open>drm_file_step\<close> models it from the specification.
\<close>

section \<open>Witnesses: the theorems at the example device\<close>

theorem drm_crtc_set_config_reject_witness:
  "distinct (map crtc_id (crtc_list ex_dev)) \<and> set_crtc ex_req = Some 1 \<and>
   drm_crtc_set_config ex_drv_reject ex_req ex_dev =
     Some (Inl EINVAL, snd (the (drm_crtc_set_config ex_drv_reject ex_req ex_dev))) \<and>
   crtc_list (snd (the (drm_crtc_set_config ex_drv_reject ex_req ex_dev))) =
     map_at (\<lambda>q. crtc_id q = 1) (\<lambda>q. q\<lparr>crtc_fb := Some 5\<rparr>) (crtc_list ex_dev)"
proof -
  have h: "distinct (map crtc_id (crtc_list ex_dev)) \<and> set_crtc ex_req = Some 1 \<and>
      drm_crtc_set_config ex_drv_reject ex_req ex_dev =
        Some (Inl EINVAL, snd (the (drm_crtc_set_config ex_drv_reject ex_req ex_dev)))"
    by (simp add: drm_code)
  have "set_fb ex_req = Some 5" by (simp add: ex_req_def)
  with h drm_crtc_set_config_reject [of ex_dev ex_req 1 ex_drv_reject EINVAL
      "snd (the (drm_crtc_set_config ex_drv_reject ex_req ex_dev))"]
  show ?thesis by simp
qed

theorem drm_crtc_set_mode_commit_witness:
  "lookup_crtc ex_dev_bound 1 = Some (ex_crtc 1) \<and> drm_crtc_in_use ex_dev_bound 1 \<and>
   \<not> (drm_mode_equal (crtc_mode (ex_crtc 1)) ex_mode_1080 \<and>
      (crtc_x (ex_crtc 1) \<noteq> 0 \<or> crtc_y (ex_crtc 1) \<noteq> 0)) \<and>
   list_all (\<lambda>oid. drv_output_mode_fixup ex_drv oid ex_mode_1080) (outputs_on ex_dev_bound 1) \<and>
   drv_crtc_mode_fixup ex_drv 1 ex_mode_1080 \<and> crtc_idr ex_dev_bound 0 = None \<and>
   (\<exists>s'. drm_crtc_set_mode ex_drv 1 ex_mode_1080 0 0 ex_dev_bound = Some (True, s') \<and>
      hw_log s' = hw_log ex_dev_bound @ map OutputModeFixup (outputs_on ex_dev_bound 1) @
        [CrtcModeFixup 1] @ mode_set_sequence 1 ex_mode_1080 0 0 (outputs_on ex_dev_bound 1))"
proof -
  have h: "lookup_crtc ex_dev_bound 1 = Some (ex_crtc 1) \<and> drm_crtc_in_use ex_dev_bound 1 \<and>
   \<not> (drm_mode_equal (crtc_mode (ex_crtc 1)) ex_mode_1080 \<and>
      (crtc_x (ex_crtc 1) \<noteq> 0 \<or> crtc_y (ex_crtc 1) \<noteq> 0)) \<and>
   list_all (\<lambda>oid. drv_output_mode_fixup ex_drv oid ex_mode_1080) (outputs_on ex_dev_bound 1) \<and>
   drv_crtc_mode_fixup ex_drv 1 ex_mode_1080 \<and> crtc_idr ex_dev_bound 0 = None"
    by (simp add: drm_code)
  then show ?thesis
    using drm_crtc_set_mode_commit [of ex_dev_bound 1 "ex_crtc 1" ex_mode_1080 0 0 ex_drv] by blast
qed

theorem drm_crtc_set_mode_reject_witness:
  "distinct (map crtc_id (crtc_list ex_dev_bound)) \<and>
   drm_crtc_set_mode ex_drv_reject 1 ex_mode_1080 0 0 ex_dev_bound =
     Some (False, snd (the (drm_crtc_set_mode ex_drv_reject 1 ex_mode_1080 0 0 ex_dev_bound))) \<and>
   output_list (snd (the (drm_crtc_set_mode ex_drv_reject 1 ex_mode_1080 0 0 ex_dev_bound))) =
     output_list ex_dev_bound \<and>
   (\<exists>i. crtc_idr ex_dev_bound i = None \<and>
      crtc_idr (snd (the (drm_crtc_set_mode ex_drv_reject 1 ex_mode_1080 0 0 ex_dev_bound))) i = Some DRM_OBJ_MODE)"
proof -
  have h: "distinct (map crtc_id (crtc_list ex_dev_bound)) \<and>
   drm_crtc_set_mode ex_drv_reject 1 ex_mode_1080 0 0 ex_dev_bound =
     Some (False, snd (the (drm_crtc_set_mode ex_drv_reject 1 ex_mode_1080 0 0 ex_dev_bound))) \<and>
   1 \<le> (6::nat) \<and> 6 \<le> MAX_ID_MASK \<and> crtc_idr ex_dev_bound 6 = None"
    by (simp add: drm_code)
  then show ?thesis
    using drm_crtc_set_mode_reject [of ex_dev_bound ex_drv_reject 1 ex_mode_1080 0 0 _ 6] by blast
qed

theorem drm_crtc_set_config_no_mode_witness:
  "set_crtc ex_req_off = Some 1 \<and> lookup_crtc ex_dev_bound 1 = Some (ex_crtc 1) \<and>
   set_mode ex_req_off = None \<and>
   map output_crtc (rebind_outputs 1 (set_outputs ex_req_off) (output_list ex_dev_bound)) \<noteq>
     map output_crtc (output_list ex_dev_bound) \<and>
   (\<exists>s'. drm_crtc_set_config ex_drv ex_req_off ex_dev_bound = Some (Inr (), s') \<and>
      CrtcDpms 1 DPMSModeOff \<in> set (hw_log s') \<and> OutputDpms 3 DPMSModeOff \<in> set (hw_log s'))"
proof -
  have h: "set_crtc ex_req_off = Some 1 \<and> lookup_crtc ex_dev_bound 1 = Some (ex_crtc 1) \<and>
   set_mode ex_req_off = None \<and>
   map output_crtc (rebind_outputs 1 (set_outputs ex_req_off) (output_list ex_dev_bound)) \<noteq>
     map output_crtc (output_list ex_dev_bound)"
    by (simp add: drm_code)
  then have "drm_crtc_set_config ex_drv ex_req_off ex_dev_bound =
    Some (Inr (), drm_disable_unused_functions
      (update_crtc 1 (\<lambda>q. q\<lparr>crtc_fb := set_fb ex_req_off, crtc_enabled := False\<rparr>)
        (ex_dev_bound\<lparr>output_list := rebind_outputs 1 (set_outputs ex_req_off) (output_list ex_dev_bound)\<rparr>)))"
    using drm_crtc_set_config_no_mode [of ex_req_off 1 ex_dev_bound "ex_crtc 1" ex_drv] by blast
  with h show ?thesis by (simp add: drm_code)
qed

theorem drm_crtc_set_config_fault_witness:
  "set_crtc (ex_req\<lparr>set_x := 10\<rparr>) = Some 1 \<and>
   lookup_crtc ex_dev_on 1 = Some (the (lookup_crtc ex_dev_on 1)) \<and>
   set_mode (ex_req\<lparr>set_x := 10\<rparr>) = Some ex_mode_1080 \<and>
   drm_mode_equal ex_mode_1080 (crtc_mode (the (lookup_crtc ex_dev_on 1))) \<and>
   set_x (ex_req\<lparr>set_x := 10\<rparr>) \<noteq> crtc_x (the (lookup_crtc ex_dev_on 1)) \<and>
   \<not> drv_has_mode_set_base ex_drv_nobase 1 \<and>
   hd (output_list ex_dev_on) \<in> set (output_list ex_dev_on) \<and>
   output_id (hd (output_list ex_dev_on)) \<in> set (set_outputs (ex_req\<lparr>set_x := 10\<rparr>)) \<and>
   drm_crtc_set_config ex_drv_nobase (ex_req\<lparr>set_x := 10\<rparr>) ex_dev_on = None"
proof -
  have h: "set_crtc (ex_req\<lparr>set_x := 10\<rparr>) = Some 1 \<and>
   lookup_crtc ex_dev_on 1 = Some (the (lookup_crtc ex_dev_on 1)) \<and>
   set_mode (ex_req\<lparr>set_x := 10\<rparr>) = Some ex_mode_1080 \<and>
   drm_mode_equal ex_mode_1080 (crtc_mode (the (lookup_crtc ex_dev_on 1))) \<and>
   set_x (ex_req\<lparr>set_x := 10\<rparr>) \<noteq> crtc_x (the (lookup_crtc ex_dev_on 1)) \<and>
   \<not> drv_has_mode_set_base ex_drv_nobase 1 \<and>
   hd (output_list ex_dev_on) \<in> set (output_list ex_dev_on) \<and>
   output_id (hd (output_list ex_dev_on)) \<in> set (set_outputs (ex_req\<lparr>set_x := 10\<rparr>))"
    by (simp add: drm_code)
  then show ?thesis
    using drm_crtc_set_config_fault [of "ex_req\<lparr>set_x := 10\<rparr>" 1 ex_dev_on
        "the (lookup_crtc ex_dev_on 1)" ex_mode_1080 ex_drv_nobase "hd (output_list ex_dev_on)"]
    by blast
qed

theorem drm_crtc_set_mode_fault_witness:
  "drm_crtc_set_mode ex_drv_nobase 1 ex_mode_1080 10 0 ex_dev_on = None"
proof -
  have "lookup_crtc ex_dev_on 1 = Some (the (lookup_crtc ex_dev_on 1)) \<and> drm_crtc_in_use ex_dev_on 1 \<and>
    drm_mode_equal (crtc_mode (the (lookup_crtc ex_dev_on 1))) ex_mode_1080 \<and>
    (crtc_x (the (lookup_crtc ex_dev_on 1)) \<noteq> 10 \<or> crtc_y (the (lookup_crtc ex_dev_on 1)) \<noteq> 0) \<and>
    \<not> drv_has_mode_set_base ex_drv_nobase 1"
    by (simp add: drm_code)
  then show ?thesis
    using drm_crtc_set_mode_fault [of ex_drv_nobase 1 ex_mode_1080 10 0 ex_dev_on] by blast
qed

theorem drm_pick_crtcs_exclusive_witness:
  "distinct (map output_id (output_list ex_dev)) \<and>
   output_crtc (output_list (drm_pick_crtcs ex_dev) ! 0) = Some 1 \<and>
   output_crtc (output_list (drm_pick_crtcs ex_dev) ! 1) \<noteq> Some 1"
proof -
  have h: "distinct (map output_id (output_list ex_dev)) \<and>
    0 < length (output_list (drm_pick_crtcs ex_dev)) \<and> 1 < length (output_list (drm_pick_crtcs ex_dev)) \<and>
    output_crtc (output_list (drm_pick_crtcs ex_dev) ! 0) = Some 1"
    by (simp add: drm_code)
  then show ?thesis
    using drm_pick_crtcs_exclusive [of ex_dev 0 1 1] by simp
qed

theorem drm_pick_crtcs_valid_witness:
  "output_crtc (output_list (drm_pick_crtcs ex_dev) ! 0) = Some 1 \<and>
   (\<exists>n < length (crtc_list (drm_pick_crtcs ex_dev)). crtc_id (crtc_list (drm_pick_crtcs ex_dev) ! n) = 1 \<and>
      crtc_desired_mode (crtc_list (drm_pick_crtcs ex_dev) ! n) =
        Some (pick_desired_mode (modes (output_list (drm_pick_crtcs ex_dev) ! 0))))"
proof -
  have h: "distinct (map output_id (output_list ex_dev)) \<and>
    0 < length (output_list (drm_pick_crtcs ex_dev)) \<and>
    output_crtc (output_list (drm_pick_crtcs ex_dev) ! 0) = Some 1"
    by (simp add: drm_code)
  then show ?thesis
    using drm_pick_crtcs_valid [of ex_dev 0 1] by blast
qed

theorem drm_pick_crtcs_stale_binding_witness:
  "output_crtc (output_list ex_dev_stale ! 1) = Some 1 \<and>
   output_crtc (output_list (drm_pick_crtcs ex_dev_stale) ! 0) \<noteq> Some 1 \<and>
   output_crtc (output_list (drm_pick_crtcs ex_dev_stale) ! 0) = None \<and>
   output_crtc (output_list (drm_pick_crtcs (drm_pick_crtcs ex_dev_stale)) ! 0) = Some 1"
proof -
  have h: "distinct (map output_id (output_list ex_dev_stale)) \<and> (0::nat) < 1 \<and>
    1 < length (output_list ex_dev_stale) \<and> output_crtc (output_list ex_dev_stale ! 1) = Some 1"
    by (simp add: drm_code)
  have "output_crtc (output_list (drm_pick_crtcs ex_dev_stale) ! 0) = None \<and>
    output_crtc (output_list (drm_pick_crtcs (drm_pick_crtcs ex_dev_stale)) ! 0) = Some 1"
    by (simp add: drm_code)
  moreover have "output_crtc (output_list (drm_pick_crtcs ex_dev_stale) ! 0) \<noteq> Some 1"
    using h drm_pick_crtcs_stale_binding [of ex_dev_stale 0 1 1] by simp
  ultimately show ?thesis using h by simp
qed

theorem drm_mode_output_property_set_ioctl_spec_witness:
  "drm_mode_output_property_set_ioctl ex_drv 3 22 50 ex_pdev =
     Some (Inr (), log_hw [OutputSetProperty 3 22 50] ex_pdev) \<and>
   ((Inr () :: unit drm_result) = Inl EINVAL \<and> log_hw [OutputSetProperty 3 22 50] ex_pdev = ex_pdev \<or>
    (\<exists>out p. lookup_output ex_pdev 3 = Some out \<and> lookup_property ex_pdev 22 = Some p \<and>
       property_value_ok p 50 = Some True \<and> drv_has_set_property ex_drv 3))"
proof -
  have h: "\<not> mutex_held ex_pdev \<and> drm_mode_output_property_set_ioctl ex_drv 3 22 50 ex_pdev =
     Some (Inr (), log_hw [OutputSetProperty 3 22 50] ex_pdev)"
    by (simp add: drm_code)
  then show ?thesis
    using drm_mode_output_property_set_ioctl_spec [of ex_pdev ex_drv 3 22 50 "Inr ()"
        "log_hw [OutputSetProperty 3 22 50] ex_pdev"] by blast
qed

theorem drm_mode_output_property_set_ioctl_reject_witness:
  "property_value_ok ex_prop_bright 150 = Some False \<and>
   drm_mode_output_property_set_ioctl ex_drv 3 22 150 ex_pdev = Some (Inl EINVAL, ex_pdev)"
proof -
  have h: "\<not> mutex_held ex_pdev \<and> crtc_idr ex_pdev 3 = Some DRM_OBJ_OUTPUT \<and>
    lookup_output ex_pdev 3 = Some ex_out3_props \<and>
    22 \<in> set (take DRM_OUTPUT_MAX_PROPERTY (property_ids ex_out3_props)) \<and>
    crtc_idr ex_pdev 22 = Some DRM_OBJ_PROPERTY \<and> lookup_property ex_pdev 22 = Some ex_prop_bright \<and>
    property_value_ok ex_prop_bright 150 = Some False"
    by (simp add: drm_code)
  then show ?thesis
    using drm_mode_output_property_set_ioctl_reject [of ex_pdev 3 ex_out3_props 22 ex_prop_bright 150 ex_drv]
    by blast
qed

theorem drm_mode_output_property_set_ioctl_type_confusion_witness:
  "crtc_idr ex_pdev 1 = Some DRM_OBJ_CRTC \<and> drm_mode_output_property_set_ioctl ex_drv 1 22 0 ex_pdev = None"
proof -
  have h: "\<not> mutex_held ex_pdev \<and> crtc_idr ex_pdev 1 = Some DRM_OBJ_CRTC \<and> DRM_OBJ_CRTC \<noteq> DRM_OBJ_OUTPUT"
    by (simp add: drm_code)
  then show ?thesis
    using drm_mode_output_property_set_ioctl_type_confusion [of ex_pdev 1 DRM_OBJ_CRTC ex_drv 22 0] by blast
qed

theorem drm_property_add_enum_idempotent_witness:
  "drm_property_add_enum 0 3 ''Off'' (ex_prop_dpms\<lparr>prop_enum_list := []\<rparr>) =
     Some (Inr (ex_prop_dpms\<lparr>prop_values := [3, 1, 2, 3],
                              prop_enum_list := [\<lparr>penum_value = 3, penum_name = ''Off''\<rparr>]\<rparr>)) \<and>
   drm_property_add_enum 1 3 ''Power off'' (ex_prop_dpms\<lparr>prop_values := [3, 1, 2, 3],
       prop_enum_list := [\<lparr>penum_value = 3, penum_name = ''Off''\<rparr>]\<rparr>) =
     Some (Inr (ex_prop_dpms\<lparr>prop_values := [3, 1, 2, 3],
                              prop_enum_list := [\<lparr>penum_value = 3, penum_name = ''Power off''\<rparr>]\<rparr>)) \<and>
   length (prop_enum_list (ex_prop_dpms\<lparr>prop_values := [3, 1, 2, 3],
                              prop_enum_list := [\<lparr>penum_value = 3, penum_name = ''Power off''\<rparr>]\<rparr>)) = 1"
proof -
  have h: "drm_property_add_enum 0 3 ''Off'' (ex_prop_dpms\<lparr>prop_enum_list := []\<rparr>) =
     Some (Inr (ex_prop_dpms\<lparr>prop_values := [3, 1, 2, 3],
                              prop_enum_list := [\<lparr>penum_value = 3, penum_name = ''Off''\<rparr>]\<rparr>)) \<and>
   drm_property_add_enum 1 3 ''Power off'' (ex_prop_dpms\<lparr>prop_values := [3, 1, 2, 3],
       prop_enum_list := [\<lparr>penum_value = 3, penum_name = ''Off''\<rparr>]\<rparr>) =
     Some (Inr (ex_prop_dpms\<lparr>prop_values := [3, 1, 2, 3],
                              prop_enum_list := [\<lparr>penum_value = 3, penum_name = ''Power off''\<rparr>]\<rparr>))"
    by (simp add: drm_code)
  then show ?thesis
    using drm_property_add_enum_idempotent [of 0 3 "''Off''" "ex_prop_dpms\<lparr>prop_enum_list := []\<rparr>"]
    by fastforce
qed

theorem drm_output_attach_then_get_witness:
  "drm_output_attach_property 23 7 ex_out3_props =
     Inr (ex_out3_props\<lparr>property_ids := [20, 21, 22, 23] @ replicate 12 0,
                        property_values := [0, 0, 0, 7] @ replicate 12 0\<rparr>) \<and>
   drm_output_property_get_value 23 (ex_out3_props\<lparr>property_ids := [20, 21, 22, 23] @ replicate 12 0,
                        property_values := [0, 0, 0, 7] @ replicate 12 0\<rparr>) = Inr 7"
proof -
  have h: "drm_output_attach_property 23 7 ex_out3_props =
     Inr (ex_out3_props\<lparr>property_ids := [20, 21, 22, 23] @ replicate 12 0,
                        property_values := [0, 0, 0, 7] @ replicate 12 0\<rparr>) \<and>
    23 \<notin> set (property_ids ex_out3_props) \<and>
    length (property_ids ex_out3_props) \<le> length (property_values ex_out3_props)"
    by (simp add: drm_code)
  then show ?thesis using drm_output_attach_then_get [of 23 7 ex_out3_props] by blast
qed

theorem drm_mode_getproperty_blob_count_witness:
  "\<exists>r. drm_mode_getproperty_ioctl 20 0 0 True ex_pdev = Some (Inr r, ex_pdev) \<and> reply_count_enum_blobs r = 0"
proof -
  obtain r where r: "drm_mode_getproperty_ioctl 20 0 0 True ex_pdev = Some (Inr r, ex_pdev)"
    by (simp add: drm_code)
  have "lookup_property ex_pdev 20 = Some ex_prop_edid \<and> prop_has DRM_MODE_PROP_BLOB ex_prop_edid \<and>
    \<not> prop_has DRM_MODE_PROP_ENUM ex_prop_edid"
    by (simp add: drm_code)
  then show ?thesis using r drm_mode_getproperty_blob_count [OF r, of ex_prop_edid] by blast
qed

theorem drm_mode_output_update_edid_null_witness:
  "drm_mode_output_update_edid_property 3 None ex_pdev = None"
proof -
  have "lookup_output ex_pdev 3 \<noteq> None" by (simp add: drm_code)
  then show ?thesis by (rule drm_mode_output_update_edid_null)
qed

theorem drm_mode_output_update_edid_property_ok_witness:
  "\<exists>b s' out'. drm_mode_output_update_edid_property 3 (Some (replicate 128 7)) ex_pdev = Some (Inr (), s') \<and>
     lookup_output s' 3 = Some out' \<and> edid_blob out' = Some b \<and>
     drm_output_property_get_value 20 out' = Inr (word_of_nat b)"
proof -
  have h: "lookup_output ex_pdev 3 = Some ex_out3_props \<and> edid_property ex_pdev \<in> set (property_ids ex_out3_props) \<and>
    length (property_ids ex_out3_props) \<le> length (property_values ex_out3_props) \<and> edid_property ex_pdev = 20"
    by (simp add: drm_code)
  then show ?thesis
    using drm_mode_output_update_edid_property_ok [of ex_pdev 3 ex_out3_props "replicate 128 7"] by fastforce
qed

theorem tv_mode_enums_ok_witness:
  "tv_mode_enums 9 3 [''NTSC'', ''PAL''] ex_tvdev = None \<and>
   (\<exists>s'. tv_mode_enums 9 2 [''NTSC'', ''PAL''] ex_tvdev = Some s' \<and>
     lookup_property s' 9 = Some (ex_tvprop\<lparr>prop_values := [0, 1],
       prop_enum_list := [\<lparr>penum_value = 0, penum_name = ''NTSC''\<rparr>, \<lparr>penum_value = 1, penum_name = ''PAL''\<rparr>]\<rparr>))"
proof -
  have h: "lookup_property ex_tvdev 9 = Some ex_tvprop \<and> prop_has DRM_MODE_PROP_ENUM ex_tvprop \<and>
      prop_enum_list ex_tvprop = [] \<and> length (prop_values ex_tvprop) = 2 \<and> (2::nat) \<le> 2 ^ 64"
    by (simp add: drm_code)
  have "\<exists>s'. tv_mode_enums 9 2 [''NTSC'', ''PAL''] ex_tvdev = Some s' \<and>
     lookup_property s' 9 = Some (ex_tvprop\<lparr>prop_values := map of_nat [0..<2],
       prop_enum_list := map (\<lambda>i. \<lparr>penum_value = of_nat i,
         penum_name = take (DRM_PROP_NAME_LEN - 1) ([''NTSC'', ''PAL''] ! i)\<rparr>) [0..<2]\<rparr>)"
    using tv_mode_enums_ok [of ex_tvdev 9 ex_tvprop 2 "[''NTSC'', ''PAL'']"] h by simp
  moreover have "tv_mode_enums 9 3 [''NTSC'', ''PAL''] ex_tvdev = None"
    by (simp add: tv_mode_enums_def)
  ultimately show ?thesis by (simp add: upt_rec DRM_PROP_NAME_LEN_def)
qed

theorem drm_umode_roundtrip_witness:
  "drm_crtc_convert_to_umode (drm_crtc_convert_umode zero_mode (drm_crtc_convert_to_umode ex_mode_1080)) =
   drm_crtc_convert_to_umode ex_mode_1080"
proof -
  have "length (umode_name (drm_crtc_convert_to_umode ex_mode_1080)) < DRM_DISPLAY_MODE_LEN"
    by (simp add: drm_code)
  then show ?thesis by (rule drm_umode_roundtrip)
qed

theorem drm_probe_connected_witness:
  "map mode_id (modes (fst (probe_output ex_drv_probe 2048 2048
      (ex_output 3 output_status_connected [ex_mode_1080, ex_mode_720]) ex_dev))) = [10, 11] \<and>
   list_all (\<lambda>m. mode_status m = MODE_OK) (modes (fst (probe_output ex_drv_probe 2048 2048
      (ex_output 3 output_status_connected [ex_mode_1080, ex_mode_720]) ex_dev)))"
proof -
  have h: "drv_detect ex_drv_probe (output_id (ex_output 3 output_status_connected [ex_mode_1080, ex_mode_720]))
      \<noteq> output_status_disconnected \<and>
    probed_modes (ex_output 3 output_status_connected [ex_mode_1080, ex_mode_720]) = [] \<and>
    map mode_id (modes (fst (probe_output ex_drv_probe 2048 2048
      (ex_output 3 output_status_connected [ex_mode_1080, ex_mode_720]) ex_dev))) = [10, 11]"
    by (simp add: drm_code)
  then show ?thesis
    using drm_probe_connected [of ex_drv_probe "ex_output 3 output_status_connected [ex_mode_1080, ex_mode_720]"
        2048 2048 ex_dev] by (simp add: list_all_iff)
qed

theorem drm_probe_size_bound_witness:
  "list_all (\<lambda>m. hdisplay m \<le> 1280 \<and> vdisplay m \<le> 720) (modes (fst (probe_output ex_drv_probe 1280 720
      (ex_output 3 output_status_connected [ex_mode_1080, ex_mode_720]) ex_dev))) \<or>
   modes (fst (probe_output ex_drv_probe 1280 720
      (ex_output 3 output_status_connected [ex_mode_1080, ex_mode_720]) ex_dev)) =
     [std_mode\<lparr>mode_id := fst (mc_idr_get DRM_OBJ_MODE ex_dev), vrefresh := 60\<rparr>]"
proof -
  have h: "drv_detect ex_drv_probe (output_id (ex_output 3 output_status_connected [ex_mode_1080, ex_mode_720]))
      \<noteq> output_status_disconnected \<and>
    probed_modes (ex_output 3 output_status_connected [ex_mode_1080, ex_mode_720]) = [] \<and>
    (0::int) < 1280 \<and> (0::int) < 720"
    by (simp add: drm_code)
  then show ?thesis unfolding list_all_iff
    using drm_probe_size_bound [of ex_drv_probe "ex_output 3 output_status_connected [ex_mode_1080, ex_mode_720]"
        1280 720 ex_dev] by blast
qed

theorem drm_probe_fallback_witness:
  "modes (fst (probe_output ex_drv 2048 2048
      (ex_output 3 output_status_connected [ex_mode_1080, ex_mode_720]) ex_dev)) =
     [std_mode\<lparr>mode_id := fst (mc_idr_get DRM_OBJ_MODE ex_dev), vrefresh := 60\<rparr>] \<and>
   \<not> mode_preferred (hd (modes (fst (probe_output ex_drv 2048 2048
      (ex_output 3 output_status_connected [ex_mode_1080, ex_mode_720]) ex_dev))))"
proof -
  have h: "drv_detect ex_drv (output_id (ex_output 3 output_status_connected [ex_mode_1080, ex_mode_720]))
      \<noteq> output_status_disconnected \<and>
    probed_modes (ex_output 3 output_status_connected [ex_mode_1080, ex_mode_720]) = [] \<and>
    modes (probe_validate ex_drv 2048 2048
      (probe_mark ex_drv (ex_output 3 output_status_connected [ex_mode_1080, ex_mode_720]))) = []"
    by (simp add: drm_code)
  then show ?thesis
    using drm_probe_fallback [of ex_drv "ex_output 3 output_status_connected [ex_mode_1080, ex_mode_720]"
        2048 2048 ex_dev] by blast
qed

theorem drm_probe_disconnected_witness:
  "probe_output ex_drv_disc 2048 2048 (ex_output 3 output_status_connected [ex_mode_1080]) ex_dev =
    ((ex_output 3 output_status_connected [ex_mode_1080])\<lparr>
       modes := [ex_mode_1080\<lparr>mode_status := MODE_UNVERIFIED\<rparr>], output_status := output_status_disconnected\<rparr>,
     ex_dev)"
proof -
  have "drv_detect ex_drv_disc (output_id (ex_output 3 output_status_connected [ex_mode_1080])) =
      output_status_disconnected"
    by (simp add: drm_code)
  then show ?thesis using drm_probe_disconnected [of ex_drv_disc "ex_output 3 output_status_connected [ex_mode_1080]"
      2048 2048 ex_dev] by (simp add: ex_output_def)
qed

subsection \<open>The ioctls\<close>

theorem drm_mode_getcrtc_outputs_witness:
  "\<exists>r. drm_mode_getcrtc 1 ex_dev_second = Some (Inr r, ex_dev_second) \<and> crtc_reply_outputs r = 1"
proof -
  have h: "\<not> mutex_held ex_dev_second \<and> crtc_idr ex_dev_second 1 = Some DRM_OBJ_CRTC \<and>
      lookup_crtc ex_dev_second 1 = Some ((ex_crtc 1)\<lparr>crtc_enabled := True\<rparr>) \<and>
      crtc_enabled ((ex_crtc 1)\<lparr>crtc_enabled := True\<rparr>) \<and>
      length (filter (\<lambda>out. output_crtc out = Some 1) (output_list ex_dev_second)) = 1"
    by (simp add: drm_code)
  then show ?thesis
    using drm_mode_getcrtc_outputs [of ex_dev_second 1 "(ex_crtc 1)\<lparr>crtc_enabled := True\<rparr>"] by simp
qed

theorem drm_mode_replacefb_null_fb_witness:
  "drm_mode_replacefb ex_drv ex_objs 5 ex_fbcmd [5] ex_dev = None"
proof -
  have h: "\<not> mutex_held ex_dev \<and> ex_objs (fbc_handle ex_fbcmd) = Some True \<and>
      crtc_idr ex_dev 5 = Some DRM_OBJ_FB \<and> lookup_fb ex_dev 5 = Some ex_fb \<and> (5::nat) \<in> set [5] \<and>
      \<not> list_all (\<lambda>c. crtc_fb c \<noteq> None) (crtc_list ex_dev)"
    by (simp add: drm_code)
  then show ?thesis
    using drm_mode_replacefb_null_fb [of ex_dev ex_objs ex_fbcmd 5 ex_fb "[5]" ex_drv]
    by (auto simp: list_all_iff)
qed

theorem drm_mode_setcrtc_mode_leak_witness:
  "\<exists>s'. drm_mode_setcrtc ex_drv True (ex_creq\<lparr>req_fb_id := - 1, req_count_outputs := 0\<rparr>) ex_dev =
     Some (Inl EINVAL, s') \<and> crtc_idr ex_dev 6 = None \<and> crtc_idr s' 6 = Some DRM_OBJ_MODE"
proof -
  have h: "\<not> mutex_held ex_dev \<and> crtc_idr ex_dev 1 = Some DRM_OBJ_CRTC \<and>
      lookup_crtc ex_dev 1 = Some (ex_crtc 1) \<and> crtc_idr ex_dev 6 = None \<and>
      crtc_idr (snd (mc_idr_get DRM_OBJ_MODE ex_dev)) 6 = Some DRM_OBJ_MODE"
    by (simp add: drm_code)
  then show ?thesis
    using drm_mode_setcrtc_mode_leak [of ex_dev "ex_creq\<lparr>req_fb_id := - 1, req_count_outputs := 0\<rparr>"
        "ex_crtc 1" ex_drv True]
    by (simp add: ex_creq_def)
qed

theorem drm_mode_setcrtc_refines_witness:
  "drm_mode_setcrtc ex_drv True ex_creq ex_dev =
    with_lock (\<lambda>s1. drm_crtc_set_config ex_drv
      \<lparr>set_crtc = Some 1, set_fb = Some 5, set_x = 0, set_y = 0,
       set_mode = Some (drm_crtc_convert_umode (zero_mode\<lparr>mode_id := fst (mc_idr_get DRM_OBJ_MODE s1)\<rparr>)
                          (drm_crtc_convert_to_umode ex_mode_1080)),
       set_outputs = [3]\<rparr>
      (snd (mc_idr_get DRM_OBJ_MODE s1))) ex_dev"
proof -
  have h: "\<not> mutex_held ex_dev \<and> crtc_idr ex_dev (req_crtc_id ex_creq) = Some DRM_OBJ_CRTC \<and>
      lookup_crtc ex_dev (req_crtc_id ex_creq) = Some (ex_crtc 1) \<and> req_mode_valid ex_creq \<and>
      setcrtc_fb ex_creq (ex_crtc 1) ex_dev = Some (Inr (Some 5)) \<and>
      0 < req_count_outputs ex_creq \<and> req_count_outputs ex_creq \<le> length (req_outputs ex_creq) \<and>
      list_all (output_named ex_dev) (take (req_count_outputs ex_creq) (req_outputs ex_creq))"
    by (simp add: drm_code)
  then show ?thesis
    using drm_mode_setcrtc_refines [where s = ex_dev and req = ex_creq and crtc = "ex_crtc 1"
        and fb = "Some 5" and drv = ex_drv]
    by (simp add: ex_creq_def)
qed

theorem drm_mode_addfb_ok_witness:
  "\<exists>i s'. drm_mode_addfb ex_objs ex_fbcmd [] ex_dev = Some ((Inr i, [i]), s') \<and> i \<noteq> 0 \<and>
     mc_inv s' \<and> map_option fb_width (lookup_fb s' i) = Some 1024"
proof -
  have h: "mc_inv ex_dev \<and> \<not> mutex_held ex_dev \<and>
      fbc_width ex_fbcmd \<le> word_of_int (max_width ex_dev) \<and> word_of_int (min_width ex_dev) \<le> fbc_width ex_fbcmd \<and>
      fbc_height ex_fbcmd \<le> word_of_int (max_height ex_dev) \<and> word_of_int (min_height ex_dev) \<le> fbc_height ex_fbcmd \<and>
      ex_objs (fbc_handle ex_fbcmd) = Some True \<and> 1 \<le> (6::nat) \<and> 6 \<le> MAX_ID_MASK \<and> crtc_idr ex_dev 6 = None"
    by (simp add: drm_code mc_inv_defs)
  then show ?thesis
    using drm_mode_addfb_ok [where s = ex_dev and r = ex_fbcmd and objs = ex_objs and j = 6 and fbs = "[]"]
    by (auto simp: ex_fbcmd_def)
qed

theorem drm_mode_rmfb_ok_witness:
  "\<exists>s'. drm_mode_rmfb 5 [5] ex_dev = Some ((Inr (), []), s') \<and> mc_inv s' \<and> lookup_fb s' 5 = None"
proof -
  have h: "mc_inv ex_dev \<and> \<not> mutex_held ex_dev \<and> (5::nat) \<in> set [5] \<and> 5 \<in> fb_id ` set (fb_list ex_dev)"
    by (simp add: drm_code mc_inv_defs)
  then show ?thesis using drm_mode_rmfb_ok [of ex_dev 5 "[5]"] by auto
qed

theorem drm_mode_attach_detach_roundtrip_witness:
  "\<exists>s1. drm_mode_attachmode_ioctl 3 (drm_crtc_convert_to_umode ex_mode_720) ex_dev = Some (Inr (), s1) \<and>
     drm_mode_detachmode_ioctl 3 (drm_crtc_convert_to_umode ex_mode_720) s1 = Some (Inr (), ex_dev)"
proof -
  have h: "mc_inv ex_dev \<and> \<not> mutex_held ex_dev \<and> crtc_idr ex_dev 3 = Some DRM_OBJ_OUTPUT \<and>
      lookup_output ex_dev 3 = Some (ex_output 3 output_status_connected [ex_mode_1080, ex_mode_720]) \<and>
      \<not> list_ex (\<lambda>mm. drm_mode_equal mm (drm_crtc_convert_umode zero_mode (drm_crtc_convert_to_umode ex_mode_720)))
        (user_modes (ex_output 3 output_status_connected [ex_mode_1080, ex_mode_720]))"
    by (simp add: drm_code mc_inv_defs)
  then show ?thesis
    using drm_mode_attach_detach_roundtrip [of ex_dev 3 "ex_output 3 output_status_connected [ex_mode_1080, ex_mode_720]"
        "drm_crtc_convert_to_umode ex_mode_720"] by blast
qed

theorem drm_mode_addfb_exhausted_witness:
  "\<exists>s'. drm_mode_addfb ex_objs ex_fbcmd [] ex_dev_full = Some ((Inr 0, [0]), s') \<and> \<not> mc_inv s'"
proof -
  have h: "\<not> mutex_held ex_dev_full \<and>
      fbc_width ex_fbcmd \<le> word_of_int (max_width ex_dev_full) \<and> word_of_int (min_width ex_dev_full) \<le> fbc_width ex_fbcmd \<and>
      fbc_height ex_fbcmd \<le> word_of_int (max_height ex_dev_full) \<and> word_of_int (min_height ex_dev_full) \<le> fbc_height ex_fbcmd \<and>
      ex_objs (fbc_handle ex_fbcmd) = Some True \<and>
      (\<forall>j. 1 \<le> j \<and> j \<le> MAX_ID_MASK \<longrightarrow> crtc_idr ex_dev_full j \<noteq> None) \<and> crtc_idr ex_dev_full 0 = None"
    by (simp add: drm_code)
  then show ?thesis
    using drm_mode_addfb_exhausted [where s = ex_dev_full and r = ex_fbcmd and objs = ex_objs and fbs = "[]"]
    by auto
qed

theorem drm_mode_getoutput_stale_count_witness:
  "\<exists>r s'. drm_mode_getoutput ex_drv_probe 4 0 0 True ex_dev = Some (Inr r, s') \<and>
     oreply_count_modes r = 0 \<and> map_option (length \<circ> modes) (lookup_output s' 4) = Some 2"
proof -
  have h: "\<not> mutex_held ex_dev \<and> crtc_idr ex_dev 4 = Some DRM_OBJ_OUTPUT \<and>
      lookup_output ex_dev 4 = Some (ex_output 4 output_status_disconnected []) \<and>
      length (modes (ex_output 4 output_status_disconnected [])) = 0 \<and>
      length (modes (fst (probe_output ex_drv_probe (max_width ex_dev) (max_height ex_dev)
        (ex_output 4 output_status_disconnected []) ex_dev))) = 2"
    by (simp add: drm_code)
  then show ?thesis
    using drm_mode_getoutput_stale_count [of ex_dev 4 "ex_output 4 output_status_disconnected []" ex_drv_probe True]
    by auto
qed


subsection \<open>Initial configuration, hotplug, teardown\<close>

theorem drm_initial_config_returns_witness:
  "\<exists>s'. drm_initial_config ex_drv ex_hooks False ex_dev = Some (False, s') \<and> \<not> mutex_held s'"
proof -
  have h: "\<not> mutex_held ex_dev \<and> distinct (map output_id (output_list ex_dev)) \<and>
      (\<forall>c. drv_has_mode_set_base ex_drv c)"
    by (simp add: drm_code)
  then show ?thesis
    using drm_initial_config_returns [of ex_dev ex_drv ex_hooks False] ex_hooks_keep by blast
qed

theorem drm_hotplug_counter_witness:
  "drm_hotplug_stage_two ex_drv ex_hooks 4 False ex_dev = Some (0, ex_dev\<lparr>hotplug_counter := 1\<rparr>) \<and>
   fst (drm_mode_hotplug_ioctl (ex_dev\<lparr>hotplug_counter := 1\<rparr>)) = Suc (fst (drm_mode_hotplug_ioctl ex_dev))"
proof -
  have r: "drm_hotplug_stage_two ex_drv ex_hooks 4 False ex_dev = Some (0, ex_dev\<lparr>hotplug_counter := 1\<rparr>)"
    by (simp add: drm_code)
  then show ?thesis
    using drm_hotplug_counter [OF conjunct1 [OF conjunct2 [OF ex_hooks_keep]] r] by simp
qed

theorem drm_mode_config_cleanup_lock_witness:
  "drm_mode_config_cleanup ex_drv ex_hooks (\<lambda>_. False) (ex_dev\<lparr>mutex_held := True\<rparr>) = None \<and>
   (\<exists>s'. drm_mode_config_cleanup ex_drv ex_hooks (\<lambda>_. False) ex_dev = Some s' \<and>
     output_list s' = [] \<and> crtc_list s' = [])"
proof -
  have h: "output_list ex_dev \<noteq> [] \<and> distinct (map output_id (output_list ex_dev)) \<and>
      distinct (map crtc_id (crtc_list ex_dev)) \<and> \<not> mutex_held ex_dev"
    by (simp add: drm_code)
  have held: "drm_mode_config_cleanup ex_drv ex_hooks (\<lambda>_. False) (ex_dev\<lparr>mutex_held := True\<rparr>) = None"
    using drm_mode_config_cleanup_lock [of "ex_dev\<lparr>mutex_held := True\<rparr>" ex_hooks ex_drv "\<lambda>_. False"]
      h ex_hooks_keep by simp
  have free: "\<exists>s'. drm_mode_config_cleanup ex_drv ex_hooks (\<lambda>_. False) ex_dev = Some s' \<and>
     output_list s' = [] \<and> crtc_list s' = []"
    using drm_mode_config_cleanup_lock [of ex_dev ex_hooks ex_drv "\<lambda>_. False"] h ex_hooks_keep by auto
  show ?thesis using held free by blast
qed

subsection \<open>The cursor ioctl and the runs of a file\<close>

theorem drm_mode_cursor_set_error_lost_witness:
  "drm_mode_cursor_ioctl ex_cursor ex_objs ex_curreq ex_dev =
     Some (Inr (), log_hw [CrtcCursorSet 1 (Some 1) 64 64, CrtcCursorMove 1 10 20] ex_dev)"
proof -
  have "drm_mode_cursor_ioctl ex_cursor ex_objs ex_curreq ex_dev =
    Some (Inr (), log_hw [CrtcCursorSet (cursor_crtc ex_curreq) (Some 1) (cursor_width ex_curreq) (cursor_height ex_curreq),
                          CrtcCursorMove (cursor_crtc ex_curreq) (cursor_x ex_curreq) (cursor_y ex_curreq)] ex_dev)"
    by (rule drm_mode_cursor_set_error_lost [where crtc = "ex_crtc 1" and e = EINVAL]) (simp_all add: drm_code)
  then show ?thesis by (simp add: ex_curreq_def)
qed

theorem file_reach_unlocked_witness:
  "\<exists>s. file_reach ex_env ([], ex_dev) ([6], s) \<and> \<not> mutex_held s"
proof -
  have "\<exists>s. drm_file_step ex_env (IoAddFb ex_fbcmd) [] ex_dev = Some ((Inr (RFbId 6), [6]), s)"
    by (simp add: drm_code)
  then obtain s where st: "drm_file_step ex_env (IoAddFb ex_fbcmd) [] ex_dev = Some ((Inr (RFbId 6), [6]), s)" ..
  have r: "file_reach ex_env ([], ex_dev) ([6], s)"
    by (rule file_reach_step [OF file_reach_refl st])
  have "\<not> mutex_held ex_dev" by (simp add: drm_code)
  then show ?thesis using r file_reach_unlocked [OF r] by blast
qed

end
